(* ===== verification/Prelude.thy ===== *)
theory Prelude
  imports Main
begin

text \<open>
  Shared vocabulary of the development: the names of the model's JavaScript types,
  the Latin-1 letters that occur in the Portuguese texts of the sources, the
  JavaScript built-ins the sources call (\<open>Array.prototype.findIndex\<close>, object spread
  of an optional key, the first-match chains of \<open>if / else if\<close>), and the generic
  lemmas about them that the component theories share.
\<close>

section \<open>Collections of facts\<close>

named_theorems model_simps
  "equations of the model that evaluate a concrete call (tables, dispatchers)"
named_theorems store_simps
  "characteristic equations of the storage operations"

section \<open>JavaScript values\<close>

text \<open>
  A JavaScript \<open>number\<close> that the sources only ever fill with integers (slider values,
  \<open>parseInt\<close> results, millisecond counts) is an unbounded \<open>int\<close>. A \<open>Date\<close> is
  its millisecond count. A JavaScript string is a sequence of UTF-16 code units;
  every literal of the modelled sources lies in Latin-1, where a code unit is one
  byte, so a string is \<open>string\<close> (a \<open>char\<close> list) with one \<open>char\<close> per code
  unit. The accented letters are written by their code.
\<close>

type_synonym js_number = int
type_synonym js_date = int

abbreviation A_acu :: char where "A_acu \<equiv> CHR 0xC1"
abbreviation A_gra :: char where "A_gra \<equiv> CHR 0xC0"
abbreviation E_acu :: char where "E_acu \<equiv> CHR 0xC9"
abbreviation O_acu :: char where "O_acu \<equiv> CHR 0xD3"
abbreviation a_gra :: char where "a_gra \<equiv> CHR 0xE0"
abbreviation a_acu :: char where "a_acu \<equiv> CHR 0xE1"
abbreviation a_cir :: char where "a_cir \<equiv> CHR 0xE2"
abbreviation a_til :: char where "a_til \<equiv> CHR 0xE3"
abbreviation c_ced :: char where "c_ced \<equiv> CHR 0xE7"
abbreviation e_acu :: char where "e_acu \<equiv> CHR 0xE9"
abbreviation e_cir :: char where "e_cir \<equiv> CHR 0xEA"
abbreviation i_acu :: char where "i_acu \<equiv> CHR 0xED"
abbreviation o_acu :: char where "o_acu \<equiv> CHR 0xF3"
abbreviation o_cir :: char where "o_cir \<equiv> CHR 0xF4"
abbreviation o_til :: char where "o_til \<equiv> CHR 0xF5"
abbreviation u_acu :: char where "u_acu \<equiv> CHR 0xFA"

section \<open>Built-ins the sources call\<close>

text \<open>
  \<open>xs.findIndex(p)\<close>: the index of the first element satisfying \<open>p\<close>, or \<open>-1\<close>.
\<close>

fun js_findIndex :: "('a \<Rightarrow> bool) \<Rightarrow> 'a list \<Rightarrow> int" where
  "js_findIndex p [] = -1"
| "js_findIndex p (x # xs) =
     (if p x then 0 else (let i = js_findIndex p xs in if i < 0 then -1 else i + 1))"

text \<open>
  The object spread \<open>{...old, ...new}\<close> for one optional key: the new object's key
  wins when it is present.
\<close>

definition override_opt :: "'a option \<Rightarrow> 'a option \<Rightarrow> 'a option" where
  "override_opt old new = (case new of None \<Rightarrow> old | Some v \<Rightarrow> Some v)"

text \<open>
  An \<open>if (c1) return r1; else if (c2) return r2; \<dots> return d\<close> chain, as data: the
  first rule whose guard holds gives the result, the default otherwise. This is the
  abstract form of the suggestion chains of the afternoon moment.
\<close>

fun first_match :: "(('i \<Rightarrow> bool) \<times> 'r) list \<Rightarrow> 'r \<Rightarrow> 'i \<Rightarrow> 'r" where
  "first_match [] d x = d"
| "first_match ((g, r) # rs) d x = (if g x then r else first_match rs d x)"

text \<open>
  \<open>s.split(c)\<close> for a one-character separator: the pieces between separators, as
  many as there are separators plus one (so \<open>''.split(c)\<close> is \<open>['']\<close>).
\<close>

fun js_split :: "char \<Rightarrow> string \<Rightarrow> string list" where
  "js_split c [] = [[]]"
| "js_split c (x # xs) =
     (if x = c then [] # js_split c xs
      else (case js_split c xs of [] \<Rightarrow> [[x]] | w # ws \<Rightarrow> (x # w) # ws))"

text \<open>\<open>xs.join(c)\<close> for a one-character separator.\<close>

fun js_join :: "char \<Rightarrow> string list \<Rightarrow> string" where
  "js_join c [] = []"
| "js_join c [w] = w"
| "js_join c (w # v # ws) = w @ c # js_join c (v # ws)"

text \<open>
  \<open>s.trim()\<close>: drops the white space and line terminators at both ends. Of the
  characters JavaScript counts as such, those in Latin-1 are tab, line feed, vertical
  tab, form feed, carriage return, space and no-break space.
\<close>

definition is_js_space :: "char \<Rightarrow> bool" where
  "is_js_space c \<longleftrightarrow> c \<in> set [CHR 0x09, CHR 0x0A, CHR 0x0B, CHR 0x0C, CHR 0x0D, CHR 0x20, CHR 0xA0]"

definition js_trim :: "string \<Rightarrow> string" where
  "js_trim s = rev (dropWhile is_js_space (rev (dropWhile is_js_space s)))"

section \<open>Lemmas on the built-ins\<close>

lemma js_findIndex_neg_iff [simp]:
  "js_findIndex p xs < 0 \<longleftrightarrow> (\<forall>x \<in> set xs. \<not> p x)"
  by (induction xs) (auto simp: Let_def)

lemma js_findIndex_nonneg_iff:
  "0 \<le> js_findIndex p xs \<longleftrightarrow> (\<exists>x \<in> set xs. p x)"
  using js_findIndex_neg_iff [of p xs] by (simp add: not_less [symmetric])

lemma js_findIndex_ge: "-1 \<le> js_findIndex p xs"
  by (induction xs) (auto simp: Let_def)

lemma js_findIndex_found:
  assumes "0 \<le> js_findIndex p xs"
  shows "nat (js_findIndex p xs) < length xs \<and> p (xs ! nat (js_findIndex p xs))
    \<and> (\<forall>j < nat (js_findIndex p xs). \<not> p (xs ! j))"
  using assms
proof (induction xs)
  case Nil
  then show ?case by simp
next
  case (Cons x xs)
  show ?case
  proof (cases "p x")
    case True
    then show ?thesis by simp
  next
    case False
    with Cons.prems have ge: "0 \<le> js_findIndex p xs"
      by (simp add: Let_def del: js_findIndex_neg_iff split: if_splits)
    then have eq: "nat (js_findIndex p (x # xs)) = Suc (nat (js_findIndex p xs))"
      using False by (simp add: Let_def nat_add_distrib del: js_findIndex_neg_iff)
    from Cons.IH [OF ge] False show ?thesis
      unfolding eq by (auto simp: less_Suc_eq_0_disj)
  qed
qed

lemma override_opt_simps [simp]:
  "override_opt old None = old"
  "override_opt old (Some v) = Some v"
  by (simp_all add: override_opt_def)

lemma first_match_append:
  "first_match (rs @ ss) d x =
     (if \<exists>(g, r) \<in> set rs. g x then first_match rs d x else first_match ss d x)"
  by (induction rs) auto

lemma first_match_first [simp]:
  "g x \<Longrightarrow> first_match ((g, r) # rs) d x = r"
  by simp

lemma first_match_skip [simp]:
  "\<not> g x \<Longrightarrow> first_match ((g, r) # rs) d x = first_match rs d x"
  by simp

lemma first_match_default:
  "(\<forall>(g, r) \<in> set rs. \<not> g x) \<Longrightarrow> first_match rs d x = d"
  by (induction rs) auto

lemma first_match_cases:
  "first_match rs d x = d \<or> (\<exists>g. (g, first_match rs d x) \<in> set rs \<and> g x)"
proof (induction rs)
  case Nil
  then show ?case by simp
next
  case (Cons gr rs)
  obtain g r where gr: "gr = (g, r)" by fastforce
  show ?case
  proof (cases "g x")
    case True
    then show ?thesis by (auto simp: gr)
  next
    case False
    with Cons.IH show ?thesis by (auto simp: gr)
  qed
qed

lemma js_findIndex_nonneg_Cons:
  "\<not> p x \<Longrightarrow> 0 \<le> js_findIndex p xs \<Longrightarrow>
   nat (js_findIndex p (x # xs)) = Suc (nat (js_findIndex p xs))"
  by (simp add: Let_def nat_add_distrib del: js_findIndex_neg_iff)

lemma find_update_at_findIndex:
  "p y \<Longrightarrow> 0 \<le> js_findIndex p xs \<Longrightarrow>
   find p (xs[nat (js_findIndex p xs) := y]) = Some y"
proof (induction xs)
  case Nil
  then show ?case by simp
next
  case (Cons x xs)
  show ?case
  proof (cases "p x")
    case True
    with Cons.prems show ?thesis by simp
  next
    case False
    with Cons.prems have ge: "0 \<le> js_findIndex p xs"
      by (simp add: Let_def del: js_findIndex_neg_iff split: if_splits)
    with False Cons.IH Cons.prems(1) show ?thesis
      by (simp add: js_findIndex_nonneg_Cons del: js_findIndex.simps)
  qed
qed

lemma find_update_other:
  "\<not> q (xs ! i) \<Longrightarrow> \<not> q y \<Longrightarrow> find q (xs[i := y]) = find q xs"
proof (induction xs arbitrary: i)
  case Nil
  then show ?case by simp
next
  case (Cons x xs)
  then show ?case by (cases i) auto
qed

lemma find_append_opt:
  "find p (xs @ ys) = (case find p xs of None \<Rightarrow> find p ys | Some x \<Rightarrow> Some x)"
  by (induction xs) auto

lemma find_append_none:
  "\<forall>x \<in> set xs. \<not> p x \<Longrightarrow> find p (xs @ ys) = find p ys"
  by (induction xs) auto

lemma filter_update_other:
  "\<not> q (xs ! i) \<Longrightarrow> \<not> q y \<Longrightarrow> i < length xs \<Longrightarrow> filter q (xs[i := y]) = filter q xs"
proof (induction xs arbitrary: i)
  case Nil
  then show ?case by simp
next
  case (Cons x xs)
  then show ?case by (cases i) auto
qed

lemma js_split_nonempty [simp]: "js_split c s \<noteq> []"
  by (induction s) (auto split: list.split)

lemma js_join_cons_head: "js_join c ((x # w) # ws) = x # js_join c (w # ws)"
  by (cases ws) simp_all

lemma js_join_split: "js_join c (js_split c s) = s"
proof (induction s)
  case Nil
  then show ?case by simp
next
  case (Cons x xs)
  obtain w ws where sp: "js_split c xs = w # ws"
    using js_split_nonempty [of c xs] by (cases "js_split c xs") auto
  show ?case
  proof (cases "x = c")
    case True
    with Cons.IH sp show ?thesis by simp
  next
    case False
    with Cons.IH sp show ?thesis by (simp add: js_join_cons_head)
  qed
qed

lemma js_split_no_sep: "w \<in> set (js_split c s) \<Longrightarrow> c \<notin> set w"
proof (induction s arbitrary: w)
  case Nil
  then show ?case by simp
next
  case (Cons x xs)
  then show ?case
    by (cases "js_split c xs") (auto split: if_splits)
qed

lemma dropWhile_all_iff: "(\<forall>x \<in> set (dropWhile P xs). P x) \<longleftrightarrow> (\<forall>x \<in> set xs. P x)"
  by (induction xs) auto

lemma js_trim_empty_iff: "js_trim s = [] \<longleftrightarrow> (\<forall>c \<in> set s. is_js_space c)"
  by (simp add: js_trim_def dropWhile_eq_Nil_conv dropWhile_all_iff)

section \<open>Lemmas on lists of keyed records\<close>

lemma distinct_map_list_update:
  assumes "distinct (map f xs)" and "i < length xs" and "f y = f (xs ! i)"
  shows "distinct (map f (xs[i := y]))"
proof -
  have "map f (xs[i := y]) = map f xs" using assms(2,3) by (simp add: map_update list_update_same_conv)
  with assms(1) show ?thesis by simp
qed

end
