(* ===== verification/Types.thy ===== *)
theory Types
  imports Prelude
begin

text \<open>
  The data model of \<open>src/src/lib/types.ts\<close>: the string-literal union types become
  datatypes with one constructor per literal, the interfaces become records with one
  field per property, and a property marked optional (\<open>?\<close>) becomes an \<open>option\<close>.
  Record fields are global names in Isabelle, so the properties that several
  interfaces share are prefixed: \<open>id\<close> becomes \<open>profile_id\<close> and
  \<open>interaction_id\<close>, \<open>timestamp\<close> becomes \<open>m_timestamp\<close>, \<open>a_timestamp\<close>,
  \<open>n_timestamp\<close>.
\<close>

section \<open>Enumerations\<close>

datatype MoodType = Tired | Ok | Motivated | Down

datatype PriorityType = Work | Family | Money | Health | Relationship

datatype ConcernType = Dinner | Movie | Create | Advice

datatype DayRatingType = Better | Same | Worse

datatype MomentType = Morning | Afternoon | Night

section \<open>Records\<close>

record UserProfile =
  profile_id :: "string option"
  name :: string
  age :: js_number
  country :: string
  timezone :: string
  zodiacSign :: string
  gender :: "string option"
  foodPreferences :: "string list"
  movieGenres :: "string list"
  musicStyles :: "string list"
  wantsSunoPrompts :: bool
  mainGoal :: "string list"
  morningTime :: string
  afternoonTime :: string
  nightTime :: string
  createdAt :: "js_date option"

record MorningResponse =
  mood :: MoodType
  priority :: PriorityType
  m_timestamp :: js_date

record AfternoonResponse =
  dayRating :: js_number
  concern :: ConcernType
  a_timestamp :: js_date

record NightResponse =
  dayComparison :: DayRatingType
  didSomethingGood :: bool
  positiveThings :: "string list option"
  n_timestamp :: js_date

record DailyInteraction =
  interaction_id :: "string option"
  userId :: string
  date :: string
  morning :: "MorningResponse option"
  afternoon :: "AfternoonResponse option"
  night :: "NightResponse option"

record AIResponse =
  advice :: string
  action :: "string option"
  suggestion :: "string option"
  sunoPrompt :: "string option"

text \<open>
  The three shapes of object literal that \<open>ai-responses.ts\<close> returns, with the keys
  the literal leaves out as \<open>None\<close>.
\<close>

abbreviation advice_action :: "string \<Rightarrow> string \<Rightarrow> AIResponse" where
  "advice_action a b \<equiv> \<lparr>advice = a, action = Some b, suggestion = None, sunoPrompt = None\<rparr>"

abbreviation advice_suggestion :: "string \<Rightarrow> string \<Rightarrow> AIResponse" where
  "advice_suggestion a s \<equiv> \<lparr>advice = a, action = None, suggestion = Some s, sunoPrompt = None\<rparr>"

abbreviation advice_suggestion_prompt :: "string \<Rightarrow> string \<Rightarrow> string \<Rightarrow> AIResponse" where
  "advice_suggestion_prompt a s p \<equiv>
     \<lparr>advice = a, action = None, suggestion = Some s, sunoPrompt = Some p\<rparr>"

section \<open>A profile for concrete runs\<close>

text \<open>
  The witnesses of the development run the operations on this profile, with the
  preference lists and the music-prompt flag given and the other fields fixed.
\<close>

definition test_profile :: "string list \<Rightarrow> string list \<Rightarrow> string list \<Rightarrow> bool \<Rightarrow> UserProfile" where
  "test_profile foods genres styles wants =
     \<lparr>profile_id = None, name = ''Ana'', age = 30, country = ''Portugal'',
      timezone = ''Europe/Lisbon'', zodiacSign = ''Touro'', gender = None,
      foodPreferences = foods, movieGenres = genres, musicStyles = styles,
      wantsSunoPrompts = wants, mainGoal = [''Reduzir ansiedade''],
      morningTime = ''08:00'', afternoonTime = ''15:00'', nightTime = ''21:00'',
      createdAt = None\<rparr>"

lemma test_profile_sel [simp]:
  "foodPreferences (test_profile f g s w) = f"
  "movieGenres (test_profile f g s w) = g"
  "musicStyles (test_profile f g s w) = s"
  "wantsSunoPrompts (test_profile f g s w) = w"
  "profile_id (test_profile f g s w) = None"
  by (simp_all add: test_profile_def)

end
