(* ===== verification/Storage.thy ===== *)
theory Storage
  imports Types
begin

text \<open>
  The local store of \<open>src/src/lib/storage.ts\<close>. The browser's \<open>localStorage\<close> is
  seen through the three keys of \<open>STORAGE_KEYS\<close>, each holding the decoded value
  (\<open>None\<close> when the key is absent), together with whether \<open>window\<close> is defined
  (every operation is guarded by \<open>typeof window !== 'undefined'\<close>, false during
  server-side rendering). The JSON encoding is not modelled: a value reads back as it
  was written. Every operation takes the store and returns the new one or the value
  read.
\<close>

section \<open>State\<close>

datatype StorageKey = USER_PROFILE | DAILY_INTERACTIONS | ONBOARDING_COMPLETE

record Store =
  window_defined :: bool
  ls_user_profile :: "UserProfile option"
  ls_daily_interactions :: "DailyInteraction list option"
  ls_onboarding_complete :: "string option"

definition STORAGE_KEYS :: "StorageKey list" where
  "STORAGE_KEYS = [USER_PROFILE, DAILY_INTERACTIONS, ONBOARDING_COMPLETE]"

primrec removeItem :: "StorageKey \<Rightarrow> Store \<Rightarrow> Store" where
  "removeItem USER_PROFILE st = st\<lparr>ls_user_profile := None\<rparr>"
| "removeItem DAILY_INTERACTIONS st = st\<lparr>ls_daily_interactions := None\<rparr>"
| "removeItem ONBOARDING_COMPLETE st = st\<lparr>ls_onboarding_complete := None\<rparr>"

section \<open>Operations\<close>

definition saveUserProfile :: "UserProfile \<Rightarrow> Store \<Rightarrow> Store" where
  "saveUserProfile profile st =
     (if window_defined st
      then st\<lparr>ls_user_profile := Some profile, ls_onboarding_complete := Some ''true''\<rparr>
      else st)"

definition getUserProfile :: "Store \<Rightarrow> UserProfile option" where
  "getUserProfile st = (if window_defined st then ls_user_profile st else None)"

definition isOnboardingComplete :: "Store \<Rightarrow> bool" where
  "isOnboardingComplete st =
     (window_defined st \<and> ls_onboarding_complete st = Some ''true'')"

definition getDailyInteractions :: "Store \<Rightarrow> DailyInteraction list" where
  "getDailyInteractions st =
     (if window_defined st
      then (case ls_daily_interactions st of None \<Rightarrow> [] | Some xs \<Rightarrow> xs)
      else [])"

text \<open>
  \<open>{ ...interactions[existingIndex], ...interaction }\<close>: the keys the new object
  has win; the moment records it leaves out are kept from the stored one.
\<close>

definition merge_interaction :: "DailyInteraction \<Rightarrow> DailyInteraction \<Rightarrow> DailyInteraction" where
  "merge_interaction old new =
     \<lparr>interaction_id = override_opt (interaction_id old) (interaction_id new),
      userId = userId new, date = date new,
      morning = override_opt (morning old) (morning new),
      afternoon = override_opt (afternoon old) (afternoon new),
      night = override_opt (night old) (night new)\<rparr>"

definition same_day :: "DailyInteraction \<Rightarrow> DailyInteraction \<Rightarrow> bool" where
  "same_day interaction i \<longleftrightarrow> date i = date interaction \<and> userId i = userId interaction"

definition saveDailyInteraction :: "DailyInteraction \<Rightarrow> Store \<Rightarrow> Store" where
  "saveDailyInteraction interaction st =
     (if window_defined st then
        (let interactions = getDailyInteractions st;
             existingIndex = js_findIndex (same_day interaction) interactions;
             interactions' =
               (if 0 \<le> existingIndex
                then interactions[nat existingIndex :=
                       merge_interaction (interactions ! nat existingIndex) interaction]
                else interactions @ [interaction])
         in st\<lparr>ls_daily_interactions := Some interactions'\<rparr>)
      else st)"

text \<open>
  \<open>getTodayInteraction\<close> reads the clock for today's ISO date
  (\<open>new Date().toISOString().split('T')[0]\<close>); the model takes that date as an
  argument.
\<close>

definition getTodayInteraction :: "string \<Rightarrow> string \<Rightarrow> Store \<Rightarrow> DailyInteraction option" where
  "getTodayInteraction today uid st =
     find (\<lambda>i. date i = today \<and> userId i = uid) (getDailyInteractions st)"

definition clearAllData :: "Store \<Rightarrow> Store" where
  "clearAllData st = (if window_defined st then fold removeItem STORAGE_KEYS st else st)"

section \<open>Invariant and abstract view\<close>

text \<open>
  The invariant of the interaction log: at most one record per (date, user) pair.
  Its abstract view is a map from that pair to the record.
\<close>

definition day_key :: "DailyInteraction \<Rightarrow> string \<times> string" where
  "day_key i = (date i, userId i)"

definition log_unique :: "Store \<Rightarrow> bool" where
  "log_unique st \<longleftrightarrow> distinct (map day_key (getDailyInteractions st))"

definition log_map :: "DailyInteraction list \<Rightarrow> (string \<times> string) \<rightharpoonup> DailyInteraction" where
  "log_map xs k = find (\<lambda>i. day_key i = k) xs"

text \<open>The abstract operation \<open>saveDailyInteraction\<close> implements: an upsert.\<close>

definition upsert :: "((string \<times> string) \<rightharpoonup> DailyInteraction) \<Rightarrow> DailyInteraction \<Rightarrow>
    ((string \<times> string) \<rightharpoonup> DailyInteraction)" where
  "upsert m interaction =
     m(day_key interaction \<mapsto>
       (case m (day_key interaction) of
          None \<Rightarrow> interaction
        | Some old \<Rightarrow> merge_interaction old interaction))"

text \<open>
  A reference for the update of the log: one pass over the list that merges the new
  record into the first record of its day and appends it when there is none.
\<close>

fun upsert_list :: "DailyInteraction \<Rightarrow> DailyInteraction list \<Rightarrow> DailyInteraction list" where
  "upsert_list interaction [] = [interaction]"
| "upsert_list interaction (x # xs) =
     (if same_day interaction x then merge_interaction x interaction # xs
      else x # upsert_list interaction xs)"

definition empty_store :: Store where
  "empty_store = \<lparr>window_defined = True, ls_user_profile = None,
     ls_daily_interactions = None, ls_onboarding_complete = None\<rparr>"

section \<open>Characteristic lemmas\<close>

lemma same_day_day_key [simp]: "same_day interaction i \<longleftrightarrow> day_key i = day_key interaction"
  by (auto simp: same_day_def day_key_def)

lemma merge_interaction_key [simp]: "day_key (merge_interaction old new) = day_key new"
  by (simp add: merge_interaction_def day_key_def)

lemma getDailyInteractions_set [simp]:
  "window_defined st \<Longrightarrow> getDailyInteractions (st\<lparr>ls_daily_interactions := Some xs\<rparr>) = xs"
  by (simp add: getDailyInteractions_def)

lemma getDailyInteractions_save_found [store_simps]:
  "window_defined st \<Longrightarrow> 0 \<le> js_findIndex (same_day interaction) (getDailyInteractions st) \<Longrightarrow>
   getDailyInteractions (saveDailyInteraction interaction st) =
     (getDailyInteractions st)[nat (js_findIndex (same_day interaction) (getDailyInteractions st)) :=
        merge_interaction (getDailyInteractions st !
          nat (js_findIndex (same_day interaction) (getDailyInteractions st))) interaction]"
  by (simp add: saveDailyInteraction_def getDailyInteractions_def Let_def)

lemma getDailyInteractions_save_new [store_simps]:
  assumes "window_defined st"
    and "\<forall>x \<in> set (getDailyInteractions st). day_key x \<noteq> day_key interaction"
  shows "getDailyInteractions (saveDailyInteraction interaction st) =
           getDailyInteractions st @ [interaction]"
proof -
  have "\<not> 0 \<le> js_findIndex (same_day interaction) (getDailyInteractions st)"
    using assms(2) by (auto simp: js_findIndex_nonneg_iff)
  with assms(1) show ?thesis by (simp add: saveDailyInteraction_def Let_def)
qed

lemma merge_interaction_same_key:
  "day_key old = day_key new \<Longrightarrow>
   merge_interaction old new =
     old\<lparr>interaction_id := override_opt (interaction_id old) (interaction_id new),
         morning := override_opt (morning old) (morning new),
         afternoon := override_opt (afternoon old) (afternoon new),
         night := override_opt (night old) (night new)\<rparr>"
  by (simp add: merge_interaction_def day_key_def)

lemma window_saveDailyInteraction [simp]:
  "window_defined (saveDailyInteraction interaction st) = window_defined st"
  by (simp add: saveDailyInteraction_def Let_def)

lemma getUserProfile_saveDailyInteraction [simp]:
  "getUserProfile (saveDailyInteraction interaction st) = getUserProfile st"
  by (simp add: saveDailyInteraction_def getUserProfile_def Let_def)

lemma log_map_found:
  assumes "0 \<le> js_findIndex (same_day interaction) xs"
  shows "log_map xs (day_key interaction) = Some (xs ! nat (js_findIndex (same_day interaction) xs))"
proof -
  let ?k = "nat (js_findIndex (same_day interaction) xs)"
  from js_findIndex_found [OF assms] have "?k < length xs"
    and "same_day interaction (xs ! ?k)" and "\<forall>j < ?k. \<not> same_day interaction (xs ! j)"
    by auto
  then show ?thesis unfolding log_map_def
    by (simp add: find_Some_iff) (metis same_day_day_key)
qed

lemma log_map_getTodayInteraction:
  "getTodayInteraction d u st = log_map (getDailyInteractions st) (d, u)"
  by (simp add: getTodayInteraction_def log_map_def day_key_def)

lemma find_same_day_eq:
  "find (\<lambda>i. day_key i = day_key interaction) xs = find (same_day interaction) xs"
  by (simp add: same_day_day_key [abs_def])

lemma findIndex_update_upsert_list:
  "(let k = js_findIndex (same_day interaction) xs
    in if 0 \<le> k then xs[nat k := merge_interaction (xs ! nat k) interaction] else xs @ [interaction]) =
   upsert_list interaction xs"
proof (induction xs)
  case Nil
  then show ?case by simp
next
  case (Cons x xs)
  show ?case
  proof (cases "same_day interaction x")
    case True
    then show ?thesis by simp
  next
    case False
    let ?k = "js_findIndex (same_day interaction) xs"
    show ?thesis
    proof (cases "0 \<le> ?k")
      case True
      have "nat (?k + 1) = Suc (nat ?k)" using True by simp
      with True False Cons.IH show ?thesis by (simp add: Let_def del: js_findIndex_neg_iff same_day_day_key)
    next
      case neg: False
      with False Cons.IH show ?thesis by (simp add: Let_def del: js_findIndex_neg_iff same_day_day_key)
    qed
  qed
qed

section \<open>The log after a save\<close>

text \<open>
  The abstract view of a save, today's record after it, and the uniqueness of keys; the
  properties below and the moment pages use them.
\<close>

lemma log_map_saveDailyInteraction:
  assumes "window_defined st"
  shows "log_map (getDailyInteractions (saveDailyInteraction interaction st)) =
         upsert (log_map (getDailyInteractions st)) interaction"
proof
  fix k
  let ?xs = "getDailyInteractions st"
  let ?i = "js_findIndex (same_day interaction) ?xs"
  show "log_map (getDailyInteractions (saveDailyInteraction interaction st)) k =
        upsert (log_map ?xs) interaction k"
  proof (cases "0 \<le> ?i")
    case ge: True
    let ?y = "merge_interaction (?xs ! nat ?i) interaction"
    have save: "getDailyInteractions (saveDailyInteraction interaction st) = ?xs[nat ?i := ?y]"
      using assms ge by (rule getDailyInteractions_save_found)
    have key_i: "day_key (?xs ! nat ?i) = day_key interaction"
      using js_findIndex_found [OF ge] by simp
    show ?thesis
    proof (cases "k = day_key interaction")
      case True
      have "find (same_day interaction) (?xs[nat ?i := ?y]) = Some ?y"
        by (rule find_update_at_findIndex [OF _ ge]) simp
      then have "log_map (?xs[nat ?i := ?y]) k = Some ?y"
        using True by (simp add: log_map_def find_same_day_eq)
      moreover have "log_map ?xs (day_key interaction) = Some (?xs ! nat ?i)"
        using ge by (rule log_map_found)
      ultimately show ?thesis using True save by (simp add: upsert_def)
    next
      case False
      have "find (\<lambda>x. day_key x = k) (?xs[nat ?i := ?y]) = find (\<lambda>x. day_key x = k) ?xs"
        using False key_i by (intro find_update_other) simp_all
      with False save show ?thesis by (simp add: upsert_def log_map_def)
    qed
  next
    case False
    then have none: "\<forall>x \<in> set ?xs. day_key x \<noteq> day_key interaction"
      by (simp add: js_findIndex_nonneg_iff)
    then have save: "getDailyInteractions (saveDailyInteraction interaction st) = ?xs @ [interaction]"
      using assms by (intro getDailyInteractions_save_new)
    have old: "log_map ?xs (day_key interaction) = None"
      using none by (simp add: log_map_def find_None_iff)
    show ?thesis
    proof (cases "k = day_key interaction")
      case True
      with none save old show ?thesis
        by (simp add: upsert_def log_map_def find_append_none)
    next
      case False
      with save show ?thesis
        by (simp add: upsert_def log_map_def find_append_opt split: option.split)
    qed
  qed
qed

lemma log_unique_saveDailyInteraction:
  assumes "log_unique st"
  shows "log_unique (saveDailyInteraction interaction st)"
proof (cases "window_defined st")
  case False
  with assms show ?thesis by (simp add: saveDailyInteraction_def)
next
  case True
  let ?xs = "getDailyInteractions st"
  let ?i = "js_findIndex (same_day interaction) ?xs"
  show ?thesis
  proof (cases "0 \<le> ?i")
    case ge: True
    from js_findIndex_found [OF ge]
    have "nat ?i < length ?xs" and "day_key interaction = day_key (?xs ! nat ?i)" by auto
    with assms True ge show ?thesis
      by (simp add: log_unique_def getDailyInteractions_save_found distinct_map_list_update)
  next
    case False
    then have none: "\<forall>x \<in> set ?xs. day_key x \<noteq> day_key interaction"
      by (simp add: js_findIndex_nonneg_iff)
    then have "day_key interaction \<notin> set (map day_key ?xs)" by auto
    with assms True none show ?thesis
      by (simp add: log_unique_def getDailyInteractions_save_new)
  qed
qed

lemma getTodayInteraction_saveDailyInteraction:
  assumes "window_defined st"
  shows "getTodayInteraction (date interaction) (userId interaction)
           (saveDailyInteraction interaction st) =
         Some (case getTodayInteraction (date interaction) (userId interaction) st of
                 None \<Rightarrow> interaction
               | Some old \<Rightarrow>
                   old\<lparr>interaction_id := override_opt (interaction_id old) (interaction_id interaction),
                       morning := override_opt (morning old) (morning interaction),
                       afternoon := override_opt (afternoon old) (afternoon interaction),
                       night := override_opt (night old) (night interaction)\<rparr>)"
proof -
  let ?m = "log_map (getDailyInteractions st)"
  have key: "(date interaction, userId interaction) = day_key interaction"
    by (simp add: day_key_def)
  have lhs: "getTodayInteraction (date interaction) (userId interaction)
               (saveDailyInteraction interaction st) =
             Some (case ?m (day_key interaction) of None \<Rightarrow> interaction
                   | Some old \<Rightarrow> merge_interaction old interaction)"
    unfolding log_map_getTodayInteraction key log_map_saveDailyInteraction [OF assms]
    by (simp add: upsert_def)
  show ?thesis
  proof (cases "?m (day_key interaction)")
    case None
    with lhs show ?thesis by (simp add: log_map_getTodayInteraction key)
  next
    case (Some old)
    then have "day_key old = day_key interaction"
      by (auto simp: log_map_def find_Some_iff)
    with Some lhs show ?thesis
      by (simp add: log_map_getTodayInteraction key merge_interaction_same_key)
  qed
qed

section \<open>Properties of the interaction log\<close>

text \<open>
  Claim C7. Refinement: on the abstract view of the log as a map from (date, user) to
  the record, \<open>saveDailyInteraction\<close> is the upsert that stores the new record when
  the key is new and the merge of the stored record with the new one otherwise; no
  other key changes.
\<close>

theorem saveDailyInteraction_refines_upsert:
  assumes "window_defined st"
  shows "log_map (getDailyInteractions (saveDailyInteraction interaction st)) =
         upsert (log_map (getDailyInteractions st)) interaction"
  using assms by (rule log_map_saveDailyInteraction)

theorem saveDailyInteraction_refines_upsert_witness:
  "window_defined empty_store \<and>
   log_map (getDailyInteractions (saveDailyInteraction
     \<lparr>interaction_id = None, userId = ''user'', date = ''2026-11-09'',
      morning = None, afternoon = None, night = None\<rparr> empty_store)) =
   upsert (log_map (getDailyInteractions empty_store))
     \<lparr>interaction_id = None, userId = ''user'', date = ''2026-11-09'',
      morning = None, afternoon = None, night = None\<rparr>"
  using saveDailyInteraction_refines_upsert [of empty_store
      "\<lparr>interaction_id = None, userId = ''user'', date = ''2026-11-09'',
        morning = None, afternoon = None, night = None\<rparr>"]
  by (simp add: empty_store_def)

text \<open>
  Claim C8. Invariant: saving an interaction keeps the log free of duplicate
  (date, user) keys.
\<close>

theorem saveDailyInteraction_log_unique:
  assumes "log_unique st"
  shows "log_unique (saveDailyInteraction interaction st)"
  using assms by (rule log_unique_saveDailyInteraction)

theorem saveDailyInteraction_log_unique_witness:
  "log_unique empty_store \<and>
   log_unique (saveDailyInteraction
     \<lparr>interaction_id = None, userId = ''user'', date = ''2026-11-09'',
      morning = Some \<lparr>mood = Ok, priority = Work, m_timestamp = 0\<rparr>,
      afternoon = None, night = None\<rparr> empty_store)"
  using saveDailyInteraction_log_unique [of empty_store]
  by (simp add: log_unique_def empty_store_def getDailyInteractions_def)

text \<open>
  A save adds a record exactly when no record of the same date and user is
  stored, and otherwise leaves the length of the log unchanged.
\<close>

theorem saveDailyInteraction_length:
  assumes "window_defined st"
  shows "length (getDailyInteractions (saveDailyInteraction interaction st)) =
         length (getDailyInteractions st) +
         (if \<exists>i \<in> set (getDailyInteractions st). day_key i = day_key interaction then 0 else 1)"
proof (cases "\<exists>i \<in> set (getDailyInteractions st). day_key i = day_key interaction")
  case True
  then have "0 \<le> js_findIndex (same_day interaction) (getDailyInteractions st)"
    by (simp add: js_findIndex_nonneg_iff)
  with assms True show ?thesis by (simp add: getDailyInteractions_save_found)
next
  case False
  with assms show ?thesis by (simp add: getDailyInteractions_save_new)
qed

theorem saveDailyInteraction_length_witness:
  "window_defined empty_store \<and>
   length (getDailyInteractions (saveDailyInteraction
     \<lparr>interaction_id = None, userId = ''user'', date = ''2026-11-09'',
      morning = None, afternoon = None, night = None\<rparr> empty_store)) = 1"
  using saveDailyInteraction_length [of empty_store]
  by (simp add: empty_store_def getDailyInteractions_def)

text \<open>
  A save touches only the records of its own date and user: the records of
  every other day or user are kept, in their order.
\<close>

theorem saveDailyInteraction_frame:
  assumes "window_defined st"
  shows "filter (\<lambda>i. day_key i \<noteq> day_key interaction)
           (getDailyInteractions (saveDailyInteraction interaction st)) =
         filter (\<lambda>i. day_key i \<noteq> day_key interaction) (getDailyInteractions st)"
proof (cases "0 \<le> js_findIndex (same_day interaction) (getDailyInteractions st)")
  case True
  from js_findIndex_found [OF True] have
    "nat (js_findIndex (same_day interaction) (getDailyInteractions st)) < length (getDailyInteractions st)"
    "day_key (getDailyInteractions st ! nat (js_findIndex (same_day interaction) (getDailyInteractions st)))
       = day_key interaction"
    by auto
  with assms True show ?thesis
    by (simp add: getDailyInteractions_save_found filter_update_other)
next
  case False
  then have "\<forall>x \<in> set (getDailyInteractions st). day_key x \<noteq> day_key interaction"
    by (simp add: js_findIndex_nonneg_iff)
  with assms show ?thesis by (simp add: getDailyInteractions_save_new)
qed

theorem saveDailyInteraction_frame_witness:
  "window_defined empty_store \<and>
   filter (\<lambda>i. day_key i \<noteq> (''2026-11-09'', ''user''))
     (getDailyInteractions (saveDailyInteraction
       \<lparr>interaction_id = None, userId = ''user'', date = ''2026-11-09'',
        morning = None, afternoon = None, night = None\<rparr> empty_store)) = []"
  using saveDailyInteraction_frame [of empty_store
      "\<lparr>interaction_id = None, userId = ''user'', date = ''2026-11-09'',
        morning = None, afternoon = None, night = None\<rparr>"]
  by (simp add: empty_store_def getDailyInteractions_def day_key_def)

text \<open>
  Claim C25. Insert then lookup: after a save, today's record of that user is the new
  record when none was stored and otherwise the merge, in which every moment the new
  record leaves out keeps its stored answers.
\<close>

theorem saveDailyInteraction_today:
  assumes "window_defined st"
  shows "getTodayInteraction (date interaction) (userId interaction)
           (saveDailyInteraction interaction st) =
         Some (case getTodayInteraction (date interaction) (userId interaction) st of
                 None \<Rightarrow> interaction
               | Some old \<Rightarrow>
                   old\<lparr>interaction_id := override_opt (interaction_id old) (interaction_id interaction),
                       morning := override_opt (morning old) (morning interaction),
                       afternoon := override_opt (afternoon old) (afternoon interaction),
                       night := override_opt (night old) (night interaction)\<rparr>)"
  using assms by (rule getTodayInteraction_saveDailyInteraction)

theorem saveDailyInteraction_today_witness:
  "window_defined empty_store \<and>
   getTodayInteraction ''2026-11-09'' ''user''
     (saveDailyInteraction
       \<lparr>interaction_id = None, userId = ''user'', date = ''2026-11-09'',
        morning = None, afternoon = Some \<lparr>dayRating = 7, concern = Movie, a_timestamp = 2\<rparr>,
        night = None\<rparr>
       (saveDailyInteraction
         \<lparr>interaction_id = None, userId = ''user'', date = ''2026-11-09'',
          morning = Some \<lparr>mood = Ok, priority = Work, m_timestamp = 1\<rparr>,
          afternoon = None, night = None\<rparr> empty_store)) =
   Some \<lparr>interaction_id = None, userId = ''user'', date = ''2026-11-09'',
         morning = Some \<lparr>mood = Ok, priority = Work, m_timestamp = 1\<rparr>,
         afternoon = Some \<lparr>dayRating = 7, concern = Movie, a_timestamp = 2\<rparr>,
         night = None\<rparr>"
  using saveDailyInteraction_today [of
      "saveDailyInteraction
         \<lparr>interaction_id = None, userId = ''user'', date = ''2026-11-09'',
          morning = Some \<lparr>mood = Ok, priority = Work, m_timestamp = 1\<rparr>,
          afternoon = None, night = None\<rparr> empty_store"
      "\<lparr>interaction_id = None, userId = ''user'', date = ''2026-11-09'',
        morning = None, afternoon = Some \<lparr>dayRating = 7, concern = Movie, a_timestamp = 2\<rparr>,
        night = None\<rparr>"]
  by (simp add: empty_store_def saveDailyInteraction_def getDailyInteractions_def
      getTodayInteraction_def)

section \<open>Profile, flag and reset\<close>

text \<open>
  Claim C31. Saving a profile in the browser makes it the profile read back and marks
  the onboarding complete.
\<close>

theorem saveUserProfile_roundtrip:
  assumes "window_defined st"
  shows "getUserProfile (saveUserProfile profile st) = Some profile \<and>
         isOnboardingComplete (saveUserProfile profile st) \<and>
         getDailyInteractions (saveUserProfile profile st) = getDailyInteractions st"
  using assms
  by (simp add: saveUserProfile_def getUserProfile_def isOnboardingComplete_def
      getDailyInteractions_def)

theorem saveUserProfile_roundtrip_witness:
  "window_defined empty_store \<and>
   getUserProfile (saveUserProfile (test_profile [] [] [] False) empty_store) =
     Some (test_profile [] [] [] False) \<and>
   isOnboardingComplete (saveUserProfile (test_profile [] [] [] False) empty_store) \<and>
   getDailyInteractions (saveUserProfile (test_profile [] [] [] False) empty_store) =
     getDailyInteractions empty_store"
  using saveUserProfile_roundtrip [of empty_store "test_profile [] [] [] False"]
  by (simp add: empty_store_def)

text \<open>
  The reset removes all three keys: afterwards no profile is read, the
  onboarding is not complete and the interaction log is empty.
\<close>

theorem clearAllData_empties:
  "getUserProfile (clearAllData st) = None \<and> \<not> isOnboardingComplete (clearAllData st) \<and>
   getDailyInteractions (clearAllData st) = []"
  by (simp add: clearAllData_def STORAGE_KEYS_def getUserProfile_def
      isOnboardingComplete_def getDailyInteractions_def)

text \<open>
  Claim C33. Without a \<open>window\<close> (server-side rendering) every write leaves the
  store as it is and every read gives its empty answer.
\<close>

theorem no_window_noop:
  assumes "\<not> window_defined st"
  shows "saveUserProfile profile st = st \<and> saveDailyInteraction interaction st = st \<and>
         clearAllData st = st \<and> getUserProfile st = None \<and> \<not> isOnboardingComplete st \<and>
         getDailyInteractions st = [] \<and> getTodayInteraction d u st = None"
  using assms
  by (simp add: saveUserProfile_def saveDailyInteraction_def clearAllData_def
      getUserProfile_def isOnboardingComplete_def getDailyInteractions_def
      getTodayInteraction_def)

theorem no_window_noop_witness:
  "\<not> window_defined (empty_store\<lparr>window_defined := False\<rparr>) \<and>
   saveUserProfile (test_profile [] [] [] True) (empty_store\<lparr>window_defined := False\<rparr>) =
     empty_store\<lparr>window_defined := False\<rparr>"
  using no_window_noop [of "empty_store\<lparr>window_defined := False\<rparr>"
      "test_profile [] [] [] True"]
  by (simp add: empty_store_def)

text \<open>
  Claim C9. Equivalence: the save of \<open>storage.ts\<close>, a \<open>findIndex\<close> followed by an
  update at that index or a push, is the one-pass reference \<open>upsert_list\<close> on the stored
  log; without a window it changes nothing.
\<close>

theorem saveDailyInteraction_upsert_list:
  "saveDailyInteraction interaction st =
     (if window_defined st
      then st\<lparr>ls_daily_interactions := Some (upsert_list interaction (getDailyInteractions st))\<rparr>
      else st)"
  using findIndex_update_upsert_list [of interaction "getDailyInteractions st"]
  by (simp add: saveDailyInteraction_def Let_def)

end
