(* ===== verification/Home_Page.thy ===== *)
theory Home_Page
  imports Storage
begin

text \<open>
  The home page, \<open>src/src/app/page.tsx\<close>: the two hooks \<open>isLoading\<close> and
  \<open>userName\<close>, the mount effect \<open>checkOnboarding\<close> that redirects to the onboarding
  while it is not complete and otherwise greets the stored user, and the buttons of the
  loaded page: the three moment cards, the profile and the settings icons. While
  \<open>isLoading\<close> holds the page renders only a spinner, so no button is offered.
\<close>

record HomePage =
  hp_isLoading :: bool
  hp_userName :: string
  hp_store :: Store
  hp_route :: "string option"

definition home_init :: "Store \<Rightarrow> HomePage" where
  "home_init st = \<lparr>hp_isLoading = True, hp_userName = [], hp_store = st, hp_route = None\<rparr>"

definition checkOnboarding :: "HomePage \<Rightarrow> HomePage" where
  "checkOnboarding s =
     (if \<not> isOnboardingComplete (hp_store s) then s\<lparr>hp_route := Some ''/onboarding''\<rparr>
      else (case getUserProfile (hp_store s) of
              None \<Rightarrow> s
            | Some profile \<Rightarrow> s\<lparr>hp_userName := name profile\<rparr>)\<lparr>hp_isLoading := False\<rparr>)"

text \<open>The first render followed by the effect of \<open>useEffect(\<dots>, [router])\<close>.\<close>

definition home_mount :: "Store \<Rightarrow> HomePage" where
  "home_mount st = checkOnboarding (home_init st)"

text \<open>The \<open>moments\<close> cards: id, title and path (icons and gradients are styling).\<close>

definition moments :: "(string \<times> string \<times> string) list" where
  "moments =
     [(''morning'', ''Manh'' @ [a_til], ''/morning''), (''afternoon'', ''Tarde'', ''/afternoon''),
      (''night'', ''Noite'', ''/night'')]"

datatype HomeEvent = OpenMoment string | OpenProfile | OpenSettings

fun home_enabled :: "HomePage \<Rightarrow> HomeEvent \<Rightarrow> bool" where
  "home_enabled s (OpenMoment path) =
     (\<not> hp_isLoading s \<and> path \<in> set (map (\<lambda>(_, _, p). p) moments))"
| "home_enabled s OpenProfile = (\<not> hp_isLoading s)"
| "home_enabled s OpenSettings = (\<not> hp_isLoading s)"

fun home_event :: "HomeEvent \<Rightarrow> HomePage \<Rightarrow> HomePage" where
  "home_event (OpenMoment path) s = s\<lparr>hp_route := Some path\<rparr>"
| "home_event OpenProfile s = s\<lparr>hp_route := Some ''/profile''\<rparr>"
| "home_event OpenSettings s = s\<lparr>hp_route := Some ''/settings''\<rparr>"

section \<open>Lemmas on the mount effect\<close>

lemma home_mount_incomplete:
  "\<not> isOnboardingComplete st \<Longrightarrow>
   home_mount st = \<lparr>hp_isLoading = True, hp_userName = [], hp_store = st, hp_route = Some ''/onboarding''\<rparr>"
  by (simp add: home_mount_def checkOnboarding_def home_init_def)

lemma home_mount_complete:
  "isOnboardingComplete st \<Longrightarrow> getUserProfile st = Some profile \<Longrightarrow>
   home_mount st = \<lparr>hp_isLoading = False, hp_userName = name profile, hp_store = st, hp_route = None\<rparr>"
  by (simp add: home_mount_def checkOnboarding_def home_init_def)

lemma home_mount_store [simp]: "hp_store (home_mount st) = st"
  by (simp add: home_mount_def checkOnboarding_def home_init_def split: option.split)

end
