(* ===== verification/Settings_Page.thy ===== *)
theory Settings_Page
  imports Storage
begin

text \<open>
  The settings page, \<open>src/src/app/settings/page.tsx\<close>: the hook \<open>showConfirm\<close>, the
  handler \<open>handleReset\<close> (\<open>clearAllData\<close>, then a push to the onboarding), and the
  buttons: the header arrow, "Ver Hor\<dots>rios Configurados", and the danger zone,
  which shows "Apagar Todos os Dados" while \<open>showConfirm\<close> is false and "Cancelar"
  and "Sim, Apagar Tudo" once it is true.
\<close>

record SettingsPage =
  showConfirm :: bool
  sp_store :: Store
  sp_route :: "string option"

definition settings_init :: "Store \<Rightarrow> SettingsPage" where
  "settings_init st = \<lparr>showConfirm = False, sp_store = st, sp_route = None\<rparr>"

definition handleReset :: "SettingsPage \<Rightarrow> SettingsPage" where
  "handleReset s = s\<lparr>sp_store := clearAllData (sp_store s), sp_route := Some ''/onboarding''\<rparr>"

datatype SettingsEvent = SettingsHome | ShowSchedule | AskReset | CancelReset | ConfirmReset

fun settings_enabled :: "SettingsPage \<Rightarrow> SettingsEvent \<Rightarrow> bool" where
  "settings_enabled s SettingsHome = True"
| "settings_enabled s ShowSchedule = True"
| "settings_enabled s AskReset = (\<not> showConfirm s)"
| "settings_enabled s CancelReset = showConfirm s"
| "settings_enabled s ConfirmReset = showConfirm s"

fun settings_event :: "SettingsEvent \<Rightarrow> SettingsPage \<Rightarrow> SettingsPage" where
  "settings_event SettingsHome s = s\<lparr>sp_route := Some ''/''\<rparr>"
| "settings_event ShowSchedule s = s\<lparr>sp_route := Some ''/profile''\<rparr>"
| "settings_event AskReset s = s\<lparr>showConfirm := True\<rparr>"
| "settings_event CancelReset s = s\<lparr>showConfirm := False\<rparr>"
| "settings_event ConfirmReset s = handleReset s"

lemma settings_event_store:
  "sp_store (settings_event e s) = (if e = ConfirmReset then clearAllData (sp_store s) else sp_store s)"
  by (cases e) (simp_all add: handleReset_def)

end
