(* ===== verification/Profile_Page.thy ===== *)
theory Profile_Page
  imports Storage
begin

text \<open>
  The profile page, \<open>src/src/app/profile/page.tsx\<close>: it reads the stored profile
  while rendering, pushes the onboarding and renders nothing when there is none, and
  otherwise shows it with two buttons, the header arrow to \<open>/\<close> and "Editar Perfil",
  which pushes \<open>/settings\<close>. The rendered cards show the profile's fields as stored;
  the model keeps the profile shown, and the two conditional rows (the gender, the
  music-prompt note).
\<close>

record ProfilePage =
  pp_profile :: "UserProfile option"
  pp_store :: Store
  pp_route :: "string option"

definition profile_mount :: "Store \<Rightarrow> ProfilePage" where
  "profile_mount st =
     (case getUserProfile st of
        None \<Rightarrow> \<lparr>pp_profile = None, pp_store = st, pp_route = Some ''/onboarding''\<rparr>
      | Some profile \<Rightarrow> \<lparr>pp_profile = Some profile, pp_store = st, pp_route = None\<rparr>)"

text \<open>\<open>{profile.gender && \<dots>}\<close> and \<open>{profile.wantsSunoPrompts && \<dots>}\<close>.\<close>

definition gender_row :: "UserProfile \<Rightarrow> string option" where
  "gender_row profile =
     (case gender profile of None \<Rightarrow> None | Some g \<Rightarrow> if g = [] then None else Some g)"

definition suno_row :: "UserProfile \<Rightarrow> bool" where
  "suno_row profile = wantsSunoPrompts profile"

text \<open>
  The rendered page, card by card (lines 43--199): each card's title and its items, a
  labelled value, the age followed by \<open>anos\<close>, a labelled list of chips (one per
  element, in order), the list of goals, and the note on music prompts. Icons, the
  decorative emoji of the labels and the check marks of the goals are styling and left out.
\<close>

datatype ProfileItem =
    Field string string
  | AgeField js_number
  | Chips string "string list"
  | Goals "string list"
  | Note string

definition profile_view :: "UserProfile \<Rightarrow> (string \<times> ProfileItem list) list" where
  "profile_view profile =
     [(''Informa'' @ c_ced # o_til # ''es B'' @ a_acu # ''sicas'',
       [Field ''Nome'' (name profile), AgeField (age profile)] @
       (case gender_row profile of None \<Rightarrow> [] | Some g \<Rightarrow> [Field (''G'' @ e_acu # ''nero'') g]) @
       [Field ''Signo'' (zodiacSign profile)]),
      (''Localiza'' @ c_ced # a_til # ''o'',
       [Field (''Pa'' @ i_acu # ''s'') (country profile), Field (''Fuso Hor'' @ a_acu # ''rio'') (timezone profile)]),
      (''Hor'' @ a_acu # ''rios dos Momentos'',
       [Field (''Manh'' @ [a_til]) (morningTime profile), Field ''Tarde'' (afternoonTime profile),
        Field ''Noite'' (nightTime profile)]),
      (''Prefer'' @ e_cir # ''ncias'',
       [Chips ''Comidas Favoritas'' (foodPreferences profile),
        Chips (''G'' @ e_acu # ''neros de Filmes'') (movieGenres profile),
        Chips (''Estilos de M'' @ u_acu # ''sica'') (musicStyles profile)]),
      (''Objetivos'',
       [Goals (mainGoal profile)] @
       (if suno_row profile then [Note (''Recebes prompts para criar m'' @ u_acu # ''sicas no Suno'')] else []))]"

datatype ProfileEvent = ProfileHome | EditProfile

fun profile_enabled :: "ProfilePage \<Rightarrow> ProfileEvent \<Rightarrow> bool" where
  "profile_enabled s _ = (pp_profile s \<noteq> None)"

fun profile_event :: "ProfileEvent \<Rightarrow> ProfilePage \<Rightarrow> ProfilePage" where
  "profile_event ProfileHome s = s\<lparr>pp_route := Some ''/''\<rparr>"
| "profile_event EditProfile s = s\<lparr>pp_route := Some ''/settings''\<rparr>"

lemma profile_mount_store [simp]: "pp_store (profile_mount st) = st"
  by (simp add: profile_mount_def split: option.split)

lemma profile_event_store [simp]: "pp_store (profile_event e s) = pp_store s"
  by (cases e) simp_all

text \<open>
  Claim C13. The profile page shows the stored profile faithfully: two profiles render the
  same page exactly when they agree on every field the page shows (all fields but the
  \<open>id\<close> and \<open>createdAt\<close>, with an empty gender shown as no gender row).
\<close>

theorem profile_view_faithful:
  "profile_view p = profile_view q \<longleftrightarrow>
     name p = name q \<and> age p = age q \<and> gender_row p = gender_row q \<and>
     zodiacSign p = zodiacSign q \<and> country p = country q \<and> timezone p = timezone q \<and>
     morningTime p = morningTime q \<and> afternoonTime p = afternoonTime q \<and>
     nightTime p = nightTime q \<and> foodPreferences p = foodPreferences q \<and>
     movieGenres p = movieGenres q \<and> musicStyles p = musicStyles q \<and>
     mainGoal p = mainGoal q \<and> wantsSunoPrompts p = wantsSunoPrompts q"
  by (auto simp: profile_view_def suno_row_def split: option.splits)

end
