(* ===== verification/Morning_Advice.thy ===== *)
theory Morning_Advice
  imports Types
begin

text \<open>
  The morning moment of the advice engine, \<open>getMorningAdvice\<close> in
  \<open>src/src/lib/ai-responses.ts\<close>: a fixed table indexed by mood and priority
  (the local \<open>adviceMap\<close>), and, when the profile asks for music prompts, a prompt
  chosen from a second table indexed by mood alone (the local \<open>sunoPrompts\<close>). Both
  tables are built afresh on every call, so the in-place assignment
  \<open>response.sunoPrompt = ...\<close> never reaches a later call: the model updates the
  record it returns.
\<close>

section \<open>Definitions\<close>

fun adviceMap :: "MoodType \<Rightarrow> PriorityType \<Rightarrow> AIResponse" where
  "adviceMap Tired Work = advice_action
     (''Come'' @ c_ced # ''a devagar hoje. A tua energia vai aumentar ao longo do dia.'')
     (''Escolhe apenas 2 tarefas importantes e aceita que o resto pode esperar.'')"
| "adviceMap Tired Family = advice_action
     (''Mesmo cansado, pequenos gestos fazem diferen'' @ c_ced # ''a para quem amas.'')
     (''Envia uma mensagem carinhosa a algu'' @ e_acu # ''m especial hoje.'')"
| "adviceMap Tired Money = advice_action
     (''Decis'' @ o_til # ''es financeiras importantes podem esperar. Descansa primeiro.'')
     (''Rev'' @ e_cir # '' apenas o essencial das tuas finan'' @ c_ced # ''as hoje.'')"
| "adviceMap Tired Health = advice_action
     (''O teu corpo est'' @ a_acu # '' a pedir descanso. Ouve-o.'')
     (''Bebe '' @ a_acu # ''gua, faz pausas e dorme cedo hoje.'')"
| "adviceMap Tired Relationship = advice_action
     (''Rela'' @ c_ced # o_til # ''es precisam de energia. Cuida de ti primeiro.'')
     (''Comunica como te sentes e pede compreens'' @ a_til # ''o.'')"
| "adviceMap Ok Work = advice_action
     (''Est'' @ a_acu # ''s num bom ponto de equil'' @ i_acu # ''brio. Aproveita!'')
     (''Foca-te nas tarefas que exigem mais concentra'' @ c_ced # a_til # ''o agora.'')"
| "adviceMap Ok Family = advice_action
     (E_acu # '' um bom dia para estar presente com quem importa.'')
     (''Planeia um momento de qualidade com a fam'' @ i_acu # ''lia hoje.'')"
| "adviceMap Ok Money = advice_action
     (''Momento neutro '' @ e_acu # '' bom para decis'' @ o_til # ''es financeiras equilibradas.'')
     (''Rev'' @ e_cir # '' um objetivo financeiro e d'' @ a_acu # '' um pequeno passo.'')"
| "adviceMap Ok Health = advice_action
     (''Mant'' @ e_acu # ''m o ritmo. Consist'' @ e_cir # ''ncia '' @ e_acu # '' a chave.'')
     (''Faz pelo menos 20 minutos de movimento hoje.'')"
| "adviceMap Ok Relationship = advice_action
     (''Rela'' @ c_ced # o_til # ''es florescem com aten'' @ c_ced # a_til # ''o constante.'')
     (''Pergunta a algu'' @ e_acu # ''m especial como est'' @ a_acu # '' o dia dele.'')"
| "adviceMap Motivated Work = advice_action
     (''Aproveita esta energia! '' @ E_acu # '' o momento perfeito para avan'' @ c_ced # ''ar.'')
     (''Ataca aquela tarefa que tens adiado h'' @ a_acu # '' dias.'')"
| "adviceMap Motivated Family = advice_action
     (''A tua energia positiva contagia quem est'' @ a_acu # '' '' @ a_gra # '' tua volta.'')
     (''Surpreende algu'' @ e_acu # ''m da fam'' @ i_acu # ''lia com um gesto especial.'')"
| "adviceMap Motivated Money = advice_action
     (''Motiva'' @ c_ced # a_til # ''o '' @ e_acu # '' '' @ o_acu # ''tima, mas mant'' @ e_acu # ''m os p'' @ e_acu # ''s no ch'' @ a_til # ''o nas finan'' @ c_ced # ''as.'')
     (''Pesquisa uma forma de aumentar os teus rendimentos.'')"
| "adviceMap Motivated Health = advice_action
     (''Este '' @ e_acu # '' o dia perfeito para desafiar-te fisicamente!'')
     (''Experimenta um treino mais intenso ou uma nova atividade.'')"
| "adviceMap Motivated Relationship = advice_action
     (''Usa esta energia para fortalecer as tuas rela'' @ c_ced # o_til # ''es.'')
     (''Planeia algo especial para fazer com algu'' @ e_acu # ''m que amas.'')"
| "adviceMap Down Work = advice_action
     (''Dias dif'' @ i_acu # ''ceis fazem parte. S'' @ e_cir # '' gentil contigo mesmo.'')
     (''Faz apenas o essencial hoje. Amanh'' @ a_til # '' ser'' @ a_acu # '' melhor.'')"
| "adviceMap Down Family = advice_action
     (''Est'' @ a_acu # '' tudo bem n'' @ a_til # ''o estar bem. A fam'' @ i_acu # ''lia entende.'')
     (''Partilha como te sentes com algu'' @ e_acu # ''m de confian'' @ c_ced # ''a.'')"
| "adviceMap Down Money = advice_action
     (''N'' @ a_til # ''o tomes decis'' @ o_til # ''es financeiras importantes quando est'' @ a_acu # ''s em baixo.'')
     (''Adia decis'' @ o_til # ''es importantes. Foca-te em estabilizar primeiro.'')"
| "adviceMap Down Health = advice_action
     (''A sa'' @ u_acu # ''de mental '' @ e_acu # '' t'' @ a_til # ''o importante quanto a f'' @ i_acu # ''sica.'')
     (''Faz algo que te acalme: caminha, respira, descansa.'')"
| "adviceMap Down Relationship = advice_action
     (''Vulnerabilidade fortalece rela'' @ c_ced # o_til # ''es verdadeiras.'')
     (''Deixa algu'' @ e_acu # ''m cuidar de ti hoje. Aceita ajuda.'')"

fun sunoPrompts :: "MoodType \<Rightarrow> string" where
  "sunoPrompts Tired =
     ''Cria uma m'' @ u_acu # ''sica suave e relaxante, estilo lo-fi, para come'' @ c_ced # ''ar o dia com calma''"
| "sunoPrompts Ok =
     ''Cria uma m'' @ u_acu # ''sica equilibrada e positiva, estilo pop ac'' @ u_acu # ''stico, para manter o foco''"
| "sunoPrompts Motivated =
     ''Cria uma m'' @ u_acu # ''sica energ'' @ e_acu # ''tica e inspiradora, estilo pop/rock, para potenciar a motiva'' @ c_ced # a_til # ''o''"
| "sunoPrompts Down =
     ''Cria uma m'' @ u_acu # ''sica reconfortante e esperan'' @ c_ced # ''osa, estilo balada suave, para acolher as emo'' @ c_ced # o_til # ''es''"

definition getMorningAdvice :: "MoodType \<Rightarrow> PriorityType \<Rightarrow> UserProfile \<Rightarrow> AIResponse" where
  "getMorningAdvice m p profile =
     (let response = adviceMap m p
      in if wantsSunoPrompts profile
         then response\<lparr>sunoPrompt := Some (sunoPrompts m)\<rparr>
         else response)"

section \<open>The tables\<close>

lemma adviceMap_shape:
  "\<exists>a b. adviceMap m p = advice_action a b \<and> a \<noteq> [] \<and> b \<noteq> []"
  by (cases m; cases p) simp_all

lemma sunoPrompts_nonempty: "sunoPrompts m \<noteq> []"
  by (cases m) simp_all

lemma adviceMap_advice_inj:
  "advice (adviceMap m p) = advice (adviceMap m' p') \<Longrightarrow> m = m' \<and> p = p'"
  by (cases m; cases p; cases m'; cases p') simp_all

lemma sunoPrompts_inj: "sunoPrompts m = sunoPrompts m' \<Longrightarrow> m = m'"
  by (cases m; cases m') simp_all

section \<open>Properties of getMorningAdvice\<close>

lemma getMorningAdvice_sel [simp]:
  "advice (getMorningAdvice m p profile) = advice (adviceMap m p)"
  "action (getMorningAdvice m p profile) = action (adviceMap m p)"
  "suggestion (getMorningAdvice m p profile) = suggestion (adviceMap m p)"
  "sunoPrompt (getMorningAdvice m p profile) =
     (if wantsSunoPrompts profile then Some (sunoPrompts m) else sunoPrompt (adviceMap m p))"
  by (simp_all add: getMorningAdvice_def Let_def)

lemma adviceMap_no_extras [simp]:
  "suggestion (adviceMap m p) = None" "sunoPrompt (adviceMap m p) = None"
  using adviceMap_shape [of m p] by auto

text \<open>
  Claim C14. Every one of the twenty (mood, priority) pairs gives a response with a
  non-empty advice text, a non-empty action text, and no suggestion.
\<close>

theorem getMorningAdvice_total:
  "advice (getMorningAdvice m p profile) \<noteq> [] \<and>
   (\<exists>a. action (getMorningAdvice m p profile) = Some a \<and> a \<noteq> []) \<and>
   suggestion (getMorningAdvice m p profile) = None"
  using adviceMap_shape [of m p] by auto

text \<open>
  Claim C15. The morning response carries a music prompt exactly when the profile asks
  for music prompts, and an attached prompt is never empty.
\<close>

theorem getMorningAdvice_prompt_iff:
  "(sunoPrompt (getMorningAdvice m p profile) \<noteq> None \<longleftrightarrow> wantsSunoPrompts profile) \<and>
   sunoPrompt (getMorningAdvice m p profile) \<noteq> Some []"
  using sunoPrompts_nonempty [of m] by simp

text \<open>
  For a profile that asks for prompts, the music prompt depends on the mood
  only: changing the priority never changes it, and two calls get the same prompt
  exactly when their moods agree.
\<close>

theorem getMorningAdvice_prompt_by_mood:
  assumes "wantsSunoPrompts profile"
  shows "sunoPrompt (getMorningAdvice m p profile) = sunoPrompt (getMorningAdvice m p' profile) \<and>
    (sunoPrompt (getMorningAdvice m p profile) = sunoPrompt (getMorningAdvice m' q profile)
     \<longleftrightarrow> m = m')"
  using assms by (auto dest: sunoPrompts_inj)

theorem getMorningAdvice_prompt_by_mood_witness:
  "wantsSunoPrompts (test_profile [] [] [] True) \<and>
   sunoPrompt (getMorningAdvice Tired Work (test_profile [] [] [] True)) =
     sunoPrompt (getMorningAdvice Tired Money (test_profile [] [] [] True)) \<and>
   (sunoPrompt (getMorningAdvice Tired Work (test_profile [] [] [] True)) =
      sunoPrompt (getMorningAdvice Down Work (test_profile [] [] [] True))
    \<longleftrightarrow> Tired = Down)"
  using getMorningAdvice_prompt_by_mood [of "test_profile [] [] [] True" Tired Work Money Down Work]
  by simp

text \<open>
  The advice text identifies the (mood, priority) pair and does not depend
  on the profile: two calls give the same advice text exactly when they have the same
  mood and the same priority.
\<close>

theorem getMorningAdvice_advice_inj:
  "advice (getMorningAdvice m p profile) = advice (getMorningAdvice m' p' profile')
   \<longleftrightarrow> m = m' \<and> p = p'"
  by (auto dest: adviceMap_advice_inj)

text \<open>
  The end-to-end scenario of the specification: a motivated user whose
  priority is health, with music prompts off, gets exactly the advice and action of
  that table entry and no other key.
\<close>

theorem getMorningAdvice_motivated_health:
  assumes "\<not> wantsSunoPrompts profile"
  shows "getMorningAdvice Motivated Health profile =
    \<lparr>advice = ''Este '' @ e_acu # '' o dia perfeito para desafiar-te fisicamente!'',
     action = Some (''Experimenta um treino mais intenso ou uma nova atividade.''),
     suggestion = None, sunoPrompt = None\<rparr>"
  using assms by (simp add: getMorningAdvice_def)

theorem getMorningAdvice_motivated_health_witness:
  "\<not> wantsSunoPrompts (test_profile [] [] [] False) \<and>
   getMorningAdvice Motivated Health (test_profile [] [] [] False) =
    \<lparr>advice = ''Este '' @ e_acu # '' o dia perfeito para desafiar-te fisicamente!'',
     action = Some (''Experimenta um treino mais intenso ou uma nova atividade.''),
     suggestion = None, sunoPrompt = None\<rparr>"
  using getMorningAdvice_motivated_health [of "test_profile [] [] [] False"] by simp

end
