(* ===== verification/Page_Common.thy ===== *)
theory Page_Common
  imports Storage
begin

text \<open>
  What the three moment pages (\<open>app/morning\<close>, \<open>app/afternoon\<close>, \<open>app/night\<close>)
  share: the user key \<open>profile.id || 'user'\<close> of the record they save, the error of a
  non-null assertion (\<open>x!\<close>) met with \<open>null\<close>, a run of a page over a list of user
  events, and the reachable states of a page as a step relation over its initial
  states, its offered events and its handler, with the induction rule that proves
  its invariants.
\<close>

definition page_userId :: "UserProfile \<Rightarrow> string" where
  "page_userId profile =
     (case profile_id profile of None \<Rightarrow> ''user'' | Some i \<Rightarrow> if i = [] then ''user'' else i)"

text \<open>
  A handler that passes a \<open>null\<close> state value on with \<open>!\<close> into a table lookup of the
  engine throws a \<open>TypeError\<close>; the model returns \<open>NullSelection\<close>.
\<close>

datatype PageError = NullSelection

fun run_events :: "('e \<Rightarrow> 's \<Rightarrow> 'err + 's) \<Rightarrow> 'e list \<Rightarrow> 's \<Rightarrow> 'err + 's" where
  "run_events step [] s = Inr s"
| "run_events step (e # es) s =
     (case step e s of Inl err \<Rightarrow> Inl err | Inr s' \<Rightarrow> run_events step es s')"

inductive page_reachable ::
    "('s \<Rightarrow> bool) \<Rightarrow> ('s \<Rightarrow> 'e \<Rightarrow> bool) \<Rightarrow> ('e \<Rightarrow> 's \<Rightarrow> 'err + 's) \<Rightarrow> 's \<Rightarrow> bool"
  for init enabled step where
  start: "init s \<Longrightarrow> page_reachable init enabled step s"
| step: "page_reachable init enabled step s \<Longrightarrow> enabled s e \<Longrightarrow> step e s = Inr s' \<Longrightarrow>
         page_reachable init enabled step s'"

text \<open>The runs of enabled events stay among the reachable states.\<close>

fun all_enabled :: "('s \<Rightarrow> 'e \<Rightarrow> bool) \<Rightarrow> ('e \<Rightarrow> 's \<Rightarrow> 'err + 's) \<Rightarrow> 'e list \<Rightarrow> 's \<Rightarrow> bool" where
  "all_enabled enabled step [] s = True"
| "all_enabled enabled step (e # es) s =
     (enabled s e \<and> (case step e s of Inl _ \<Rightarrow> True | Inr s' \<Rightarrow> all_enabled enabled step es s'))"

lemma page_reachable_invariant:
  assumes "page_reachable init enabled step s"
    and "\<And>s. init s \<Longrightarrow> I s"
    and "\<And>s e s'. I s \<Longrightarrow> enabled s e \<Longrightarrow> step e s = Inr s' \<Longrightarrow> I s'"
  shows "I s"
  using assms(1) by induction (use assms(2,3) in blast)+

lemma run_events_reachable:
  "page_reachable init enabled step s \<Longrightarrow> all_enabled enabled step es s \<Longrightarrow>
   run_events step es s = Inr s' \<Longrightarrow> page_reachable init enabled step s'"
proof (induction es arbitrary: s)
  case (Cons e es)
  then show ?case
    by (auto split: sum.splits intro: page_reachable.step)
qed simp

text \<open>Runs compose: a run of \<open>xs @ ys\<close> is the run of \<open>ys\<close> after the run of \<open>xs\<close>.\<close>

lemma run_events_append:
  "run_events step (xs @ ys) s =
     (case run_events step xs s of Inl err \<Rightarrow> Inl err | Inr s' \<Rightarrow> run_events step ys s')"
  by (induction xs arbitrary: s) (auto split: sum.split)

lemma all_enabled_append:
  "run_events step xs s = Inr s' \<Longrightarrow>
   all_enabled enabled step (xs @ ys) s \<longleftrightarrow> all_enabled enabled step xs s \<and> all_enabled enabled step ys s'"
  by (induction xs arbitrary: s) (auto split: sum.splits)

lemma page_userId_nonempty [simp]: "page_userId profile \<noteq> []"
  by (simp add: page_userId_def split: option.split)

text \<open>
  Every page saves a record with no \<open>id\<close> and exactly one moment set; today's record
  after it keeps the stored moments the new record leaves out.
\<close>

lemma today_after_moment_save:
  assumes "window_defined st"
  shows "getTodayInteraction d u (saveDailyInteraction
           \<lparr>interaction_id = None, userId = u, date = d, morning = mo, afternoon = af,
            night = ni\<rparr> st) =
         Some (case getTodayInteraction d u st of
                 None \<Rightarrow> \<lparr>interaction_id = None, userId = u, date = d, morning = mo,
                          afternoon = af, night = ni\<rparr>
               | Some old \<Rightarrow> old\<lparr>morning := override_opt (morning old) mo,
                                 afternoon := override_opt (afternoon old) af,
                                 night := override_opt (night old) ni\<rparr>)"
  using getTodayInteraction_saveDailyInteraction [OF assms, of
      "\<lparr>interaction_id = None, userId = u, date = d, morning = mo, afternoon = af, night = ni\<rparr>"]
  by (simp split: option.split)

end
