(* ===== verification/Morning_Page.thy ===== *)
theory Morning_Page
  imports Morning_Advice Page_Common
begin

text \<open>
  The morning page, \<open>src/src/app/morning/page.tsx\<close>: the state of \<open>MorningPage\<close>
  (its \<open>useState\<close> hooks, the local store and the route pushed), its two choice
  handlers \<open>handleMoodSelect\<close> and \<open>handlePrioritySelect\<close> and the two buttons of
  the result card, and the events the rendered page offers. \<open>new Date()\<close> is read as
  two inputs of the priority choice: today's ISO date and the current time.
\<close>

definition MOODS :: "(MoodType \<times> string) list" where
  "MOODS = [(Tired, ''Cansado''), (Ok, ''Ok''), (Motivated, ''Motivado''), (Down, ''Em baixo'')]"

definition PRIORITIES :: "(PriorityType \<times> string) list" where
  "PRIORITIES =
     [(Work, ''Trabalho''), (Family, ''Fam'' @ i_acu # ''lia''), (Money, ''Dinheiro''),
      (Health, ''Sa'' @ u_acu # ''de''), (Relationship, ''Relacionamento'')]"

datatype MorningStep = MoodStep | PriorityStep | MorningResult

record MorningPage =
  mp_step :: MorningStep
  selectedMood :: "MoodType option"
  selectedPriority :: "PriorityType option"
  mp_advice :: "AIResponse option"
  mp_store :: Store
  mp_route :: "string option"

definition morning_init :: "Store \<Rightarrow> MorningPage" where
  "morning_init st =
     \<lparr>mp_step = MoodStep, selectedMood = None, selectedPriority = None, mp_advice = None,
      mp_store = st, mp_route = None\<rparr>"

definition morning_initial :: "MorningPage \<Rightarrow> bool" where
  "morning_initial s \<longleftrightarrow>
     mp_step s = MoodStep \<and> selectedMood s = None \<and> selectedPriority s = None \<and>
     mp_advice s = None \<and> mp_route s = None"

definition handleMoodSelect :: "MoodType \<Rightarrow> MorningPage \<Rightarrow> MorningPage" where
  "handleMoodSelect m s = s\<lparr>selectedMood := Some m, mp_step := PriorityStep\<rparr>"

definition handlePrioritySelect ::
    "PriorityType \<Rightarrow> string \<Rightarrow> js_date \<Rightarrow> MorningPage \<Rightarrow> PageError + MorningPage" where
  "handlePrioritySelect p today now s =
     (let s = s\<lparr>selectedPriority := Some p\<rparr> in
      case getUserProfile (mp_store s) of
        None \<Rightarrow> Inr (s\<lparr>mp_route := Some ''/onboarding''\<rparr>)
      | Some profile \<Rightarrow>
          (case selectedMood s of
             None \<Rightarrow> Inl NullSelection
           | Some m \<Rightarrow>
               (let response = getMorningAdvice m p profile;
                    morningResponse = \<lparr>mood = m, priority = p, m_timestamp = now\<rparr>
                in Inr (s\<lparr>mp_advice := Some response,
                          mp_store := saveDailyInteraction
                            \<lparr>interaction_id = None, userId = page_userId profile, date = today,
                             morning = Some morningResponse, afternoon = None, night = None\<rparr>
                            (mp_store s),
                          mp_step := MorningResult\<rparr>))))"

definition morning_redo :: "MorningPage \<Rightarrow> MorningPage" where
  "morning_redo s =
     s\<lparr>mp_step := MoodStep, selectedMood := None, selectedPriority := None, mp_advice := None\<rparr>"

text \<open>
  The events: a mood button, a priority button (with the clock), "Refazer", and the two
  buttons that push \<open>/\<close> (the header arrow and "Voltar ao In\<dots>cio").
\<close>

datatype MorningEvent =
    SelectMood MoodType | SelectPriority PriorityType string js_date | MorningRedo | MorningHome

fun morning_enabled :: "MorningPage \<Rightarrow> MorningEvent \<Rightarrow> bool" where
  "morning_enabled s (SelectMood m) = (mp_step s = MoodStep \<and> m \<in> fst ` set MOODS)"
| "morning_enabled s (SelectPriority p _ _) = (mp_step s = PriorityStep \<and> p \<in> fst ` set PRIORITIES)"
| "morning_enabled s MorningRedo = (mp_step s = MorningResult \<and> mp_advice s \<noteq> None)"
| "morning_enabled s MorningHome = True"

fun morning_event :: "MorningEvent \<Rightarrow> MorningPage \<Rightarrow> PageError + MorningPage" where
  "morning_event (SelectMood m) s = Inr (handleMoodSelect m s)"
| "morning_event (SelectPriority p today now) s = handlePrioritySelect p today now s"
| "morning_event MorningRedo s = Inr (morning_redo s)"
| "morning_event MorningHome s = Inr (s\<lparr>mp_route := Some ''/''\<rparr>)"

abbreviation morning_reachable :: "MorningPage \<Rightarrow> bool" where
  "morning_reachable \<equiv> page_reachable morning_initial morning_enabled morning_event"

text \<open>
  The invariant: on the priority step a mood is selected; on the result step the
  advice shown is the engine's answer for the two selections and the stored profile.
  The profile never changes on this page, since the page only saves interactions.
\<close>

definition morning_inv :: "MorningPage \<Rightarrow> bool" where
  "morning_inv s \<longleftrightarrow>
     (mp_step s = PriorityStep \<longrightarrow> selectedMood s \<noteq> None) \<and>
     (mp_step s = MorningResult \<longrightarrow>
        (case (selectedMood s, selectedPriority s, getUserProfile (mp_store s)) of
           (Some m, Some p, Some profile) \<Rightarrow> mp_advice s = Some (getMorningAdvice m p profile)
         | _ \<Rightarrow> False))"

section \<open>Lemmas on the handlers\<close>

lemma handlePrioritySelect_no_profile:
  "getUserProfile (mp_store s) = None \<Longrightarrow>
   handlePrioritySelect p today now s = Inr (s\<lparr>selectedPriority := Some p, mp_route := Some ''/onboarding''\<rparr>)"
  by (simp add: handlePrioritySelect_def)

lemma handlePrioritySelect_profile:
  "getUserProfile (mp_store s) = Some profile \<Longrightarrow> selectedMood s = Some m \<Longrightarrow>
   handlePrioritySelect p today now s =
     Inr (s\<lparr>selectedPriority := Some p, mp_advice := Some (getMorningAdvice m p profile),
            mp_store := saveDailyInteraction
              \<lparr>interaction_id = None, userId = page_userId profile, date = today,
               morning = Some \<lparr>mood = m, priority = p, m_timestamp = now\<rparr>,
               afternoon = None, night = None\<rparr> (mp_store s),
            mp_step := MorningResult\<rparr>)"
  by (simp add: handlePrioritySelect_def)

lemma morning_event_inv:
  assumes "morning_inv s" and "morning_enabled s e" and "morning_event e s = Inr s'"
  shows "morning_inv s'"
proof (cases e)
  case (SelectPriority p today now)
  show ?thesis
  proof (cases "getUserProfile (mp_store s)")
    case None
    with assms SelectPriority show ?thesis
      by (auto simp: morning_inv_def handlePrioritySelect_no_profile)
  next
    case (Some profile)
    with assms SelectPriority obtain m where "selectedMood s = Some m"
      by (auto simp: morning_inv_def)
    with assms SelectPriority Some show ?thesis
      by (auto simp: morning_inv_def handlePrioritySelect_profile)
  qed
qed (use assms in \<open>auto simp: morning_inv_def handleMoodSelect_def morning_redo_def
       split: option.splits\<close>)

lemma morning_reachable_inv:
  assumes "morning_reachable s"
  shows "morning_inv s"
  using assms
proof (rule page_reachable_invariant)
  show "morning_inv s" if "morning_initial s" for s
    using that by (simp add: morning_initial_def morning_inv_def)
qed (rule morning_event_inv)

lemma morning_offers_all [simp]:
  "m \<in> fst ` set MOODS" "p \<in> fst ` set PRIORITIES"
  by (cases m; force simp: MOODS_def) (cases p; force simp: PRIORITIES_def)

text \<open>The run of a mood and a priority choice over a store with a profile.\<close>

lemma morning_run_profile:
  assumes "getUserProfile st = Some profile"
  shows "run_events morning_event [SelectMood m, SelectPriority p today now] (morning_init st) =
         Inr \<lparr>mp_step = MorningResult, selectedMood = Some m, selectedPriority = Some p,
              mp_advice = Some (getMorningAdvice m p profile),
              mp_store = saveDailyInteraction
                \<lparr>interaction_id = None, userId = page_userId profile, date = today,
                 morning = Some \<lparr>mood = m, priority = p, m_timestamp = now\<rparr>,
                 afternoon = None, night = None\<rparr> st,
              mp_route = None\<rparr>"
  using assms by (simp add: morning_init_def handleMoodSelect_def handlePrioritySelect_profile)

section \<open>Properties of the morning page\<close>

text \<open>
  No button the morning page offers in a reachable state throws: when a
  priority is chosen, the mood that \<open>selectedMood!\<close> asserts is always set.
\<close>

theorem morning_page_progress:
  assumes "morning_reachable s" and "morning_enabled s e"
  shows "\<exists>s'. morning_event e s = Inr s'"
proof (cases e)
  case (SelectPriority p today now)
  have "morning_inv s" using assms(1) by (rule morning_reachable_inv)
  with assms(2) SelectPriority obtain m where m: "selectedMood s = Some m"
    by (auto simp: morning_inv_def)
  show ?thesis
    using SelectPriority m
    by (cases "getUserProfile (mp_store s)")
       (simp_all add: handlePrioritySelect_no_profile handlePrioritySelect_profile)
qed simp_all

theorem morning_page_progress_witness:
  "morning_reachable (morning_init empty_store) \<and>
   morning_enabled (morning_init empty_store) (SelectMood Ok) \<and>
   (\<exists>s'. morning_event (SelectMood Ok) (morning_init empty_store) = Inr s')"
proof -
  have r: "morning_reachable (morning_init empty_store)"
    by (rule page_reachable.start) (simp add: morning_initial_def morning_init_def)
  have e: "morning_enabled (morning_init empty_store) (SelectMood Ok)"
    by (simp add: morning_init_def)
  show ?thesis using morning_page_progress [OF r e] r e by blast
qed

text \<open>
  On the result card of a reachable state, the advice shown is
  \<open>getMorningAdvice\<close> of the mood and priority selected and of the stored profile.
\<close>

theorem morning_result_advice:
  assumes "morning_reachable s" and "mp_step s = MorningResult"
  shows "\<exists>m p profile. selectedMood s = Some m \<and> selectedPriority s = Some p \<and>
           getUserProfile (mp_store s) = Some profile \<and>
           mp_advice s = Some (getMorningAdvice m p profile)"
  using morning_reachable_inv [OF assms(1)] assms(2)
  by (auto simp: morning_inv_def split: option.splits)

theorem morning_result_advice_witness:
  "morning_reachable (projr (run_events morning_event [SelectMood Ok, SelectPriority Work ''2026-11-09'' 5]
     (morning_init (saveUserProfile (test_profile [] [] [] False) empty_store)))) \<and>
   mp_step (projr (run_events morning_event [SelectMood Ok, SelectPriority Work ''2026-11-09'' 5]
     (morning_init (saveUserProfile (test_profile [] [] [] False) empty_store)))) = MorningResult \<and>
   mp_advice (projr (run_events morning_event [SelectMood Ok, SelectPriority Work ''2026-11-09'' 5]
     (morning_init (saveUserProfile (test_profile [] [] [] False) empty_store)))) =
     Some (getMorningAdvice Ok Work (test_profile [] [] [] False))"
proof -
  let ?st = "saveUserProfile (test_profile [] [] [] False) empty_store"
  let ?es = "[SelectMood Ok, SelectPriority Work ''2026-11-09'' 5]"
  have g: "getUserProfile ?st = Some (test_profile [] [] [] False)"
    by (simp add: saveUserProfile_def getUserProfile_def empty_store_def)
  have run: "run_events morning_event ?es (morning_init ?st) =
               Inr (projr (run_events morning_event ?es (morning_init ?st)))"
    using morning_run_profile [OF g] by simp
  have r0: "morning_reachable (morning_init ?st)"
    by (rule page_reachable.start) (simp add: morning_initial_def morning_init_def)
  have en: "all_enabled morning_enabled morning_event ?es (morning_init ?st)"
    by (simp add: morning_init_def handleMoodSelect_def split: sum.split)
  have r: "morning_reachable (projr (run_events morning_event ?es (morning_init ?st)))"
    by (rule run_events_reachable [OF r0 en run])
  have st: "mp_step (projr (run_events morning_event ?es (morning_init ?st))) = MorningResult"
    using morning_run_profile [OF g] by simp
  obtain m p profile where
    "selectedMood (projr (run_events morning_event ?es (morning_init ?st))) = Some m"
    "selectedPriority (projr (run_events morning_event ?es (morning_init ?st))) = Some p"
    "getUserProfile (mp_store (projr (run_events morning_event ?es (morning_init ?st)))) = Some profile"
    "mp_advice (projr (run_events morning_event ?es (morning_init ?st))) = Some (getMorningAdvice m p profile)"
    using morning_result_advice [OF r st] by blast
  with morning_run_profile [OF g] g r st show ?thesis by simp
qed

text \<open>
  Claim C23. The whole morning flow: with a stored profile, a mood and then a priority
  are offered and taken, the result shows the engine's advice, and today's record of
  the user holds the new morning answer with its time stamp, the afternoon and night
  answers stored before kept.
\<close>

theorem morning_flow:
  assumes "window_defined st" and "getUserProfile st = Some profile"
  shows "all_enabled morning_enabled morning_event [SelectMood m, SelectPriority p today now]
           (morning_init st) \<and>
         (\<exists>s. run_events morning_event [SelectMood m, SelectPriority p today now] (morning_init st) = Inr s \<and>
            mp_step s = MorningResult \<and> mp_advice s = Some (getMorningAdvice m p profile) \<and>
            getTodayInteraction today (page_userId profile) (mp_store s) =
              Some (case getTodayInteraction today (page_userId profile) st of
                      None \<Rightarrow> \<lparr>interaction_id = None, userId = page_userId profile, date = today,
                               morning = Some \<lparr>mood = m, priority = p, m_timestamp = now\<rparr>,
                               afternoon = None, night = None\<rparr>
                    | Some old \<Rightarrow> old\<lparr>morning := Some \<lparr>mood = m, priority = p, m_timestamp = now\<rparr>\<rparr>))"
  using assms
  by (simp add: morning_init_def handleMoodSelect_def handlePrioritySelect_profile
      today_after_moment_save split: option.split)

theorem morning_flow_witness:
  "window_defined (saveUserProfile (test_profile [] [] [] True) empty_store) \<and>
   getUserProfile (saveUserProfile (test_profile [] [] [] True) empty_store) =
     Some (test_profile [] [] [] True) \<and>
   getTodayInteraction ''2026-11-09'' ''user''
     (mp_store (projr (run_events morning_event [SelectMood Motivated, SelectPriority Health ''2026-11-09'' 7]
        (morning_init (saveUserProfile (test_profile [] [] [] True) empty_store))))) =
     Some \<lparr>interaction_id = None, userId = ''user'', date = ''2026-11-09'',
           morning = Some \<lparr>mood = Motivated, priority = Health, m_timestamp = 7\<rparr>,
           afternoon = None, night = None\<rparr>"
proof -
  have w: "window_defined (saveUserProfile (test_profile [] [] [] True) empty_store)"
    and g: "getUserProfile (saveUserProfile (test_profile [] [] [] True) empty_store) =
              Some (test_profile [] [] [] True)"
    by (simp_all add: saveUserProfile_def getUserProfile_def empty_store_def)
  have u: "page_userId (test_profile [] [] [] True) = ''user''"
    by (simp add: page_userId_def)
  have t: "getTodayInteraction ''2026-11-09'' ''user''
             (saveUserProfile (test_profile [] [] [] True) empty_store) = None"
    by (simp add: getTodayInteraction_def getDailyInteractions_def saveUserProfile_def empty_store_def)
  show ?thesis
    using morning_flow [OF w g, of Motivated Health "''2026-11-09''" 7] w g u t by auto
qed

text \<open>
  Claim C29. Without a stored profile, choosing the priority redirects to the onboarding:
  no advice is shown, nothing is saved and the page stays on the priority step.
\<close>

theorem morning_no_profile_redirect:
  assumes "getUserProfile st = None"
  shows "run_events morning_event [SelectMood m, SelectPriority p today now] (morning_init st) =
           Inr \<lparr>mp_step = PriorityStep, selectedMood = Some m, selectedPriority = Some p,
                mp_advice = None, mp_store = st, mp_route = Some ''/onboarding''\<rparr>"
  using assms by (simp add: morning_init_def handleMoodSelect_def handlePrioritySelect_no_profile)

theorem morning_no_profile_redirect_witness:
  "getUserProfile empty_store = None \<and>
   run_events morning_event [SelectMood Down, SelectPriority Money ''2026-11-09'' 7] (morning_init empty_store) =
     Inr \<lparr>mp_step = PriorityStep, selectedMood = Some Down, selectedPriority = Some Money,
          mp_advice = None, mp_store = empty_store, mp_route = Some ''/onboarding''\<rparr>"
  using morning_no_profile_redirect [of empty_store Down Money "''2026-11-09''" 7]
  by (simp add: getUserProfile_def empty_store_def)

end
