(* ===== verification/Afternoon_Advice.thy ===== *)
theory Afternoon_Advice
  imports Types
begin

text \<open>
  The afternoon moment of the advice engine, \<open>getAfternoonSuggestion\<close> in
  \<open>src/src/lib/ai-responses.ts\<close>: a record \<open>suggestions\<close> of four closures over the
  profile, one per concern, each a chain of \<open>if / else if\<close> rules on the day rating
  and the profile's preference lists (\<open>Array.includes\<close> is membership in the list),
  and the dispatch on the concern. Each closure is one definition here, taking the
  profile it closes over as its first argument.
\<close>

section \<open>Definitions\<close>

definition suggestions_dinner :: "UserProfile \<Rightarrow> js_number \<Rightarrow> AIResponse" where
  "suggestions_dinner profile rating =
     (let foods = foodPreferences profile; isGoodDay = 6 \<le> rating
      in if (''saud'' @ a_acu # ''vel'') \<in> set foods \<and> isGoodDay then
        advice_suggestion
          (''O dia est'' @ a_acu # '' a correr bem! Mant'' @ e_acu # ''m a energia com algo nutritivo.'')
          (''Que tal um salm'' @ a_til # ''o grelhado com legumes assados e quinoa? Simples e delicioso.'')
      else if ''fast food'' \<in> set foods \<and> \<not> isGoodDay then
        advice_suggestion
          (''Dias dif'' @ i_acu # ''ceis pedem conforto. Est'' @ a_acu # '' tudo bem.'')
          (''Um hamb'' @ u_acu # ''rguer caseiro ou uma pizza pode ser exatamente o que precisas hoje.'')
      else if ''massa'' \<in> set foods then
        advice_suggestion
          (''Massa '' @ e_acu # '' sempre uma boa escolha!'')
          (''Esparguete '' @ a_gra # '' carbonara ou penne ao pesto. R'' @ a_acu # ''pido e reconfortante.'')
      else if ''sushi'' \<in> set foods then
        advice_suggestion
          (''Sushi '' @ e_acu # '' uma excelente op'' @ c_ced # a_til # ''o equilibrada.'')
          (''Pede um combinado variado ou faz temaki em casa - '' @ e_acu # '' mais f'' @ a_acu # ''cil do que parece!'')
      else
        advice_suggestion
          (''Escolhe algo que te fa'' @ c_ced # ''a sentir bem.'')
          (''Um prato que gostes, feito com calma. A comida tamb'' @ e_acu # ''m '' @ e_acu # '' autocuidado.''))"

definition suggestions_movie :: "UserProfile \<Rightarrow> js_number \<Rightarrow> AIResponse" where
  "suggestions_movie profile rating =
     (let genres = movieGenres profile; isGoodDay = 6 \<le> rating
      in if isGoodDay \<and> (''com'' @ e_acu # ''dia'') \<in> set genres then
        advice_suggestion
          (''O dia est'' @ a_acu # '' bom! Continua com algo leve e divertido.'')
          (''Uma com'' @ e_acu # ''dia rom'' @ a_cir # ''ntica ou um stand-up comedy. Rir faz sempre bem!'')
      else if \<not> isGoodDay \<and> ''drama'' \<in> set genres then
        advice_suggestion
          (A_gra # ''s vezes precisamos de algo que nos fa'' @ c_ced # ''a sentir compreendidos.'')
          (''Um drama emocional pode ajudar a processar o dia. Escolhe algo que ressoe contigo.'')
      else if (''a'' @ c_ced # a_til # ''o'') \<in> set genres then
        advice_suggestion
          (''A'' @ c_ced # a_til # ''o para desligar a mente!'')
          (''Um filme de a'' @ c_ced # a_til # ''o ou aventura para te transportar para outro mundo.'')
      else if ''romance'' \<in> set genres then
        advice_suggestion
          (''Romance para aquecer o cora'' @ c_ced # a_til # ''o.'')
          (''Um romance que te fa'' @ c_ced # ''a acreditar no amor e nas conex'' @ o_til # ''es humanas.'')
      else
        advice_suggestion
          (''Escolhe algo que te apete'' @ c_ced # ''a ver.'')
          (''Segue a tua intui'' @ c_ced # a_til # ''o. O melhor filme '' @ e_acu # '' aquele que te chama agora.''))"

definition suggestions_create :: "UserProfile \<Rightarrow> js_number \<Rightarrow> AIResponse" where
  "suggestions_create profile rating =
     (if \<not> wantsSunoPrompts profile then
        advice_suggestion
          (''Criar '' @ e_acu # '' uma forma poderosa de expressar o que sentes.'')
          (''Escreve, desenha, fotografa... deixa a criatividade fluir sem julgamento.'')
      else
        let styles = musicStyles profile; isGoodDay = 6 \<le> rating
        in if isGoodDay \<and> ''pop'' \<in> set styles then
          advice_suggestion_prompt
          (''Canaliza esta energia positiva para criar!'')
          (''Cria algo alegre e dan'' @ c_ced # ''ante.'')
          (''Cria uma m'' @ u_acu # ''sica pop alegre e dan'' @ c_ced # ''ante, com batida contagiante, sobre aproveitar os bons momentos da vida'')
        else if \<not> isGoodDay \<and> ''gospel'' \<in> set styles then
          advice_suggestion_prompt
          (''A m'' @ u_acu # ''sica pode ser cura e esperan'' @ c_ced # ''a.'')
          (''Cria algo que te reconforte espiritualmente.'')
          (''Cria uma m'' @ u_acu # ''sica gospel reconfortante e esperan'' @ c_ced # ''osa, com mensagem de f'' @ e_acu # '' e supera'' @ c_ced # a_til # ''o'')
        else if ''kizomba'' \<in> set styles then
          advice_suggestion_prompt
          (''Deixa o ritmo guiar as tuas emo'' @ c_ced # o_til # ''es.'')
          (''Cria algo sensual e envolvente.'')
          (''Cria uma kizomba suave e sensual, com batida envolvente, sobre conex'' @ a_til # ''o e sentimentos'')
        else
          advice_suggestion_prompt
          (''Expressa o que sentes atrav'' @ e_acu # ''s da m'' @ u_acu # ''sica.'')
          (''Cria algo aut'' @ e_cir # ''ntico, que reflita o teu momento atual.'')
          (''Cria uma m'' @ u_acu # ''sica que expresse os sentimentos de hoje, aut'' @ e_cir # ''ntica e pessoal''))"

definition suggestions_advice :: "js_number \<Rightarrow> AIResponse" where
  "suggestions_advice rating =
     (if 8 \<le> rating then
        advice_action
          (''O dia est'' @ a_acu # '' '' @ o_acu # ''timo! Aproveita este momento.'')
          (''Guarda esta sensa'' @ c_ced # a_til # ''o. Lembra-te dela nos dias mais dif'' @ i_acu # ''ceis.'')
      else if 5 \<le> rating then
        advice_action
          (''Est'' @ a_acu # '' a ser um dia normal, e isso '' @ e_acu # '' perfeitamente ok.'')
          (''Faz uma pausa, respira fundo e reconhece o que j'' @ a_acu # '' conquistaste hoje.'')
      else
        advice_action
          (''Dias dif'' @ i_acu # ''ceis s'' @ a_til # ''o tempor'' @ a_acu # ''rios. Amanh'' @ a_til # '' '' @ e_acu # '' um novo come'' @ c_ced # ''o.'')
          (''S'' @ e_cir # '' gentil contigo. Faz algo pequeno que te traga conforto agora.''))"

definition suggestions :: "UserProfile \<Rightarrow> ConcernType \<Rightarrow> js_number \<Rightarrow> AIResponse" where
  "suggestions profile c =
     (case c of
        Dinner \<Rightarrow> suggestions_dinner profile
      | Movie \<Rightarrow> suggestions_movie profile
      | Create \<Rightarrow> suggestions_create profile
      | Advice \<Rightarrow> suggestions_advice)"

definition getAfternoonSuggestion ::
  "ConcernType \<Rightarrow> js_number \<Rightarrow> UserProfile \<Rightarrow> AIResponse" where
  "getAfternoonSuggestion c rating profile = suggestions profile c rating"

lemmas suggestions_defs [model_simps] =
  suggestions_dinner_def suggestions_movie_def suggestions_create_def suggestions_advice_def
  suggestions_def getAfternoonSuggestion_def

section \<open>Shape of every afternoon response\<close>

lemma suggestions_advice_shape:
  "\<exists>a b. suggestions_advice r = advice_action a b \<and> a \<noteq> [] \<and> b \<noteq> []"
  by (simp add: suggestions_advice_def)

lemma suggestions_dinner_shape:
  "\<exists>a s. suggestions_dinner profile r = advice_suggestion a s \<and> a \<noteq> [] \<and> s \<noteq> []"
  by (simp add: suggestions_dinner_def Let_def)

lemma suggestions_movie_shape:
  "\<exists>a s. suggestions_movie profile r = advice_suggestion a s \<and> a \<noteq> [] \<and> s \<noteq> []"
  by (simp add: suggestions_movie_def Let_def)

lemma suggestions_create_shape:
  "\<exists>a s. suggestion (suggestions_create profile r) = Some s \<and> s \<noteq> [] \<and>
     advice (suggestions_create profile r) = a \<and> a \<noteq> [] \<and>
     action (suggestions_create profile r) = None \<and>
     (sunoPrompt (suggestions_create profile r) \<noteq> None \<longleftrightarrow> wantsSunoPrompts profile) \<and>
     sunoPrompt (suggestions_create profile r) \<noteq> Some []"
  by (simp add: suggestions_create_def Let_def)

text \<open>
  Every afternoon response has a non-empty advice text; it has an action
  exactly for the advice concern and a (non-empty) suggestion exactly for the three
  other concerns.
\<close>

theorem getAfternoonSuggestion_shape:
  "advice (getAfternoonSuggestion c r profile) \<noteq> [] \<and>
   (action (getAfternoonSuggestion c r profile) \<noteq> None \<longleftrightarrow> c = Advice) \<and>
   (suggestion (getAfternoonSuggestion c r profile) \<noteq> None \<longleftrightarrow> c \<noteq> Advice) \<and>
   suggestion (getAfternoonSuggestion c r profile) \<noteq> Some []"
proof (cases c)
  case Dinner
  then show ?thesis using suggestions_dinner_shape [of profile r]
    by (auto simp: getAfternoonSuggestion_def suggestions_def)
next
  case Movie
  then show ?thesis using suggestions_movie_shape [of profile r]
    by (auto simp: getAfternoonSuggestion_def suggestions_def)
next
  case Create
  then show ?thesis using suggestions_create_shape [of profile r]
    by (auto simp: getAfternoonSuggestion_def suggestions_def)
next
  case Advice
  then show ?thesis using suggestions_advice_shape [of r]
    by (auto simp: getAfternoonSuggestion_def suggestions_def)
qed

text \<open>
  A music prompt is attached to an afternoon response exactly when the
  concern is "create" and the profile asks for music prompts; dinner, movie and
  advice responses never carry one.
\<close>

theorem getAfternoonSuggestion_prompt_iff:
  "sunoPrompt (getAfternoonSuggestion c r profile) \<noteq> None \<longleftrightarrow>
     c = Create \<and> wantsSunoPrompts profile"
proof (cases c)
  case Create
  then show ?thesis using suggestions_create_shape [of profile r]
    by (auto simp: getAfternoonSuggestion_def suggestions_def)
next
  case Dinner
  then show ?thesis using suggestions_dinner_shape [of profile r]
    by (auto simp: getAfternoonSuggestion_def suggestions_def)
next
  case Movie
  then show ?thesis using suggestions_movie_shape [of profile r]
    by (auto simp: getAfternoonSuggestion_def suggestions_def)
next
  case Advice
  then show ?thesis using suggestions_advice_shape [of r]
    by (auto simp: getAfternoonSuggestion_def suggestions_def)
qed

section \<open>The rule chains\<close>

text \<open>
  Claim C16. Rule order of the dinner chain: on a good day (rating at least 6) a
  profile that lists ''saud\<dots>vel'' gets the healthy-dinner response, whatever else
  it lists (fast food, pasta, sushi).
\<close>

theorem dinner_healthy_first:
  assumes "(''saud'' @ a_acu # ''vel'') \<in> set (foodPreferences profile)" and "6 \<le> r"
  shows "getAfternoonSuggestion Dinner r profile =
    advice_suggestion
      (''O dia est'' @ a_acu # '' a correr bem! Mant'' @ e_acu # ''m a energia com algo nutritivo.'')
      (''Que tal um salm'' @ a_til # ''o grelhado com legumes assados e quinoa? Simples e delicioso.'')"
  using assms by (simp add: getAfternoonSuggestion_def suggestions_def suggestions_dinner_def)

theorem dinner_healthy_first_witness:
  "(''saud'' @ a_acu # ''vel'') \<in> set (foodPreferences
      (test_profile [''saud'' @ a_acu # ''vel'', ''fast food'', ''massa'', ''sushi''] [] [] False)) \<and>
   6 \<le> (8::int) \<and>
   getAfternoonSuggestion Dinner 8
      (test_profile [''saud'' @ a_acu # ''vel'', ''fast food'', ''massa'', ''sushi''] [] [] False) =
    advice_suggestion
      (''O dia est'' @ a_acu # '' a correr bem! Mant'' @ e_acu # ''m a energia com algo nutritivo.'')
      (''Que tal um salm'' @ a_til # ''o grelhado com legumes assados e quinoa? Simples e delicioso.'')"
  using dinner_healthy_first
    [of "test_profile [''saud'' @ a_acu # ''vel'', ''fast food'', ''massa'', ''sushi''] [] [] False" 8]
  by simp

text \<open>
  The generic dinner response is given exactly when no rule of the chain
  applies: a profile that lists none of the four keywords gets it on every day.
\<close>

theorem dinner_fallback:
  assumes "(''saud'' @ a_acu # ''vel'') \<notin> set (foodPreferences profile)"
    and "''fast food'' \<notin> set (foodPreferences profile)"
    and "''massa'' \<notin> set (foodPreferences profile)" and "''sushi'' \<notin> set (foodPreferences profile)"
  shows "getAfternoonSuggestion Dinner r profile =
    advice_suggestion
      (''Escolhe algo que te fa'' @ c_ced # ''a sentir bem.'')
      (''Um prato que gostes, feito com calma. A comida tamb'' @ e_acu # ''m '' @ e_acu # '' autocuidado.'')"
  using assms by (simp add: getAfternoonSuggestion_def suggestions_def suggestions_dinner_def)

theorem dinner_fallback_witness:
  "(''saud'' @ a_acu # ''vel'') \<notin> set (foodPreferences (test_profile [''grelhados''] [] [] True)) \<and>
   ''fast food'' \<notin> set (foodPreferences (test_profile [''grelhados''] [] [] True)) \<and>
   ''massa'' \<notin> set (foodPreferences (test_profile [''grelhados''] [] [] True)) \<and>
   ''sushi'' \<notin> set (foodPreferences (test_profile [''grelhados''] [] [] True)) \<and>
   getAfternoonSuggestion Dinner 3 (test_profile [''grelhados''] [] [] True) =
    advice_suggestion
      (''Escolhe algo que te fa'' @ c_ced # ''a sentir bem.'')
      (''Um prato que gostes, feito com calma. A comida tamb'' @ e_acu # ''m '' @ e_acu # '' autocuidado.'')"
  using dinner_fallback [of "test_profile [''grelhados''] [] [] True" 3] by simp

text \<open>
  Claim C17. The advice concern has three tiers that depend on the rating only:
  a rating gets the response of rating 8 exactly when it is at least 8, the response
  of rating 5 exactly when it lies in [5, 8), and the response of rating 4 exactly
  when it is below 5, whatever the profiles.
\<close>

theorem advice_tiers:
  "(getAfternoonSuggestion Advice r profile = getAfternoonSuggestion Advice 8 profile'
      \<longleftrightarrow> 8 \<le> r) \<and>
   (getAfternoonSuggestion Advice r profile = getAfternoonSuggestion Advice 5 profile'
      \<longleftrightarrow> 5 \<le> r \<and> r < 8) \<and>
   (getAfternoonSuggestion Advice r profile = getAfternoonSuggestion Advice 4 profile'
      \<longleftrightarrow> r < 5)"
  by (simp add: getAfternoonSuggestion_def suggestions_def suggestions_advice_def)

text \<open>
  For dinner, movie and create the rating matters only through the
  good-day test \<open>rating >= 6\<close>: every rating gives the response of 6 or of 0.
\<close>

theorem good_day_threshold_only:
  assumes "c \<noteq> Advice"
  shows "getAfternoonSuggestion c r profile =
           getAfternoonSuggestion c (if 6 \<le> r then 6 else 0) profile"
  using assms
  by (cases c) (simp_all add: getAfternoonSuggestion_def suggestions_def
      suggestions_dinner_def suggestions_movie_def suggestions_create_def Let_def)

theorem good_day_threshold_only_witness:
  "Movie \<noteq> Advice \<and>
   getAfternoonSuggestion Movie 7 (test_profile [] [''com'' @ e_acu # ''dia'', ''drama''] [] False) =
     getAfternoonSuggestion Movie (if 6 \<le> (7::int) then 6 else 0)
       (test_profile [] [''com'' @ e_acu # ''dia'', ''drama''] [] False)"
  using good_day_threshold_only [of Movie 7 "test_profile [] [''com'' @ e_acu # ''dia'', ''drama''] [] False"]
  by simp

text \<open>
  Rule order of the movie chain: a good day with comedy listed gives the
  comedy response and a bad day with drama listed the drama response, whatever else
  the profile lists; neither is given on the other kind of day by these rules.
\<close>

theorem movie_rules:
  assumes "(''com'' @ e_acu # ''dia'') \<in> set (movieGenres profile)" and "''drama'' \<in> set (movieGenres profile)"
  shows "getAfternoonSuggestion Movie r profile =
    (if 6 \<le> r then
       advice_suggestion
         (''O dia est'' @ a_acu # '' bom! Continua com algo leve e divertido.'')
         (''Uma com'' @ e_acu # ''dia rom'' @ a_cir # ''ntica ou um stand-up comedy. Rir faz sempre bem!'')
     else
       advice_suggestion
         (A_gra # ''s vezes precisamos de algo que nos fa'' @ c_ced # ''a sentir compreendidos.'')
         (''Um drama emocional pode ajudar a processar o dia. Escolhe algo que ressoe contigo.''))"
  using assms by (simp add: getAfternoonSuggestion_def suggestions_def suggestions_movie_def)

theorem movie_rules_witness:
  "(''com'' @ e_acu # ''dia'') \<in> set (movieGenres (test_profile [] [''com'' @ e_acu # ''dia'', ''drama'', ''romance''] [] False)) \<and>
   ''drama'' \<in> set (movieGenres (test_profile [] [''com'' @ e_acu # ''dia'', ''drama'', ''romance''] [] False)) \<and>
   getAfternoonSuggestion Movie 2 (test_profile [] [''com'' @ e_acu # ''dia'', ''drama'', ''romance''] [] False) =
       advice_suggestion
         (A_gra # ''s vezes precisamos de algo que nos fa'' @ c_ced # ''a sentir compreendidos.'')
         (''Um drama emocional pode ajudar a processar o dia. Escolhe algo que ressoe contigo.'')"
  using movie_rules [of "test_profile [] [''com'' @ e_acu # ''dia'', ''drama'', ''romance''] [] False" 2] by simp

text \<open>
  For a profile listing none of the three music styles, the create concern
  gives the generic music prompt about today's feelings when prompts are wanted and
  the generic creative suggestion without a prompt otherwise.
\<close>

theorem create_fallbacks:
  assumes "''pop'' \<notin> set (musicStyles profile)" and "''gospel'' \<notin> set (musicStyles profile)"
    and "''kizomba'' \<notin> set (musicStyles profile)"
  shows "getAfternoonSuggestion Create r profile =
    (if wantsSunoPrompts profile then
       advice_suggestion_prompt
         (''Expressa o que sentes atrav'' @ e_acu # ''s da m'' @ u_acu # ''sica.'')
         (''Cria algo aut'' @ e_cir # ''ntico, que reflita o teu momento atual.'')
         (''Cria uma m'' @ u_acu # ''sica que expresse os sentimentos de hoje, aut'' @ e_cir # ''ntica e pessoal'')
     else
       advice_suggestion
         (''Criar '' @ e_acu # '' uma forma poderosa de expressar o que sentes.'')
         (''Escreve, desenha, fotografa... deixa a criatividade fluir sem julgamento.''))"
  using assms by (simp add: getAfternoonSuggestion_def suggestions_def suggestions_create_def Let_def)

theorem create_fallbacks_witness:
  "''pop'' \<notin> set (musicStyles (test_profile [] [] [''rock''] True)) \<and>
   ''gospel'' \<notin> set (musicStyles (test_profile [] [] [''rock''] True)) \<and>
   ''kizomba'' \<notin> set (musicStyles (test_profile [] [] [''rock''] True)) \<and>
   getAfternoonSuggestion Create 9 (test_profile [] [] [''rock''] True) =
       advice_suggestion_prompt
         (''Expressa o que sentes atrav'' @ e_acu # ''s da m'' @ u_acu # ''sica.'')
         (''Cria algo aut'' @ e_cir # ''ntico, que reflita o teu momento atual.'')
         (''Cria uma m'' @ u_acu # ''sica que expresse os sentimentos de hoje, aut'' @ e_cir # ''ntica e pessoal'')"
  using create_fallbacks [of "test_profile [] [] [''rock''] True" 9] by simp

end
