(* ===== verification/Afternoon_Page.thy ===== *)
theory Afternoon_Page
  imports Afternoon_Advice Page_Common
begin

text \<open>
  The afternoon page, \<open>src/src/app/afternoon/page.tsx\<close>: the state of
  \<open>AfternoonPage\<close> (its hooks, the store and the route), the slider, the handlers
  \<open>handleRatingComplete\<close> and \<open>handleConcernSelect\<close>, the two buttons of the result
  card, and the display helpers \<open>getRatingEmoji\<close> and \<open>getRatingLabel\<close>. The slider
  (\<open>min 0\<close>, \<open>max 10\<close>, \<open>step 1\<close>) delivers integers of 0..10, the only values its
  event carries in a state the page offers.
\<close>

definition CONCERNS :: "(ConcernType \<times> string) list" where
  "CONCERNS = [(Dinner, ''Jantar''), (Movie, ''Filme/S'' @ e_acu # ''rie''), (Create, ''Criar''),
               (Advice, ''Conselho'')]"

text \<open>The four emoji of \<open>getRatingEmoji\<close>, outside Latin-1, by their Unicode names.\<close>

datatype RatingEmoji = Pensive_face | Neutral_face | Slightly_smiling_face | Smiling_face

definition getRatingEmoji :: "js_number \<Rightarrow> RatingEmoji" where
  "getRatingEmoji rating =
     (if rating \<le> 3 then Pensive_face else if rating \<le> 5 then Neutral_face
      else if rating \<le> 7 then Slightly_smiling_face else Smiling_face)"

definition getRatingLabel :: "js_number \<Rightarrow> string" where
  "getRatingLabel rating =
     (if rating \<le> 3 then ''Dif'' @ i_acu # ''cil'' else if rating \<le> 5 then ''Normal''
      else if rating \<le> 7 then ''Bom'' else O_acu # ''timo'')"

datatype AfternoonStep = RatingStep | ConcernStep | AfternoonResult

record AfternoonPage =
  ap_step :: AfternoonStep
  ap_dayRating :: js_number
  selectedConcern :: "ConcernType option"
  ap_suggestion :: "AIResponse option"
  ap_store :: Store
  ap_route :: "string option"

definition afternoon_init :: "Store \<Rightarrow> AfternoonPage" where
  "afternoon_init st =
     \<lparr>ap_step = RatingStep, ap_dayRating = 5, selectedConcern = None, ap_suggestion = None,
      ap_store = st, ap_route = None\<rparr>"

definition afternoon_initial :: "AfternoonPage \<Rightarrow> bool" where
  "afternoon_initial s \<longleftrightarrow>
     ap_step s = RatingStep \<and> ap_dayRating s = 5 \<and> selectedConcern s = None \<and>
     ap_suggestion s = None \<and> ap_route s = None"

definition handleRatingComplete :: "AfternoonPage \<Rightarrow> AfternoonPage" where
  "handleRatingComplete s = s\<lparr>ap_step := ConcernStep\<rparr>"

definition handleConcernSelect ::
    "ConcernType \<Rightarrow> string \<Rightarrow> js_date \<Rightarrow> AfternoonPage \<Rightarrow> AfternoonPage" where
  "handleConcernSelect c today now s =
     (let s = s\<lparr>selectedConcern := Some c\<rparr> in
      case getUserProfile (ap_store s) of
        None \<Rightarrow> s\<lparr>ap_route := Some ''/onboarding''\<rparr>
      | Some profile \<Rightarrow>
          (let response = getAfternoonSuggestion c (ap_dayRating s) profile;
               afternoonResponse = \<lparr>dayRating = ap_dayRating s, concern = c, a_timestamp = now\<rparr>
           in s\<lparr>ap_suggestion := Some response,
                 ap_store := saveDailyInteraction
                   \<lparr>interaction_id = None, userId = page_userId profile, date = today,
                    morning = None, afternoon = Some afternoonResponse, night = None\<rparr>
                   (ap_store s),
                 ap_step := AfternoonResult\<rparr>))"

text \<open>"Refazer" resets the step, the concern and the suggestion, and not \<open>dayRating\<close>.\<close>

definition afternoon_redo :: "AfternoonPage \<Rightarrow> AfternoonPage" where
  "afternoon_redo s = s\<lparr>ap_step := RatingStep, selectedConcern := None, ap_suggestion := None\<rparr>"

datatype AfternoonEvent =
    SetRating js_number | RatingContinue | SelectConcern ConcernType string js_date
  | AfternoonRedo | AfternoonHome

fun afternoon_enabled :: "AfternoonPage \<Rightarrow> AfternoonEvent \<Rightarrow> bool" where
  "afternoon_enabled s (SetRating v) = (ap_step s = RatingStep \<and> 0 \<le> v \<and> v \<le> 10)"
| "afternoon_enabled s RatingContinue = (ap_step s = RatingStep)"
| "afternoon_enabled s (SelectConcern c _ _) = (ap_step s = ConcernStep \<and> c \<in> fst ` set CONCERNS)"
| "afternoon_enabled s AfternoonRedo = (ap_step s = AfternoonResult \<and> ap_suggestion s \<noteq> None)"
| "afternoon_enabled s AfternoonHome = True"

fun afternoon_event :: "AfternoonEvent \<Rightarrow> AfternoonPage \<Rightarrow> PageError + AfternoonPage" where
  "afternoon_event (SetRating v) s = Inr (s\<lparr>ap_dayRating := v\<rparr>)"
| "afternoon_event RatingContinue s = Inr (handleRatingComplete s)"
| "afternoon_event (SelectConcern c today now) s = Inr (handleConcernSelect c today now s)"
| "afternoon_event AfternoonRedo s = Inr (afternoon_redo s)"
| "afternoon_event AfternoonHome s = Inr (s\<lparr>ap_route := Some ''/''\<rparr>)"

abbreviation afternoon_reachable :: "AfternoonPage \<Rightarrow> bool" where
  "afternoon_reachable \<equiv> page_reachable afternoon_initial afternoon_enabled afternoon_event"

text \<open>The invariant: the rating held is in 0..10, the range of the slider.\<close>

definition afternoon_inv :: "AfternoonPage \<Rightarrow> bool" where
  "afternoon_inv s \<longleftrightarrow> 0 \<le> ap_dayRating s \<and> ap_dayRating s \<le> 10"

section \<open>Lemmas on the handlers\<close>

lemma handleConcernSelect_no_profile:
  "getUserProfile (ap_store s) = None \<Longrightarrow>
   handleConcernSelect c today now s = s\<lparr>selectedConcern := Some c, ap_route := Some ''/onboarding''\<rparr>"
  by (simp add: handleConcernSelect_def)

lemma handleConcernSelect_profile:
  "getUserProfile (ap_store s) = Some profile \<Longrightarrow>
   handleConcernSelect c today now s =
     s\<lparr>selectedConcern := Some c,
       ap_suggestion := Some (getAfternoonSuggestion c (ap_dayRating s) profile),
       ap_store := saveDailyInteraction
         \<lparr>interaction_id = None, userId = page_userId profile, date = today, morning = None,
          afternoon = Some \<lparr>dayRating = ap_dayRating s, concern = c, a_timestamp = now\<rparr>,
          night = None\<rparr> (ap_store s),
       ap_step := AfternoonResult\<rparr>"
  by (simp add: handleConcernSelect_def)

lemma handleConcernSelect_rating [simp]:
  "ap_dayRating (handleConcernSelect c today now s) = ap_dayRating s"
  by (simp add: handleConcernSelect_def Let_def split: option.split)

lemma afternoon_reachable_inv:
  assumes "afternoon_reachable s"
  shows "afternoon_inv s"
  using assms
proof (rule page_reachable_invariant)
  show "afternoon_inv s" if "afternoon_initial s" for s
    using that by (simp add: afternoon_initial_def afternoon_inv_def)
next
  fix s e s'
  assume "afternoon_inv s" "afternoon_enabled s e" "afternoon_event e s = Inr s'"
  then show "afternoon_inv s'"
    by (cases e) (auto simp: afternoon_inv_def handleRatingComplete_def afternoon_redo_def)
qed

lemma afternoon_offers_all [simp]: "c \<in> fst ` set CONCERNS"
  by (cases c; force simp: CONCERNS_def)

text \<open>The run of a rating and a concern choice over a store with a profile.\<close>

lemma afternoon_run_profile:
  assumes "getUserProfile st = Some profile"
  shows "run_events afternoon_event [SetRating r, RatingContinue, SelectConcern c today now]
           (afternoon_init st) =
         Inr \<lparr>ap_step = AfternoonResult, ap_dayRating = r, selectedConcern = Some c,
              ap_suggestion = Some (getAfternoonSuggestion c r profile),
              ap_store = saveDailyInteraction
                \<lparr>interaction_id = None, userId = page_userId profile, date = today, morning = None,
                 afternoon = Some \<lparr>dayRating = r, concern = c, a_timestamp = now\<rparr>,
                 night = None\<rparr> st,
              ap_route = None\<rparr>"
  using assms
  by (simp add: afternoon_init_def handleRatingComplete_def handleConcernSelect_profile)

section \<open>Properties of the afternoon page\<close>

text \<open>
  Claim C22. The page is the engine's only caller and constrains its input, as the
  specification requires: in every reachable state, choosing a concern with a stored
  profile calls \<open>getAfternoonSuggestion\<close> with a rating in 0..10, shows its answer,
  and saves that rating and concern as today's afternoon answer.
\<close>

theorem afternoon_engine_input_range:
  assumes "afternoon_reachable s" and "afternoon_enabled s (SelectConcern c today now)"
    and "window_defined (ap_store s)" and "getUserProfile (ap_store s) = Some profile"
  shows "\<exists>r. 0 \<le> r \<and> r \<le> 10 \<and>
           ap_suggestion (handleConcernSelect c today now s) = Some (getAfternoonSuggestion c r profile) \<and>
           map_option afternoon (getTodayInteraction today (page_userId profile)
             (ap_store (handleConcernSelect c today now s))) =
           Some (Some \<lparr>dayRating = r, concern = c, a_timestamp = now\<rparr>)"
proof -
  have "afternoon_inv s" using assms(1) by (rule afternoon_reachable_inv)
  then show ?thesis
    using assms(3,4)
    by (simp add: afternoon_inv_def handleConcernSelect_profile today_after_moment_save
        split: option.split)
qed

theorem afternoon_engine_input_range_witness:
  "afternoon_reachable (handleRatingComplete (afternoon_init (saveUserProfile (test_profile [] [] [] False) empty_store))) \<and>
   afternoon_enabled (handleRatingComplete (afternoon_init (saveUserProfile (test_profile [] [] [] False) empty_store)))
     (SelectConcern Advice ''2026-11-09'' 3) \<and>
   (\<exists>r. 0 \<le> r \<and> r \<le> 10 \<and>
      ap_suggestion (handleConcernSelect Advice ''2026-11-09'' 3
        (handleRatingComplete (afternoon_init (saveUserProfile (test_profile [] [] [] False) empty_store)))) =
      Some (getAfternoonSuggestion Advice r (test_profile [] [] [] False)))"
proof -
  let ?st = "saveUserProfile (test_profile [] [] [] False) empty_store"
  have r0: "afternoon_reachable (afternoon_init ?st)"
    by (rule page_reachable.start) (simp add: afternoon_initial_def afternoon_init_def)
  have r1: "afternoon_reachable (handleRatingComplete (afternoon_init ?st))"
    by (rule page_reachable.step [OF r0, of RatingContinue]) (simp_all add: afternoon_init_def)
  have e: "afternoon_enabled (handleRatingComplete (afternoon_init ?st)) (SelectConcern Advice ''2026-11-09'' 3)"
    by (simp add: handleRatingComplete_def)
  have w: "window_defined (ap_store (handleRatingComplete (afternoon_init ?st)))"
    and g: "getUserProfile (ap_store (handleRatingComplete (afternoon_init ?st))) =
              Some (test_profile [] [] [] False)"
    by (simp_all add: handleRatingComplete_def afternoon_init_def saveUserProfile_def
        getUserProfile_def empty_store_def)
  show ?thesis
    using afternoon_engine_input_range [OF r1 e w g] r1 e by blast
qed

text \<open>
  The rating label agrees with the engine's thresholds: the label is
  "Bom" or "\<open>\<dots>\<close>timo" exactly on a good day (rating 6 or more) and "\<open>\<dots>\<close>timo"
  exactly in the top advice tier (8 or more); the emoji changes exactly where the
  label does.
\<close>

theorem rating_label_thresholds:
  "(getRatingLabel r \<in> {''Bom'', O_acu # ''timo''} \<longleftrightarrow> 6 \<le> r) \<and>
   (getRatingLabel r = O_acu # ''timo'' \<longleftrightarrow> 8 \<le> r) \<and>
   (getRatingLabel r = getRatingLabel r' \<longleftrightarrow> getRatingEmoji r = getRatingEmoji r')"
  by (auto simp: getRatingLabel_def getRatingEmoji_def)

text \<open>
  Claim C28. "Refazer" keeps the rating chosen, and a second pass on the same day
  overwrites the afternoon answer through the merge of the log: after rating, choosing,
  redoing and choosing another concern, today's afternoon answer is the first rating
  with the second concern.
\<close>

theorem afternoon_redo_overwrites:
  assumes "window_defined st" and "getUserProfile st = Some profile"
    and "getTodayInteraction today (page_userId profile) st = None"
  shows "\<exists>s. run_events afternoon_event
            [SetRating r, RatingContinue, SelectConcern c1 today t1, AfternoonRedo,
             RatingContinue, SelectConcern c2 today t2] (afternoon_init st) = Inr s \<and>
           ap_suggestion s = Some (getAfternoonSuggestion c2 r profile) \<and>
           getTodayInteraction today (page_userId profile) (ap_store s) =
             Some \<lparr>interaction_id = None, userId = page_userId profile, date = today,
                   morning = None, afternoon = Some \<lparr>dayRating = r, concern = c2, a_timestamp = t2\<rparr>,
                   night = None\<rparr>"
  using assms
  by (simp add: afternoon_init_def handleRatingComplete_def afternoon_redo_def
      handleConcernSelect_profile today_after_moment_save)

theorem afternoon_redo_overwrites_witness:
  "window_defined (saveUserProfile (test_profile [] [] [] False) empty_store) \<and>
   getUserProfile (saveUserProfile (test_profile [] [] [] False) empty_store) =
     Some (test_profile [] [] [] False) \<and>
   getTodayInteraction ''2026-11-09'' ''user'' (saveUserProfile (test_profile [] [] [] False) empty_store) = None \<and>
   map_sum id ap_suggestion (run_events afternoon_event
     [SetRating 9, RatingContinue, SelectConcern Dinner ''2026-11-09'' 1, AfternoonRedo,
      RatingContinue, SelectConcern Advice ''2026-11-09'' 2]
     (afternoon_init (saveUserProfile (test_profile [] [] [] False) empty_store))) =
   Inr (Some (getAfternoonSuggestion Advice 9 (test_profile [] [] [] False)))"
proof -
  have w: "window_defined (saveUserProfile (test_profile [] [] [] False) empty_store)"
    and g: "getUserProfile (saveUserProfile (test_profile [] [] [] False) empty_store) =
              Some (test_profile [] [] [] False)"
    and t: "getTodayInteraction ''2026-11-09'' ''user''
              (saveUserProfile (test_profile [] [] [] False) empty_store) = None"
    by (simp_all add: saveUserProfile_def getUserProfile_def empty_store_def
        getTodayInteraction_def getDailyInteractions_def)
  have u: "page_userId (test_profile [] [] [] False) = ''user''"
    by (simp add: page_userId_def)
  show ?thesis
    using afternoon_redo_overwrites [OF w g, of "''2026-11-09''" 9 Dinner 1 Advice 2] w g t u
    by auto
qed

end
