(* ===== verification/Night_Advice.thy ===== *)
theory Night_Advice
  imports Types
begin

text \<open>
  The night moment of the advice engine, \<open>getNightReflection\<close> in
  \<open>src/src/lib/ai-responses.ts\<close>: a table indexed by the day comparison and by the
  string key \<open>'yes'\<close> or \<open>'no'\<close> derived from the self-care answer (the local
  \<open>reflections\<close>, a \<open>Record<DayRatingType, Record<string, AIResponse>>\<close>), and
  one fixed calming music prompt when the profile asks for prompts and lists at least
  one music style. The inner record is keyed by arbitrary strings, so a lookup may
  miss: \<open>reflections\<close> returns \<open>None\<close> there, and \<open>getNightReflection\<close> returns
  \<open>None\<close> for the result the source would not produce (an \<open>undefined\<close> response,
  or the \<open>TypeError\<close> of assigning to its \<open>sunoPrompt\<close>).
\<close>

section \<open>Definitions\<close>

fun reflections :: "DayRatingType \<Rightarrow> string \<Rightarrow> AIResponse option" where
  "reflections Better k =
     (if k = ''yes'' then Some (advice_action
        (''Que dia incr'' @ i_acu # ''vel! Fizeste bem por ti e o dia superou as expectativas. Celebra estas vit'' @ o_acu # ''rias, por mais pequenas que pare'' @ c_ced # ''am.'')
        (''Antes de dormir, escreve 3 coisas boas que aconteceram hoje. Vais dormir com o cora'' @ c_ced # a_til # ''o mais leve.''))
      else if k = ''no'' then Some (advice_action
        (''O dia foi melhor que esperavas, mas sentes que podias ter feito mais por ti. Est'' @ a_acu # '' tudo bem. Amanh'' @ a_til # '' '' @ e_acu # '' uma nova oportunidade.'')
        (''Perdoa-te. Reconhece o que correu bem e descansa. Amanh'' @ a_til # '' cuidas melhor de ti.''))
      else None)"
| "reflections Same k =
     (if k = ''yes'' then Some (advice_action
        (''O dia foi como esperavas e ainda assim cuidaste de ti. Isso '' @ e_acu # '' consist'' @ e_cir # ''ncia e merece reconhecimento.'')
        (''A consist'' @ e_cir # ''ncia constr'' @ o_acu # ''i grandes mudan'' @ c_ced # ''as. Continua assim, um dia de cada vez.''))
      else if k = ''no'' then Some (advice_action
        (''Foi um dia normal, mas sentes que te esqueceste de ti. Acontece a todos n'' @ o_acu # ''s.'')
        (''Faz algo pequeno por ti agora: um ch'' @ a_acu # '', uma m'' @ u_acu # ''sica que gostes, 5 minutos de sil'' @ e_cir # ''ncio. Conta como autocuidado.''))
      else None)"
| "reflections Worse k =
     (if k = ''yes'' then Some (advice_action
        (''O dia foi dif'' @ i_acu # ''cil, mas fizeste algo bom por ti. Isso mostra for'' @ c_ced # ''a e autocuidado mesmo na adversidade.'')
        (''Orgulha-te de teres cuidado de ti num dia dif'' @ i_acu # ''cil. Isso '' @ e_acu # '' coragem. Descansa agora.''))
      else if k = ''no'' then Some (advice_action
        (''Foi um dia dif'' @ i_acu # ''cil e sentes que n'' @ a_til # ''o cuidaste de ti. Respira. Est'' @ a_acu # ''s a fazer o melhor que podes.'')
        (''Amanh'' @ a_til # '' '' @ e_acu # '' um novo dia. Por agora, descansa. O simples facto de chegares ao fim do dia j'' @ a_acu # '' '' @ e_acu # '' uma vit'' @ o_acu # ''ria.''))
      else None)"

definition getNightReflection ::
  "DayRatingType \<Rightarrow> bool \<Rightarrow> UserProfile \<Rightarrow> AIResponse option" where
  "getNightReflection dc good profile =
     (let key = (if good then ''yes'' else ''no'')
      in case reflections dc key of
           None \<Rightarrow> None
         | Some response \<Rightarrow>
             Some (if wantsSunoPrompts profile \<and> 0 < length (musicStyles profile)
                   then response\<lparr>sunoPrompt := Some
                     (''Cria uma m'' @ u_acu # ''sica calma e introspectiva para relaxar antes de dormir, estilo ambient/lo-fi'')\<rparr>
                   else response))"

section \<open>The table\<close>

lemma reflections_key:
  "\<exists>a b. reflections dc (if good then ''yes'' else ''no'') = Some (advice_action a b) \<and>
     a \<noteq> [] \<and> b \<noteq> []"
  by (cases dc) simp_all

lemma reflections_other_keys:
  "k \<noteq> ''yes'' \<Longrightarrow> k \<noteq> ''no'' \<Longrightarrow> reflections dc k = None"
  by (cases dc) simp_all

lemma reflections_advice_inj:
  "map_option advice (reflections dc (if g then ''yes'' else ''no'')) =
   map_option advice (reflections dc' (if g' then ''yes'' else ''no''))
   \<Longrightarrow> dc = dc' \<and> g = g'"
  by (cases dc; cases dc'; cases g; cases g') simp_all

lemma getNightReflection_base:
  "map_option (\<lambda>r. r\<lparr>sunoPrompt := None\<rparr>) (getNightReflection dc good profile) =
   reflections dc (if good then ''yes'' else ''no'')"
  using reflections_key [of dc good] by (auto simp: getNightReflection_def Let_def)

text \<open>
  Claim C19. The night lookup never misses: for each of the six (comparison,
  self-care) pairs the reflection exists, with a non-empty advice text, a non-empty
  action text and no suggestion.
\<close>

theorem getNightReflection_total:
  "\<exists>resp. getNightReflection dc good profile = Some resp \<and> advice resp \<noteq> [] \<and>
     (\<exists>a. action resp = Some a \<and> a \<noteq> []) \<and> suggestion resp = None"
  using reflections_key [of dc good] by (auto simp: getNightReflection_def Let_def)

text \<open>
  Claim C18. The night reflection carries a music prompt exactly when the profile asks
  for prompts and lists at least one music style, and the prompt is then one fixed
  calming text, whichever styles, comparison and self-care answer are given.
\<close>

theorem getNightReflection_prompt:
  "map_option sunoPrompt (getNightReflection dc good profile) =
   Some (if wantsSunoPrompts profile \<and> musicStyles profile \<noteq> []
         then Some (''Cria uma m'' @ u_acu # ''sica calma e introspectiva para relaxar antes de dormir, estilo ambient/lo-fi'')
         else None)"
  using reflections_key [of dc good] by (auto simp: getNightReflection_def Let_def)

text \<open>
  The six night reflections are distinct and do not depend on the profile:
  two calls give the same advice text exactly when they have the same comparison and
  the same self-care answer.
\<close>

theorem getNightReflection_advice_inj:
  "map_option advice (getNightReflection dc g profile) =
   map_option advice (getNightReflection dc' g' profile')
   \<longleftrightarrow> dc = dc' \<and> g = g'"
proof -
  have eq: "map_option advice (getNightReflection dc g profile) =
        map_option advice (reflections dc (if g then ''yes'' else ''no''))" for dc g profile
    using reflections_key [of dc g] by (auto simp: getNightReflection_def Let_def)
  show ?thesis
  proof
    assume "map_option advice (getNightReflection dc g profile) =
            map_option advice (getNightReflection dc' g' profile')"
    then show "dc = dc' \<and> g = g'"
      by (intro reflections_advice_inj) (simp only: eq)
  next
    assume "dc = dc' \<and> g = g'"
    then show "map_option advice (getNightReflection dc g profile) =
               map_option advice (getNightReflection dc' g' profile')"
      by (simp only: eq)
  qed
qed

text \<open>
  The two night examples of the specification: a bad day without self-care
  and with prompts wanted gets no prompt when no music style is listed, and the calming
  prompt when jazz is listed.
\<close>

theorem night_empty_styles_guard:
  "map_option sunoPrompt (getNightReflection Worse False (test_profile [] [] [] True)) = Some None \<and>
   map_option sunoPrompt (getNightReflection Worse False (test_profile [] [] [''jazz''] True)) =
     Some (Some (''Cria uma m'' @ u_acu # ''sica calma e introspectiva para relaxar antes de dormir, estilo ambient/lo-fi''))"
  by (simp add: getNightReflection_def)

end
