(* ===== verification/Night_Page.thy ===== *)
theory Night_Page
  imports Night_Advice Page_Common
begin

text \<open>
  The night page, \<open>src/src/app/night/page.tsx\<close>: the state of \<open>NightPage\<close> (its
  hooks, the store and the route), the handlers \<open>handleComparisonSelect\<close>,
  \<open>handleSelfCareSelect\<close> and \<open>handleComplete\<close>, the text area of the positive
  things, and the buttons of the result card. Both buttons of the positive step,
  "Pular" and "Continuar", are bound to \<open>handleComplete\<close>.
\<close>

definition DAY_COMPARISONS :: "(DayRatingType \<times> string) list" where
  "DAY_COMPARISONS = [(Better, ''Melhor''), (Same, ''Igual''), (Worse, ''Pior'')]"

text \<open>
  \<open>positiveThings ? positiveThings.split('\n').filter(t => t.trim()) : undefined\<close>:
  the lines of the text that hold a character other than white space, untrimmed.
\<close>

definition positive_list :: "string \<Rightarrow> string list option" where
  "positive_list text =
     (if text = [] then None else Some (filter (\<lambda>t. js_trim t \<noteq> []) (js_split CHR 0x0A text)))"

datatype NightStep = ComparisonStep | SelfcareStep | PositiveStep | NightResult

record NightPage =
  np_step :: NightStep
  np_dayComparison :: "DayRatingType option"
  np_didSomethingGood :: "bool option"
  np_positiveThings :: string
  np_reflection :: "AIResponse option"
  np_store :: Store
  np_route :: "string option"

definition night_init :: "Store \<Rightarrow> NightPage" where
  "night_init st =
     \<lparr>np_step = ComparisonStep, np_dayComparison = None, np_didSomethingGood = None,
      np_positiveThings = [], np_reflection = None, np_store = st, np_route = None\<rparr>"

definition night_initial :: "NightPage \<Rightarrow> bool" where
  "night_initial s \<longleftrightarrow>
     np_step s = ComparisonStep \<and> np_dayComparison s = None \<and> np_didSomethingGood s = None \<and>
     np_positiveThings s = [] \<and> np_reflection s = None \<and> np_route s = None"

definition handleComparisonSelect :: "DayRatingType \<Rightarrow> NightPage \<Rightarrow> NightPage" where
  "handleComparisonSelect d s = s\<lparr>np_dayComparison := Some d, np_step := SelfcareStep\<rparr>"

definition handleSelfCareSelect :: "bool \<Rightarrow> NightPage \<Rightarrow> NightPage" where
  "handleSelfCareSelect b s = s\<lparr>np_didSomethingGood := Some b, np_step := PositiveStep\<rparr>"

text \<open>
  \<open>handleComplete\<close>. With \<open>dayComparison\<close> null, \<open>reflections[null][key]\<close>
  throws. With \<open>didSomethingGood\<close> null the engine would read the key \<open>'no'\<close> and the
  record would be saved with a null answer, which \<open>NightResponse\<close> cannot hold; both
  are \<open>NullSelection\<close> here, and neither occurs in a reachable state
  (\<open>night_page_progress\<close>).
\<close>

definition handleComplete :: "string \<Rightarrow> js_date \<Rightarrow> NightPage \<Rightarrow> PageError + NightPage" where
  "handleComplete today now s =
     (case getUserProfile (np_store s) of
        None \<Rightarrow> Inr (s\<lparr>np_route := Some ''/onboarding''\<rparr>)
      | Some profile \<Rightarrow>
          (case (np_dayComparison s, np_didSomethingGood s) of
             (Some d, Some b) \<Rightarrow>
               (case getNightReflection d b profile of
                  None \<Rightarrow> Inl NullSelection
                | Some response \<Rightarrow>
                    (let nightResponse =
                           \<lparr>dayComparison = d, didSomethingGood = b,
                            positiveThings = positive_list (np_positiveThings s), n_timestamp = now\<rparr>
                     in Inr (s\<lparr>np_reflection := Some response,
                               np_store := saveDailyInteraction
                                 \<lparr>interaction_id = None, userId = page_userId profile, date = today,
                                  morning = None, afternoon = None, night = Some nightResponse\<rparr>
                                 (np_store s),
                               np_step := NightResult\<rparr>)))
           | _ \<Rightarrow> Inl NullSelection))"

definition night_redo :: "NightPage \<Rightarrow> NightPage" where
  "night_redo s =
     s\<lparr>np_step := ComparisonStep, np_dayComparison := None, np_didSomethingGood := None,
       np_positiveThings := [], np_reflection := None\<rparr>"

datatype NightEvent =
    SelectComparison DayRatingType | SelectSelfCare bool | SetPositive string
  | Skip string js_date | Continue string js_date | NightRedo | NightHome

fun night_enabled :: "NightPage \<Rightarrow> NightEvent \<Rightarrow> bool" where
  "night_enabled s (SelectComparison d) = (np_step s = ComparisonStep \<and> d \<in> fst ` set DAY_COMPARISONS)"
| "night_enabled s (SelectSelfCare _) = (np_step s = SelfcareStep)"
| "night_enabled s (SetPositive _) = (np_step s = PositiveStep)"
| "night_enabled s (Skip _ _) = (np_step s = PositiveStep)"
| "night_enabled s (Continue _ _) = (np_step s = PositiveStep)"
| "night_enabled s NightRedo = (np_step s = NightResult \<and> np_reflection s \<noteq> None)"
| "night_enabled s NightHome = True"

fun night_event :: "NightEvent \<Rightarrow> NightPage \<Rightarrow> PageError + NightPage" where
  "night_event (SelectComparison d) s = Inr (handleComparisonSelect d s)"
| "night_event (SelectSelfCare b) s = Inr (handleSelfCareSelect b s)"
| "night_event (SetPositive t) s = Inr (s\<lparr>np_positiveThings := t\<rparr>)"
| "night_event (Skip today now) s = handleComplete today now s"
| "night_event (Continue today now) s = handleComplete today now s"
| "night_event NightRedo s = Inr (night_redo s)"
| "night_event NightHome s = Inr (s\<lparr>np_route := Some ''/''\<rparr>)"

abbreviation night_reachable :: "NightPage \<Rightarrow> bool" where
  "night_reachable \<equiv> page_reachable night_initial night_enabled night_event"

text \<open>The invariant: from the self-care step on the comparison is set, and from the positive step on both answers.\<close>

definition night_inv :: "NightPage \<Rightarrow> bool" where
  "night_inv s \<longleftrightarrow>
     (np_step s = SelfcareStep \<longrightarrow> np_dayComparison s \<noteq> None) \<and>
     (np_step s = PositiveStep \<longrightarrow> np_dayComparison s \<noteq> None \<and> np_didSomethingGood s \<noteq> None)"

section \<open>Lemmas on the handlers\<close>

lemma getNightReflection_some: "\<exists>r. getNightReflection d b profile = Some r"
  using getNightReflection_base [of d b profile] reflections_key [of d b]
  by (cases "getNightReflection d b profile") auto

lemma handleComplete_no_profile:
  "getUserProfile (np_store s) = None \<Longrightarrow>
   handleComplete today now s = Inr (s\<lparr>np_route := Some ''/onboarding''\<rparr>)"
  by (simp add: handleComplete_def)

lemma handleComplete_profile:
  assumes "getUserProfile (np_store s) = Some profile" and "np_dayComparison s = Some d"
    and "np_didSomethingGood s = Some b" and "getNightReflection d b profile = Some r"
  shows "handleComplete today now s =
     Inr (s\<lparr>np_reflection := Some r,
            np_store := saveDailyInteraction
              \<lparr>interaction_id = None, userId = page_userId profile, date = today,
               morning = None, afternoon = None,
               night = Some \<lparr>dayComparison = d, didSomethingGood = b,
                 positiveThings = positive_list (np_positiveThings s), n_timestamp = now\<rparr>\<rparr>
              (np_store s),
            np_step := NightResult\<rparr>)"
  using assms by (simp add: handleComplete_def)

lemma handleComplete_step:
  "handleComplete today now s = Inr s' \<Longrightarrow> np_step s' = NightResult \<or> np_step s' = np_step s"
  by (auto simp: handleComplete_def Let_def split: option.splits if_splits)

lemma night_reachable_inv:
  assumes "night_reachable s"
  shows "night_inv s"
  using assms
proof (rule page_reachable_invariant)
  show "night_inv s" if "night_initial s" for s
    using that by (simp add: night_initial_def night_inv_def)
next
  fix s e s'
  assume inv: "night_inv s" and en: "night_enabled s e" and ev: "night_event e s = Inr s'"
  show "night_inv s'"
  proof (cases e)
    case (Skip today now)
    with inv en ev handleComplete_step [of today now s s'] show ?thesis
      by (auto simp: night_inv_def handleComplete_def Let_def split: option.splits)
  next
    case (Continue today now)
    with inv en ev handleComplete_step [of today now s s'] show ?thesis
      by (auto simp: night_inv_def handleComplete_def Let_def split: option.splits)
  qed (use inv en ev in \<open>auto simp: night_inv_def handleComparisonSelect_def
         handleSelfCareSelect_def night_redo_def\<close>)
qed

lemma night_offers_all [simp]: "d \<in> fst ` set DAY_COMPARISONS"
  by (cases d; force simp: DAY_COMPARISONS_def)

text \<open>The run of the three answers and "Continuar" over a store with a profile.\<close>

lemma night_run_profile:
  assumes "getUserProfile st = Some profile"
  shows "run_events night_event [SelectComparison d, SelectSelfCare b, SetPositive text, Continue today now]
           (night_init st) =
         Inr \<lparr>np_step = NightResult, np_dayComparison = Some d, np_didSomethingGood = Some b,
              np_positiveThings = text, np_reflection = getNightReflection d b profile,
              np_store = saveDailyInteraction
                \<lparr>interaction_id = None, userId = page_userId profile, date = today,
                 morning = None, afternoon = None,
                 night = Some \<lparr>dayComparison = d, didSomethingGood = b,
                   positiveThings = positive_list text, n_timestamp = now\<rparr>\<rparr> st,
              np_route = None\<rparr>"
proof -
  obtain r where r: "getNightReflection d b profile = Some r"
    using getNightReflection_some by blast
  with assms show ?thesis
    by (simp add: night_init_def handleComparisonSelect_def handleSelfCareSelect_def
        handleComplete_profile)
qed

section \<open>Properties of the night page\<close>

text \<open>
  No button the night page offers in a reachable state throws: when the
  positive step completes, both \<open>dayComparison!\<close> and \<open>didSomethingGood!\<close> are set
  and the reflection lookup finds its entry.
\<close>

theorem night_page_progress:
  assumes "night_reachable s" and "night_enabled s e"
  shows "\<exists>s'. night_event e s = Inr s'"
proof -
  have inv: "night_inv s" using assms(1) by (rule night_reachable_inv)
  have complete: "\<exists>s'. handleComplete today now s = Inr s'" if "np_step s = PositiveStep" for today now
  proof (cases "getUserProfile (np_store s)")
    case None
    then show ?thesis by (simp add: handleComplete_no_profile)
  next
    case (Some profile)
    from inv that obtain d b where "np_dayComparison s = Some d" "np_didSomethingGood s = Some b"
      by (auto simp: night_inv_def)
    with Some getNightReflection_some [of d b profile] show ?thesis
      by (auto dest: handleComplete_profile [where today = today and now = now])
  qed
  show ?thesis using assms(2) by (cases e) (simp_all add: complete)
qed

theorem night_page_progress_witness:
  "night_reachable (night_init empty_store) \<and>
   night_enabled (night_init empty_store) (SelectComparison Worse) \<and>
   (\<exists>s'. night_event (SelectComparison Worse) (night_init empty_store) = Inr s')"
proof -
  have r: "night_reachable (night_init empty_store)"
    by (rule page_reachable.start) (simp add: night_initial_def night_init_def)
  have e: "night_enabled (night_init empty_store) (SelectComparison Worse)"
    by (simp add: night_init_def)
  show ?thesis using night_page_progress [OF r e] r e by blast
qed

text \<open>
  Claim C30. The positive things saved are lines of the text typed, each without a line
  break and with a character other than white space; an empty text saves none
  (\<open>undefined\<close>), and a text without blank lines is saved whole: its lines joined by
  line breaks give the text back.
\<close>

theorem positive_list_lines:
  "positive_list [] = None \<and>
   (\<forall>ts. positive_list text = Some ts \<longrightarrow>
      (\<forall>t \<in> set ts. t \<in> set (js_split CHR 0x0A text) \<and> CHR 0x0A \<notin> set t \<and>
                    (\<exists>c \<in> set t. \<not> is_js_space c))) \<and>
   (text \<noteq> [] \<and> (\<forall>l \<in> set (js_split CHR 0x0A text). \<exists>c \<in> set l. \<not> is_js_space c) \<longrightarrow>
      map_option (js_join CHR 0x0A) (positive_list text) = Some text)"
proof -
  have "js_trim t \<noteq> [] \<longleftrightarrow> (\<exists>c \<in> set t. \<not> is_js_space c)" for t
    by (simp add: js_trim_empty_iff)
  then show ?thesis
    by (auto simp: positive_list_def js_join_split filter_id_conv dest: js_split_no_sep)
qed

theorem positive_list_lines_witness:
  "positive_list (''caf'' @ e_acu # '' com a Ana'' @ CHR 0x0A # '' '' @ CHR 0x0A # ''sol'') =
     Some [''caf'' @ e_acu # '' com a Ana'', ''sol''] \<and>
   map_option (js_join CHR 0x0A) (positive_list (''chuva'' @ CHR 0x0A # ''sol'')) =
     Some (''chuva'' @ CHR 0x0A # ''sol'')"
proof -
  have "map_option (js_join CHR 0x0A) (positive_list (''chuva'' @ CHR 0x0A # ''sol'')) =
          Some (''chuva'' @ CHR 0x0A # ''sol'')"
    using positive_list_lines [of "''chuva'' @ CHR 0x0A # ''sol''"]
    by (simp add: is_js_space_def)
  then show ?thesis
    by (simp add: positive_list_def js_trim_def is_js_space_def)
qed

text \<open>
  Claim C24. The whole night flow with a stored profile: after the comparison, the
  self-care answer and a text, pressing "Pular" shows the engine's reflection and saves
  today's night answer with the text's positive things, exactly as "Continuar" does:
  skipping does not discard what was typed.
\<close>

theorem night_skip_saves_text:
  assumes "window_defined st" and "getUserProfile st = Some profile"
  shows "all_enabled night_enabled night_event
           [SelectComparison d, SelectSelfCare b, SetPositive text, Skip today now] (night_init st) \<and>
         run_events night_event [SelectComparison d, SelectSelfCare b, SetPositive text, Skip today now]
           (night_init st) =
         run_events night_event [SelectComparison d, SelectSelfCare b, SetPositive text, Continue today now]
           (night_init st) \<and>
         (\<exists>s. run_events night_event [SelectComparison d, SelectSelfCare b, SetPositive text, Skip today now]
                (night_init st) = Inr s \<and>
            np_reflection s = getNightReflection d b profile \<and>
            map_option night (getTodayInteraction today (page_userId profile) (np_store s)) =
              Some (Some \<lparr>dayComparison = d, didSomethingGood = b,
                           positiveThings = positive_list text, n_timestamp = now\<rparr>))"
proof -
  obtain r where r: "getNightReflection d b profile = Some r"
    using getNightReflection_some by blast
  have h: "handleComplete today now
             (handleSelfCareSelect b (handleComparisonSelect d (night_init st))\<lparr>np_positiveThings := text\<rparr>) =
           Inr ((handleSelfCareSelect b (handleComparisonSelect d (night_init st)))\<lparr>np_positiveThings := text,
              np_reflection := Some r,
              np_store := saveDailyInteraction
                \<lparr>interaction_id = None, userId = page_userId profile, date = today,
                 morning = None, afternoon = None,
                 night = Some \<lparr>dayComparison = d, didSomethingGood = b,
                   positiveThings = positive_list text, n_timestamp = now\<rparr>\<rparr> st,
              np_step := NightResult\<rparr>)"
    using assms(2) r
    by (simp add: handleComplete_profile handleSelfCareSelect_def handleComparisonSelect_def night_init_def)
  show ?thesis
    using assms r h
    by (simp add: handleSelfCareSelect_def handleComparisonSelect_def night_init_def
        today_after_moment_save split: option.split)
qed

theorem night_skip_saves_text_witness:
  "window_defined (saveUserProfile (test_profile [] [] [''Jazz''] True) empty_store) \<and>
   getUserProfile (saveUserProfile (test_profile [] [] [''Jazz''] True) empty_store) =
     Some (test_profile [] [] [''Jazz''] True) \<and>
   map_sum id (\<lambda>s. map_option night (getTodayInteraction ''2026-11-09'' ''user'' (np_store s)))
     (run_events night_event [SelectComparison Same, SelectSelfCare True, SetPositive ''sol'',
        Skip ''2026-11-09'' 9] (night_init (saveUserProfile (test_profile [] [] [''Jazz''] True) empty_store))) =
   Inr (Some (Some \<lparr>dayComparison = Same, didSomethingGood = True,
                     positiveThings = Some [''sol''], n_timestamp = 9\<rparr>))"
proof -
  have w: "window_defined (saveUserProfile (test_profile [] [] [''Jazz''] True) empty_store)"
    and g: "getUserProfile (saveUserProfile (test_profile [] [] [''Jazz''] True) empty_store) =
              Some (test_profile [] [] [''Jazz''] True)"
    by (simp_all add: saveUserProfile_def getUserProfile_def empty_store_def)
  have u: "page_userId (test_profile [] [] [''Jazz''] True) = ''user''"
    by (simp add: page_userId_def)
  have p: "positive_list ''sol'' = Some [''sol'']"
    by (simp add: positive_list_def js_trim_def is_js_space_def)
  show ?thesis
    using night_skip_saves_text [OF w g, of Same True "''sol''" "''2026-11-09''" 9] w g u p
    by auto
qed

end
