(* ===== verification/Onboarding.thy ===== *)
theory Onboarding
  imports Storage
begin

text \<open>
  The onboarding wizard, \<open>src/src/app/onboarding/page.tsx\<close>: five steps that fill a
  partial profile (\<open>formData\<close>), with a validity test per step guarding the
  "next" button, and a final "next" that saves the form as the user's profile through
  \<open>saveUserProfile\<close> and navigates home. The page's React state (\<open>step\<close>,
  \<open>formData\<close>) and the store form the state; each handler bound in the JSX is an
  event, and \<open>enabled\<close> says which events the rendered page offers.
\<close>

section \<open>Option lists of the form\<close>

definition ZODIAC_SIGNS :: "string list" where
  "ZODIAC_SIGNS =
    [(A_acu # ''ries''),
     ''Touro'',
     (''G'' @ e_acu # ''meos''),
     ''Caranguejo'',
     (''Le'' @ a_til # ''o''),
     ''Virgem'',
     (''Balan'' @ c_ced # ''a''),
     (''Escorpi'' @ a_til # ''o''),
     (''Sagit'' @ a_acu # ''rio''),
     (''Capric'' @ o_acu # ''rnio''),
     (''Aqu'' @ a_acu # ''rio''),
     ''Peixes'']"

definition FOOD_PREFERENCES :: "string list" where
  "FOOD_PREFERENCES =
    [''Massa'',
     ''Fast Food'',
     (''Saud'' @ a_acu # ''vel''),
     ''Sushi'',
     ''Grelhados'',
     ''Vegetariano'',
     ''Doces'',
     ''Comida Caseira'']"

definition MOVIE_GENRES :: "string list" where
  "MOVIE_GENRES =
    [''Romance'',
     (''A'' @ c_ced # a_til # ''o''),
     (''Com'' @ e_acu # ''dia''),
     ''Drama'',
     ''Terror'',
     (''Fic'' @ c_ced # a_til # ''o Cient'' @ i_acu # ''fica''),
     (''Document'' @ a_acu # ''rio''),
     (''Anima'' @ c_ced # a_til # ''o'')]"

definition MUSIC_STYLES :: "string list" where
  "MUSIC_STYLES =
    [''Sertanejo'',
     ''Kizomba'',
     ''Pop'',
     ''Gospel'',
     ''Latino'',
     ''Rock'',
     ''Hip Hop'',
     (''Eletr'' @ o_acu # ''nica''),
     ''Jazz'',
     (''Cl'' @ a_acu # ''ssica'')]"

definition MAIN_GOALS :: "string list" where
  "MAIN_GOALS =
    [(''Melhorar decis'' @ o_til # ''es do dia a dia''),
     ''Reduzir ansiedade'',
     ''Organizar melhor o dia'',
     ''Ter ideias do que fazer no tempo livre'']"

section \<open>The form\<close>

text \<open>\<open>formData\<close> is a \<open>Partial<UserProfile>\<close>: every property may be missing.\<close>

record FormData =
  fd_id :: "string option"
  fd_name :: "string option"
  fd_age :: "js_number option"
  fd_country :: "string option"
  fd_timezone :: "string option"
  fd_zodiacSign :: "string option"
  fd_gender :: "string option"
  fd_foodPreferences :: "string list option"
  fd_movieGenres :: "string list option"
  fd_musicStyles :: "string list option"
  fd_wantsSunoPrompts :: "bool option"
  fd_mainGoal :: "string list option"
  fd_morningTime :: "string option"
  fd_afternoonTime :: "string option"
  fd_nightTime :: "string option"
  fd_createdAt :: "js_date option"

definition initial_formData :: FormData where
  "initial_formData =
     \<lparr>fd_id = None, fd_name = None, fd_age = None, fd_country = None, fd_timezone = None,
      fd_zodiacSign = None, fd_gender = None, fd_foodPreferences = Some [],
      fd_movieGenres = Some [], fd_musicStyles = Some [], fd_wantsSunoPrompts = Some False,
      fd_mainGoal = Some [], fd_morningTime = Some ''08:00'', fd_afternoonTime = Some ''15:00'',
      fd_nightTime = Some ''21:00'', fd_createdAt = None\<rparr>"

definition totalSteps :: int where
  "totalSteps = 5"

record OnboardingState =
  ob_step :: int
  formData :: FormData
  ob_store :: Store
  ob_route :: "string option"

definition onboarding_init :: "Store \<Rightarrow> OnboardingState" where
  "onboarding_init st = \<lparr>ob_step = 1, formData = initial_formData, ob_store = st, ob_route = None\<rparr>"

section \<open>Helpers of the page\<close>

definition toggleArrayItem :: "string list \<Rightarrow> string \<Rightarrow> string list" where
  "toggleArrayItem xs item =
     (if item \<in> set xs then filter (\<lambda>i. i \<noteq> item) xs else xs @ [item])"

text \<open>JavaScript truthiness of the optional string and number fields.\<close>

definition truthy_str :: "string option \<Rightarrow> bool" where
  "truthy_str v = (case v of None \<Rightarrow> False | Some s \<Rightarrow> s \<noteq> [])"

definition nonempty_list :: "string list option \<Rightarrow> bool" where
  "nonempty_list v = (case v of None \<Rightarrow> False | Some xs \<Rightarrow> 0 < length xs)"

text \<open>
  \<open>isStepValid\<close>. On a missing list field \<open>formData.foodPreferences!.length\<close> would
  throw; the lists are set from the first render on (\<open>onboarding_inv\<close> below), so
  that case does not occur and is written as \<open>False\<close>.
\<close>

definition isStepValid :: "int \<Rightarrow> FormData \<Rightarrow> bool" where
  "isStepValid step fd =
     (if step = 1 then truthy_str (fd_name fd) \<and>
                       (case fd_age fd of None \<Rightarrow> False | Some a \<Rightarrow> a \<noteq> 0 \<and> 0 < a)
      else if step = 2 then truthy_str (fd_country fd) \<and> truthy_str (fd_timezone fd) \<and>
                            truthy_str (fd_zodiacSign fd)
      else if step = 3 then nonempty_list (fd_foodPreferences fd) \<and>
                            nonempty_list (fd_movieGenres fd) \<and> nonempty_list (fd_musicStyles fd)
      else if step = 4 then nonempty_list (fd_mainGoal fd)
      else if step = 5 then True
      else False)"

text \<open>
  \<open>formData as UserProfile\<close>: the cast checks nothing. The model reads the profile
  out of the form and returns \<open>None\<close> when a property the \<open>UserProfile\<close> type
  requires is missing, the case where the saved JSON would lack it.
\<close>

definition cast_profile :: "FormData \<Rightarrow> UserProfile option" where
  "cast_profile fd =
     (case (fd_name fd, fd_age fd, fd_country fd, fd_timezone fd, fd_zodiacSign fd) of
        (Some n, Some a, Some c, Some tz, Some z) \<Rightarrow>
          (case (fd_foodPreferences fd, fd_movieGenres fd, fd_musicStyles fd,
                 fd_wantsSunoPrompts fd, fd_mainGoal fd) of
             (Some f, Some g, Some ms, Some w, Some goals) \<Rightarrow>
               (case (fd_morningTime fd, fd_afternoonTime fd, fd_nightTime fd) of
                  (Some mt, Some at, Some nt) \<Rightarrow>
                    Some \<lparr>profile_id = fd_id fd, name = n, age = a, country = c, timezone = tz,
                          zodiacSign = z, gender = fd_gender fd, foodPreferences = f,
                          movieGenres = g, musicStyles = ms, wantsSunoPrompts = w,
                          mainGoal = goals, morningTime = mt, afternoonTime = at,
                          nightTime = nt, createdAt = fd_createdAt fd\<rparr>
                | _ \<Rightarrow> None)
           | _ \<Rightarrow> None)
      | _ \<Rightarrow> None)"

section \<open>Events\<close>

text \<open>
  One constructor per handler the page binds: the \<open>onChange\<close> of each input (the
  age input delivers \<open>parseInt(e.target.value)\<close>, \<open>None\<close> for \<open>NaN\<close>), the
  \<open>onClick\<close> of each sign, the \<open>onCheckedChange\<close> of each checkbox, and the two
  navigation buttons.
\<close>

datatype OnboardingEvent =
    SetName string | SetAge "int option" | SetGender string
  | SetCountry string | SetTimezone string | SetZodiac string
  | ToggleFood string | ToggleMovie string | ToggleMusic string
  | ToggleGoal string | SetSuno bool
  | SetMorningTime string | SetAfternoonTime string | SetNightTime string
  | Next | Back

datatype OnboardingError = UndefinedArray | IncompleteProfile

text \<open>
  Which events the rendered page offers: the inputs of step \<open>k\<close> are rendered only
  under \<open>step === k\<close>, the signs and checkboxes only for the listed options, "Voltar"
  is disabled on step 1 and "Continuar" while \<open>isStepValid()\<close> is false.
\<close>

fun enabled :: "OnboardingState \<Rightarrow> OnboardingEvent \<Rightarrow> bool" where
  "enabled s (SetName _) = (ob_step s = 1)"
| "enabled s (SetAge _) = (ob_step s = 1)"
| "enabled s (SetGender _) = (ob_step s = 1)"
| "enabled s (SetCountry _) = (ob_step s = 2)"
| "enabled s (SetTimezone _) = (ob_step s = 2)"
| "enabled s (SetZodiac z) = (ob_step s = 2 \<and> z \<in> set ZODIAC_SIGNS)"
| "enabled s (ToggleFood x) = (ob_step s = 3 \<and> x \<in> set FOOD_PREFERENCES)"
| "enabled s (ToggleMovie x) = (ob_step s = 3 \<and> x \<in> set MOVIE_GENRES)"
| "enabled s (ToggleMusic x) = (ob_step s = 3 \<and> x \<in> set MUSIC_STYLES)"
| "enabled s (ToggleGoal x) = (ob_step s = 4 \<and> x \<in> set MAIN_GOALS)"
| "enabled s (SetSuno _) = (ob_step s = 4)"
| "enabled s (SetMorningTime _) = (ob_step s = 5)"
| "enabled s (SetAfternoonTime _) = (ob_step s = 5)"
| "enabled s (SetNightTime _) = (ob_step s = 5)"
| "enabled s Next = isStepValid (ob_step s) (formData s)"
| "enabled s Back = (ob_step s \<noteq> 1)"

definition toggle_field :: "string list option \<Rightarrow> string \<Rightarrow> OnboardingError + string list option" where
  "toggle_field v x = (case v of None \<Rightarrow> Inl UndefinedArray | Some xs \<Rightarrow> Inr (Some (toggleArrayItem xs x)))"

definition set_form :: "OnboardingState \<Rightarrow> FormData \<Rightarrow> OnboardingState" where
  "set_form s fd = s\<lparr>formData := fd\<rparr>"

definition handleNext :: "OnboardingState \<Rightarrow> OnboardingError + OnboardingState" where
  "handleNext s =
     (if ob_step s < totalSteps then Inr (s\<lparr>ob_step := ob_step s + 1\<rparr>)
      else case cast_profile (formData s) of
             None \<Rightarrow> Inl IncompleteProfile
           | Some p \<Rightarrow> Inr (s\<lparr>ob_store := saveUserProfile p (ob_store s), ob_route := Some ''/''\<rparr>))"

definition handleBack :: "OnboardingState \<Rightarrow> OnboardingState" where
  "handleBack s = (if 1 < ob_step s then s\<lparr>ob_step := ob_step s - 1\<rparr> else s)"

fun onboarding_event :: "OnboardingEvent \<Rightarrow> OnboardingState \<Rightarrow> OnboardingError + OnboardingState" where
  "onboarding_event (SetName v) s = Inr (set_form s ((formData s)\<lparr>fd_name := Some v\<rparr>))"
| "onboarding_event (SetAge v) s =
     Inr (set_form s ((formData s)\<lparr>fd_age := Some (case v of None \<Rightarrow> 0 | Some n \<Rightarrow> n)\<rparr>))"
| "onboarding_event (SetGender v) s = Inr (set_form s ((formData s)\<lparr>fd_gender := Some v\<rparr>))"
| "onboarding_event (SetCountry v) s = Inr (set_form s ((formData s)\<lparr>fd_country := Some v\<rparr>))"
| "onboarding_event (SetTimezone v) s = Inr (set_form s ((formData s)\<lparr>fd_timezone := Some v\<rparr>))"
| "onboarding_event (SetZodiac v) s = Inr (set_form s ((formData s)\<lparr>fd_zodiacSign := Some v\<rparr>))"
| "onboarding_event (ToggleFood x) s =
     map_sum id (\<lambda>v. set_form s ((formData s)\<lparr>fd_foodPreferences := v\<rparr>))
       (toggle_field (fd_foodPreferences (formData s)) x)"
| "onboarding_event (ToggleMovie x) s =
     map_sum id (\<lambda>v. set_form s ((formData s)\<lparr>fd_movieGenres := v\<rparr>))
       (toggle_field (fd_movieGenres (formData s)) x)"
| "onboarding_event (ToggleMusic x) s =
     map_sum id (\<lambda>v. set_form s ((formData s)\<lparr>fd_musicStyles := v\<rparr>))
       (toggle_field (fd_musicStyles (formData s)) x)"
| "onboarding_event (ToggleGoal x) s =
     map_sum id (\<lambda>v. set_form s ((formData s)\<lparr>fd_mainGoal := v\<rparr>))
       (toggle_field (fd_mainGoal (formData s)) x)"
| "onboarding_event (SetSuno b) s = Inr (set_form s ((formData s)\<lparr>fd_wantsSunoPrompts := Some b\<rparr>))"
| "onboarding_event (SetMorningTime v) s = Inr (set_form s ((formData s)\<lparr>fd_morningTime := Some v\<rparr>))"
| "onboarding_event (SetAfternoonTime v) s = Inr (set_form s ((formData s)\<lparr>fd_afternoonTime := Some v\<rparr>))"
| "onboarding_event (SetNightTime v) s = Inr (set_form s ((formData s)\<lparr>fd_nightTime := Some v\<rparr>))"
| "onboarding_event Next s = handleNext s"
| "onboarding_event Back s = Inr (handleBack s)"

section \<open>Runs of the wizard\<close>

text \<open>
  The states a user reaches from the first render over a store without a profile
  (a first visit, or after the reset of the settings page) by enabled events.
\<close>

inductive onboarding_reachable :: "OnboardingState \<Rightarrow> bool" where
  start: "ls_user_profile st = None \<Longrightarrow> onboarding_reachable (onboarding_init st)"
| step: "onboarding_reachable s \<Longrightarrow> enabled s e \<Longrightarrow> onboarding_event e s = Inr s' \<Longrightarrow>
         onboarding_reachable s'"

section \<open>Invariant of the wizard\<close>

text \<open>
  What every reachable state keeps: the step is in 1..5; the list, flag and time fields
  are present; the lists hold distinct entries of their option lists and the sign is
  one of the twelve; every step before the current one is valid; and a stored profile
  is a complete one built from the option lists.
\<close>

definition options_list :: "string list option \<Rightarrow> string list \<Rightarrow> bool" where
  "options_list v opts = (case v of None \<Rightarrow> False | Some xs \<Rightarrow> set xs \<subseteq> set opts \<and> distinct xs)"

definition profile_ok :: "UserProfile \<Rightarrow> bool" where
  "profile_ok p \<longleftrightarrow>
     name p \<noteq> [] \<and> 0 < age p \<and> country p \<noteq> [] \<and> timezone p \<noteq> [] \<and>
     zodiacSign p \<in> set ZODIAC_SIGNS \<and>
     foodPreferences p \<noteq> [] \<and> set (foodPreferences p) \<subseteq> set FOOD_PREFERENCES \<and>
     movieGenres p \<noteq> [] \<and> set (movieGenres p) \<subseteq> set MOVIE_GENRES \<and>
     musicStyles p \<noteq> [] \<and> set (musicStyles p) \<subseteq> set MUSIC_STYLES \<and>
     mainGoal p \<noteq> [] \<and> set (mainGoal p) \<subseteq> set MAIN_GOALS"

definition onboarding_inv :: "OnboardingState \<Rightarrow> bool" where
  "onboarding_inv s \<longleftrightarrow>
     1 \<le> ob_step s \<and> ob_step s \<le> totalSteps \<and>
     options_list (fd_foodPreferences (formData s)) FOOD_PREFERENCES \<and>
     options_list (fd_movieGenres (formData s)) MOVIE_GENRES \<and>
     options_list (fd_musicStyles (formData s)) MUSIC_STYLES \<and>
     options_list (fd_mainGoal (formData s)) MAIN_GOALS \<and>
     fd_wantsSunoPrompts (formData s) \<noteq> None \<and> fd_morningTime (formData s) \<noteq> None \<and>
     fd_afternoonTime (formData s) \<noteq> None \<and> fd_nightTime (formData s) \<noteq> None \<and>
     (case fd_zodiacSign (formData s) of None \<Rightarrow> True | Some z \<Rightarrow> z \<in> set ZODIAC_SIGNS) \<and>
     (\<forall>j. 1 \<le> j \<and> j < ob_step s \<longrightarrow> isStepValid j (formData s)) \<and>
     (case ls_user_profile (ob_store s) of None \<Rightarrow> True | Some p \<Rightarrow> profile_ok p)"

lemma toggleArrayItem_set: "set (toggleArrayItem xs x) = (if x \<in> set xs then set xs - {x} else insert x (set xs))"
  by (auto simp: toggleArrayItem_def)

lemma toggleArrayItem_distinct: "distinct xs \<Longrightarrow> distinct (toggleArrayItem xs x)"
  by (auto simp: toggleArrayItem_def)

lemma options_list_toggle:
  "options_list v opts \<Longrightarrow> x \<in> set opts \<Longrightarrow>
   \<exists>v'. toggle_field v x = Inr v' \<and> options_list v' opts"
  by (auto simp: options_list_def toggle_field_def toggleArrayItem_set toggleArrayItem_distinct
      split: option.splits)

lemma isStepValid_upd [simp]:
  "j \<noteq> 1 \<Longrightarrow> isStepValid j (fd\<lparr>fd_name := v\<rparr>) = isStepValid j fd"
  "j \<noteq> 1 \<Longrightarrow> isStepValid j (fd\<lparr>fd_age := a\<rparr>) = isStepValid j fd"
  "isStepValid j (fd\<lparr>fd_gender := v\<rparr>) = isStepValid j fd"
  "j \<noteq> 2 \<Longrightarrow> isStepValid j (fd\<lparr>fd_country := v\<rparr>) = isStepValid j fd"
  "j \<noteq> 2 \<Longrightarrow> isStepValid j (fd\<lparr>fd_timezone := v\<rparr>) = isStepValid j fd"
  "j \<noteq> 2 \<Longrightarrow> isStepValid j (fd\<lparr>fd_zodiacSign := v\<rparr>) = isStepValid j fd"
  "j \<noteq> 3 \<Longrightarrow> isStepValid j (fd\<lparr>fd_foodPreferences := l\<rparr>) = isStepValid j fd"
  "j \<noteq> 3 \<Longrightarrow> isStepValid j (fd\<lparr>fd_movieGenres := l\<rparr>) = isStepValid j fd"
  "j \<noteq> 3 \<Longrightarrow> isStepValid j (fd\<lparr>fd_musicStyles := l\<rparr>) = isStepValid j fd"
  "j \<noteq> 4 \<Longrightarrow> isStepValid j (fd\<lparr>fd_mainGoal := l\<rparr>) = isStepValid j fd"
  "isStepValid j (fd\<lparr>fd_wantsSunoPrompts := b\<rparr>) = isStepValid j fd"
  "isStepValid j (fd\<lparr>fd_morningTime := v\<rparr>) = isStepValid j fd"
  "isStepValid j (fd\<lparr>fd_afternoonTime := v\<rparr>) = isStepValid j fd"
  "isStepValid j (fd\<lparr>fd_nightTime := v\<rparr>) = isStepValid j fd"
  by (simp_all add: isStepValid_def)

lemma onboarding_init_inv: "ls_user_profile st = None \<Longrightarrow> onboarding_inv (onboarding_init st)"
  by (auto simp: onboarding_inv_def onboarding_init_def initial_formData_def options_list_def
      totalSteps_def)

text \<open>At step 5 with the steps before it valid, the cast finds every property.\<close>

lemma cast_profile_complete:
  assumes "onboarding_inv s" and "ob_step s = 5"
  shows "\<exists>p. cast_profile (formData s) = Some p \<and> profile_ok p"
proof -
  let ?fd = "formData s"
  have v: "isStepValid 1 ?fd" "isStepValid 2 ?fd" "isStepValid 3 ?fd" "isStepValid 4 ?fd"
    using assms unfolding onboarding_inv_def by auto
  from assms have lists:
    "options_list (fd_foodPreferences ?fd) FOOD_PREFERENCES"
    "options_list (fd_movieGenres ?fd) MOVIE_GENRES"
    "options_list (fd_musicStyles ?fd) MUSIC_STYLES"
    "options_list (fd_mainGoal ?fd) MAIN_GOALS"
    "fd_wantsSunoPrompts ?fd \<noteq> None" "fd_morningTime ?fd \<noteq> None"
    "fd_afternoonTime ?fd \<noteq> None" "fd_nightTime ?fd \<noteq> None"
    "case fd_zodiacSign ?fd of None \<Rightarrow> True | Some z \<Rightarrow> z \<in> set ZODIAC_SIGNS"
    unfolding onboarding_inv_def by auto
  from v lists show ?thesis
    by (auto simp: isStepValid_def truthy_str_def nonempty_list_def options_list_def
        cast_profile_def profile_ok_def split: option.splits)
qed

lemma onboarding_event_inv:
  assumes inv: "onboarding_inv s" and en: "enabled s e" and ev: "onboarding_event e s = Inr s'"
  shows "onboarding_inv s'"
proof (cases e)
  case Next
  show ?thesis
  proof (cases "ob_step s < totalSteps")
    case True
    with ev Next have "s' = s\<lparr>ob_step := ob_step s + 1\<rparr>" by (simp add: handleNext_def)
    with inv en Next True show ?thesis
      by (auto simp: onboarding_inv_def less_le)
  next
    case False
    with inv have five: "ob_step s = 5" by (simp add: onboarding_inv_def totalSteps_def)
    from cast_profile_complete [OF inv five] obtain p
      where p: "cast_profile (formData s) = Some p" "profile_ok p" by blast
    with ev Next False
    have "s' = s\<lparr>ob_store := saveUserProfile p (ob_store s), ob_route := Some ''/''\<rparr>"
      by (simp add: handleNext_def)
    with inv p show ?thesis
      by (simp add: onboarding_inv_def saveUserProfile_def)
  qed
next
  case Back
  with inv ev show ?thesis by (auto simp: onboarding_inv_def handleBack_def)
next
  case (ToggleFood x)
  with inv en obtain v where "toggle_field (fd_foodPreferences (formData s)) x = Inr v"
      "options_list v FOOD_PREFERENCES"
    using options_list_toggle by (fastforce simp: onboarding_inv_def)
  with inv en ev ToggleFood show ?thesis by (auto simp: onboarding_inv_def set_form_def)
next
  case (ToggleMovie x)
  with inv en obtain v where "toggle_field (fd_movieGenres (formData s)) x = Inr v"
      "options_list v MOVIE_GENRES"
    using options_list_toggle by (fastforce simp: onboarding_inv_def)
  with inv en ev ToggleMovie show ?thesis by (auto simp: onboarding_inv_def set_form_def)
next
  case (ToggleMusic x)
  with inv en obtain v where "toggle_field (fd_musicStyles (formData s)) x = Inr v"
      "options_list v MUSIC_STYLES"
    using options_list_toggle by (fastforce simp: onboarding_inv_def)
  with inv en ev ToggleMusic show ?thesis by (auto simp: onboarding_inv_def set_form_def)
next
  case (ToggleGoal x)
  with inv en obtain v where "toggle_field (fd_mainGoal (formData s)) x = Inr v"
      "options_list v MAIN_GOALS"
    using options_list_toggle by (fastforce simp: onboarding_inv_def)
  with inv en ev ToggleGoal show ?thesis by (auto simp: onboarding_inv_def set_form_def)
qed (use inv en ev in \<open>auto simp: onboarding_inv_def set_form_def\<close>)

lemma onboarding_reachable_inv: "onboarding_reachable s \<Longrightarrow> onboarding_inv s"
  by (induction rule: onboarding_reachable.induct) (auto intro: onboarding_init_inv onboarding_event_inv)

section \<open>Runs\<close>

text \<open>A user's sequence of interactions, each taken only when the page offers it.\<close>

fun onboarding_run :: "OnboardingEvent list \<Rightarrow> OnboardingState \<Rightarrow> OnboardingError + OnboardingState" where
  "onboarding_run [] s = Inr s"
| "onboarding_run (e # es) s =
     (if enabled s e then (case onboarding_event e s of Inl err \<Rightarrow> Inl err | Inr s' \<Rightarrow> onboarding_run es s')
      else Inl UndefinedArray)"

lemma onboarding_run_reachable:
  "onboarding_reachable s \<Longrightarrow> onboarding_run es s = Inr s' \<Longrightarrow> onboarding_reachable s'"
proof (induction es arbitrary: s)
  case Nil
  then show ?case by simp
next
  case (Cons e es)
  then show ?case
    by (auto intro: onboarding_reachable.step split: if_splits sum.splits)
qed

definition sample_signup :: "OnboardingEvent list" where
  "sample_signup =
     [SetName ''Ana'', SetAge (Some 30), Next,
      SetCountry ''Portugal'', SetTimezone ''Europe/Lisbon'', SetZodiac ''Touro'', Next,
      ToggleFood ''Massa'', ToggleMovie ''Drama'', ToggleMusic ''Pop'', Next,
      ToggleGoal ''Reduzir ansiedade'', SetSuno True, Next, Next]"

definition sample_store :: Store where
  "sample_store = \<lparr>window_defined = True, ls_user_profile = None,
     ls_daily_interactions = None, ls_onboarding_complete = None\<rparr>"

lemma sample_signup_run:
  "onboarding_run sample_signup (onboarding_init sample_store) =
     Inr \<lparr>ob_step = 5,
          formData = initial_formData\<lparr>fd_name := Some ''Ana'', fd_age := Some 30,
            fd_country := Some ''Portugal'', fd_timezone := Some ''Europe/Lisbon'',
            fd_zodiacSign := Some ''Touro'', fd_foodPreferences := Some [''Massa''],
            fd_movieGenres := Some [''Drama''], fd_musicStyles := Some [''Pop''],
            fd_mainGoal := Some [''Reduzir ansiedade''], fd_wantsSunoPrompts := Some True\<rparr>,
          ob_store = sample_store\<lparr>ls_user_profile := Some
            \<lparr>profile_id = None, name = ''Ana'', age = 30, country = ''Portugal'',
             timezone = ''Europe/Lisbon'', zodiacSign = ''Touro'', gender = None,
             foodPreferences = [''Massa''], movieGenres = [''Drama''], musicStyles = [''Pop''],
             wantsSunoPrompts = True, mainGoal = [''Reduzir ansiedade''],
             morningTime = ''08:00'', afternoonTime = ''15:00'', nightTime = ''21:00'',
             createdAt = None\<rparr>, ls_onboarding_complete := Some ''true''\<rparr>,
          ob_route = Some ''/''\<rparr>"
  by (simp add: sample_signup_def onboarding_init_def initial_formData_def set_form_def
      toggle_field_def toggleArrayItem_def handleNext_def totalSteps_def isStepValid_def
      truthy_str_def nonempty_list_def cast_profile_def saveUserProfile_def sample_store_def
      ZODIAC_SIGNS_def FOOD_PREFERENCES_def MOVIE_GENRES_def MUSIC_STYLES_def MAIN_GOALS_def)

section \<open>Properties of the wizard\<close>

text \<open>
  Claim C20. In every reachable state of the wizard the step lies in 1..5 and every
  step before the current one is valid: the "next" guard cannot be bypassed.
\<close>

theorem onboarding_steps_valid:
  assumes "onboarding_reachable s"
  shows "1 \<le> ob_step s \<and> ob_step s \<le> 5 \<and>
         (\<forall>j. 1 \<le> j \<and> j < ob_step s \<longrightarrow> isStepValid j (formData s))"
  using onboarding_reachable_inv [OF assms] by (simp add: onboarding_inv_def totalSteps_def)

theorem onboarding_steps_valid_witness:
  "onboarding_reachable (onboarding_init sample_store) \<and>
   1 \<le> ob_step (onboarding_init sample_store) \<and> ob_step (onboarding_init sample_store) \<le> 5"
proof -
  have r: "onboarding_reachable (onboarding_init sample_store)"
    by (rule onboarding_reachable.start) (simp add: sample_store_def)
  show ?thesis using onboarding_steps_valid [OF r] r by simp
qed

text \<open>
  No event the page offers fails in a reachable state: the list fields are
  never undefined when toggled, and the final \<open>formData as UserProfile\<close> cast always
  finds every property the profile type requires.
\<close>

theorem onboarding_progress:
  assumes "onboarding_reachable s" and "enabled s e"
  shows "\<exists>s'. onboarding_event e s = Inr s'"
proof -
  have inv: "onboarding_inv s" by (rule onboarding_reachable_inv [OF assms(1)])
  show ?thesis
  proof (cases e)
    case Next
    show ?thesis
    proof (cases "ob_step s < totalSteps")
      case True
      with Next show ?thesis by (simp add: handleNext_def)
    next
      case False
      with inv have "ob_step s = 5" by (simp add: onboarding_inv_def totalSteps_def)
      from cast_profile_complete [OF inv this] False Next show ?thesis
        by (auto simp: handleNext_def)
    qed
  qed (use inv in \<open>auto simp: onboarding_inv_def toggle_field_def options_list_def
         split: option.splits\<close>)
qed

theorem onboarding_progress_witness:
  "onboarding_reachable (onboarding_init sample_store) \<and>
   enabled (onboarding_init sample_store) (SetName ''Ana'') \<and>
   (\<exists>s'. onboarding_event (SetName ''Ana'') (onboarding_init sample_store) = Inr s')"
proof -
  have r: "onboarding_reachable (onboarding_init sample_store)"
    by (rule onboarding_reachable.start) (simp add: sample_store_def)
  have e: "enabled (onboarding_init sample_store) (SetName ''Ana'')"
    by (simp add: onboarding_init_def)
  show ?thesis using onboarding_progress [OF r e] r e by blast
qed

text \<open>
  Claim C21. A profile the wizard stores is complete: a non-empty name, a positive
  age, country and time zone, one of the twelve signs, and non-empty food, film, music
  and goal lists drawn from the form's option lists.
\<close>

theorem onboarding_saved_profile_ok:
  assumes "onboarding_reachable s" and "ls_user_profile (ob_store s) = Some p"
  shows "profile_ok p"
  using onboarding_reachable_inv [OF assms(1)] assms(2) by (simp add: onboarding_inv_def)

theorem onboarding_saved_profile_ok_witness:
  "\<exists>s. onboarding_reachable s \<and> ls_user_profile (ob_store s) = Some
     \<lparr>profile_id = None, name = ''Ana'', age = 30, country = ''Portugal'',
      timezone = ''Europe/Lisbon'', zodiacSign = ''Touro'', gender = None,
      foodPreferences = [''Massa''], movieGenres = [''Drama''], musicStyles = [''Pop''],
      wantsSunoPrompts = True, mainGoal = [''Reduzir ansiedade''],
      morningTime = ''08:00'', afternoonTime = ''15:00'', nightTime = ''21:00'',
      createdAt = None\<rparr> \<and>
   profile_ok
     \<lparr>profile_id = None, name = ''Ana'', age = 30, country = ''Portugal'',
      timezone = ''Europe/Lisbon'', zodiacSign = ''Touro'', gender = None,
      foodPreferences = [''Massa''], movieGenres = [''Drama''], musicStyles = [''Pop''],
      wantsSunoPrompts = True, mainGoal = [''Reduzir ansiedade''],
      morningTime = ''08:00'', afternoonTime = ''15:00'', nightTime = ''21:00'',
      createdAt = None\<rparr>"
proof -
  have r0: "onboarding_reachable (onboarding_init sample_store)"
    by (rule onboarding_reachable.start) (simp add: sample_store_def)
  have r: "onboarding_reachable (projr (onboarding_run sample_signup (onboarding_init sample_store)))"
    using onboarding_run_reachable [OF r0] sample_signup_run by simp
  show ?thesis
    using r onboarding_saved_profile_ok [OF r] sample_signup_run by fastforce
qed

text \<open>
  Toggling an option that is not selected and toggling it again restores
  the list; toggling keeps a list duplicate-free and flips exactly that option.
\<close>

theorem toggleArrayItem_roundtrip:
  assumes "x \<notin> set xs" and "distinct xs"
  shows "toggleArrayItem (toggleArrayItem xs x) x = xs \<and> distinct (toggleArrayItem xs x) \<and>
         set (toggleArrayItem xs x) = insert x (set xs)"
  using assms by (auto simp: toggleArrayItem_def filter_id_conv)

theorem toggleArrayItem_roundtrip_witness:
  "''Pop'' \<notin> set [''Jazz'', ''Rock''] \<and> distinct [''Jazz'', ''Rock''] \<and>
   toggleArrayItem (toggleArrayItem [''Jazz'', ''Rock''] ''Pop'') ''Pop'' = [''Jazz'', ''Rock'']"
  using toggleArrayItem_roundtrip [of "''Pop''" "[''Jazz'', ''Rock'']"] by simp

end
