(* ===== verification/Onboarding_Liveness.thy ===== *)
theory Onboarding_Liveness
  imports Onboarding
begin

text \<open>
  Liveness of the onboarding wizard: from every reachable state the page offers a
  sequence of events that finishes it. \<open>fill_events\<close> is such a sequence for the
  current step: it fills what the step requires (a name and an age, a country, a time
  zone and a sign, one option of each empty list) and presses "Continuar". The
  sequences are user input, not code of the page.
\<close>

definition fill_events :: "OnboardingState \<Rightarrow> OnboardingEvent list" where
  "fill_events s =
     (if ob_step s = 1 then [SetName ''Ana'', SetAge (Some 30), Next]
      else if ob_step s = 2 then
        [SetCountry ''Portugal'', SetTimezone ''Europe/Lisbon'', SetZodiac ''Touro'', Next]
      else if ob_step s = 3 then
        (if nonempty_list (fd_foodPreferences (formData s)) then [] else [ToggleFood ''Massa'']) @
        (if nonempty_list (fd_movieGenres (formData s)) then [] else [ToggleMovie ''Drama'']) @
        (if nonempty_list (fd_musicStyles (formData s)) then [] else [ToggleMusic ''Pop'']) @ [Next]
      else if ob_step s = 4 then
        (if nonempty_list (fd_mainGoal (formData s)) then [] else [ToggleGoal ''Reduzir ansiedade'']) @
        [Next]
      else [])"

section \<open>Runs of the wizard\<close>

lemma onboarding_run_append:
  "onboarding_run (xs @ ys) s =
     (case onboarding_run xs s of Inl err \<Rightarrow> Inl err | Inr s' \<Rightarrow> onboarding_run ys s')"
  by (induction xs arbitrary: s) (auto split: sum.split)

text \<open>No event clears the route once a handler has pushed one.\<close>

lemma onboarding_event_route:
  "onboarding_event e s = Inr s' \<Longrightarrow> ob_route s' = ob_route s \<or> ob_route s' = Some ''/''"
  by (cases e) (auto simp: set_form_def handleNext_def handleBack_def map_sum_def
      split: sum.splits option.splits if_splits)

lemma onboarding_run_route:
  "onboarding_run es s = Inr s' \<Longrightarrow> ob_route s' = None \<Longrightarrow> ob_route s = None"
proof (induction es arbitrary: s)
  case (Cons e es)
  then show ?case
    by (auto split: if_splits sum.splits dest: onboarding_event_route)
qed simp

lemma fill_step:
  assumes inv: "onboarding_inv s" and lt: "ob_step s < 5" and r: "ob_route s = None"
  shows "\<exists>s'. onboarding_run (fill_events s) s = Inr s' \<and> ob_step s' = ob_step s + 1 \<and>
              ob_route s' = None \<and> ob_store s' = ob_store s"
proof -
  let ?fd = "formData s"
  from inv obtain fs gs ms os where
    l: "fd_foodPreferences ?fd = Some fs" "fd_movieGenres ?fd = Some gs"
       "fd_musicStyles ?fd = Some ms" "fd_mainGoal ?fd = Some os"
    by (auto simp: onboarding_inv_def options_list_def split: option.splits)
  from inv lt have "ob_step s = 1 \<or> ob_step s = 2 \<or> ob_step s = 3 \<or> ob_step s = 4"
    by (auto simp: onboarding_inv_def)
  then consider "ob_step s = 1" | "ob_step s = 2" | "ob_step s = 3" | "ob_step s = 4" by blast
  then show ?thesis
  proof cases
    case 1
    then show ?thesis using r
      by (simp add: fill_events_def set_form_def handleNext_def totalSteps_def isStepValid_def
          truthy_str_def)
  next
    case 2
    then show ?thesis using r
      by (simp add: fill_events_def set_form_def handleNext_def totalSteps_def isStepValid_def
          truthy_str_def ZODIAC_SIGNS_def)
  next
    case 3
    then show ?thesis using l r
      by (cases "fs = []"; cases "gs = []"; cases "ms = []")
         (simp_all add: fill_events_def set_form_def handleNext_def totalSteps_def isStepValid_def
          nonempty_list_def toggle_field_def toggleArrayItem_def FOOD_PREFERENCES_def
          MOVIE_GENRES_def MUSIC_STYLES_def)
  next
    case 4
    then show ?thesis using l r
      by (cases "os = []")
         (simp_all add: fill_events_def set_form_def handleNext_def totalSteps_def isStepValid_def
          nonempty_list_def toggle_field_def toggleArrayItem_def MAIN_GOALS_def)
  qed
qed

lemma wizard_to_last_step:
  assumes "onboarding_reachable s" and "ob_route s = None"
  shows "\<exists>es s'. onboarding_run es s = Inr s' \<and> ob_step s' = 5 \<and> ob_route s' = None \<and>
                 ob_store s' = ob_store s"
  using assms
proof (induction "nat (5 - ob_step s)" arbitrary: s)
  case 0
  then have "ob_step s = 5"
    using onboarding_reachable_inv [OF "0.prems"(1)] by (simp add: onboarding_inv_def totalSteps_def)
  then show ?case using "0.prems" by (intro exI [of _ "[]"]) simp
next
  case (Suc n)
  have inv: "onboarding_inv s" using Suc.prems(1) by (rule onboarding_reachable_inv)
  with Suc.hyps(2) have lt: "ob_step s < 5" by (simp add: onboarding_inv_def)
  obtain s1 where s1: "onboarding_run (fill_events s) s = Inr s1" "ob_step s1 = ob_step s + 1"
      "ob_route s1 = None" "ob_store s1 = ob_store s"
    using fill_step [OF inv lt Suc.prems(2)] by blast
  have r1: "onboarding_reachable s1" using onboarding_run_reachable [OF Suc.prems(1) s1(1)] .
  from Suc.hyps(2) s1(2) have "n = nat (5 - ob_step s1)" by simp
  from Suc.hyps(1) [OF this r1 s1(3)] obtain es s' where
    "onboarding_run es s1 = Inr s'" "ob_step s' = 5" "ob_route s' = None" "ob_store s' = ob_store s1"
    by blast
  with s1 show ?case
    by (intro exI [of _ "fill_events s @ es"] exI [of _ s']) (simp add: onboarding_run_append)
qed

text \<open>On the last step the button saves the profile the form holds and pushes \<open>/\<close>.\<close>

lemma wizard_last_next:
  assumes "onboarding_reachable s" and "ob_step s = 5"
  shows "\<exists>p. profile_ok p \<and> enabled s Next \<and>
           onboarding_event Next s =
             Inr (s\<lparr>ob_store := saveUserProfile p (ob_store s), ob_route := Some ''/''\<rparr>)"
proof -
  have inv: "onboarding_inv s" using assms(1) by (rule onboarding_reachable_inv)
  from cast_profile_complete [OF inv assms(2)] obtain p
    where "cast_profile (formData s) = Some p" "profile_ok p" by blast
  with assms(2) show ?thesis
    by (auto simp: handleNext_def totalSteps_def isStepValid_def)
qed

section \<open>Liveness of the wizard\<close>

text \<open>
  Claim C11. From every reachable state of the wizard that has not yet pushed a route,
  the page offers a run of events that completes it: the run saves a complete profile
  over the store and pushes \<open>/\<close>. The user can always finish the onboarding.
\<close>

theorem onboarding_can_finish:
  assumes "onboarding_reachable s" and "ob_route s = None"
  shows "\<exists>es s'. onboarding_run es s = Inr s' \<and> ob_route s' = Some ''/'' \<and>
           (\<exists>p. profile_ok p \<and> ob_store s' = saveUserProfile p (ob_store s))"
proof -
  obtain es s5 where s5: "onboarding_run es s = Inr s5" "ob_step s5 = 5" "ob_route s5 = None"
      "ob_store s5 = ob_store s"
    using wizard_to_last_step [OF assms] by blast
  have r5: "onboarding_reachable s5" using onboarding_run_reachable [OF assms(1) s5(1)] .
  obtain p where p: "profile_ok p" "enabled s5 Next"
      "onboarding_event Next s5 =
         Inr (s5\<lparr>ob_store := saveUserProfile p (ob_store s5), ob_route := Some ''/''\<rparr>)"
    using wizard_last_next [OF r5 s5(2)] by blast
  show ?thesis
    using s5 p
    by (intro exI [of _ "es @ [Next]"]
          exI [of _ "s5\<lparr>ob_store := saveUserProfile p (ob_store s5), ob_route := Some ''/''\<rparr>"])
       (auto simp: onboarding_run_append)
qed

theorem onboarding_can_finish_witness:
  "onboarding_reachable (onboarding_init sample_store) \<and>
   ob_route (onboarding_init sample_store) = None \<and>
   (\<exists>es s'. onboarding_run es (onboarding_init sample_store) = Inr s' \<and> ob_route s' = Some ''/'' \<and>
      (\<exists>p. profile_ok p \<and> ob_store s' = saveUserProfile p sample_store))"
proof -
  have r: "onboarding_reachable (onboarding_init sample_store)"
    by (rule onboarding_reachable.start) (simp add: sample_store_def)
  have n: "ob_route (onboarding_init sample_store) = None"
    by (simp add: onboarding_init_def)
  show ?thesis
    using onboarding_can_finish [OF r n] r n by (simp add: onboarding_init_def)
qed

end
