(* ===== verification/Navigation.thy ===== *)
theory Navigation
  imports Home_Page Settings_Page Profile_Page Morning_Page Afternoon_Page Night_Page
    Onboarding_Liveness
begin

text \<open>
  The application as a whole: the screen shown is one page's state, and a
  \<open>router.push(r)\<close> of a handler or of a mount effect replaces it with the page of
  route \<open>r\<close> mounted over the current store (Next.js maps \<open>/r\<close> to
  \<open>src/src/app/r/page.tsx\<close>). Two pages push while mounting: the home page while the
  onboarding is not complete, and the profile page when no profile is stored; both push
  \<open>/onboarding\<close>, whose page never pushes on mount. \<open>navigate\<close> follows these
  pushes; it is a \<open>partial_function\<close>, and \<open>navigate_terminates\<close> proves that it
  always returns. The user's actions are the events of the page shown, each followed by
  the navigation it pushes.
\<close>

datatype Screen =
    HomeScreen HomePage | OnboardingScreen OnboardingState | MorningScreen MorningPage
  | AfternoonScreen AfternoonPage | NightScreen NightPage | ProfileScreen ProfilePage
  | SettingsScreen SettingsPage | NotFound Store

fun screen_store :: "Screen \<Rightarrow> Store" where
  "screen_store (HomeScreen s) = hp_store s"
| "screen_store (OnboardingScreen s) = ob_store s"
| "screen_store (MorningScreen s) = mp_store s"
| "screen_store (AfternoonScreen s) = ap_store s"
| "screen_store (NightScreen s) = np_store s"
| "screen_store (ProfileScreen s) = pp_store s"
| "screen_store (SettingsScreen s) = sp_store s"
| "screen_store (NotFound st) = st"

fun screen_route :: "Screen \<Rightarrow> string option" where
  "screen_route (HomeScreen s) = hp_route s"
| "screen_route (OnboardingScreen s) = ob_route s"
| "screen_route (MorningScreen s) = mp_route s"
| "screen_route (AfternoonScreen s) = ap_route s"
| "screen_route (NightScreen s) = np_route s"
| "screen_route (ProfileScreen s) = pp_route s"
| "screen_route (SettingsScreen s) = sp_route s"
| "screen_route (NotFound st) = None"

definition mount :: "string \<Rightarrow> Store \<Rightarrow> Screen" where
  "mount r st =
     (if r = ''/'' then HomeScreen (home_mount st)
      else if r = ''/onboarding'' then OnboardingScreen (onboarding_init st)
      else if r = ''/morning'' then MorningScreen (morning_init st)
      else if r = ''/afternoon'' then AfternoonScreen (afternoon_init st)
      else if r = ''/night'' then NightScreen (night_init st)
      else if r = ''/profile'' then ProfileScreen (profile_mount st)
      else if r = ''/settings'' then SettingsScreen (settings_init st)
      else NotFound st)"

partial_function (option) navigate :: "string \<Rightarrow> Store \<Rightarrow> Screen option" where
  "navigate r st =
     (let scr = mount r st in
      case screen_route scr of
        None \<Rightarrow> Some scr
      | Some r' \<Rightarrow> navigate r' (screen_store scr))"

section \<open>The application\<close>

text \<open>The user's action on the page shown.\<close>

datatype AppEvent =
    HomeE HomeEvent | OnbE OnboardingEvent | MornE MorningEvent | AftE AfternoonEvent
  | NightE NightEvent | ProfE ProfileEvent | SetE SettingsEvent

datatype AppError = PageFailure PageError | WizardFailure OnboardingError | NoScreen

text \<open>After a handler, the route it pushed (if any) is navigated to.\<close>

definition follow :: "Screen \<Rightarrow> AppError + Screen" where
  "follow scr =
     (case screen_route scr of
        None \<Rightarrow> Inr scr
      | Some r \<Rightarrow> (case navigate r (screen_store scr) of None \<Rightarrow> Inl NoScreen | Some scr' \<Rightarrow> Inr scr'))"

fun app_step :: "AppEvent \<Rightarrow> Screen \<Rightarrow> AppError + Screen" where
  "app_step (HomeE e) (HomeScreen s) = follow (HomeScreen (home_event e s))"
| "app_step (OnbE e) (OnboardingScreen s) =
     (case onboarding_event e s of Inl err \<Rightarrow> Inl (WizardFailure err)
      | Inr s' \<Rightarrow> follow (OnboardingScreen s'))"
| "app_step (MornE e) (MorningScreen s) =
     (case morning_event e s of Inl err \<Rightarrow> Inl (PageFailure err) | Inr s' \<Rightarrow> follow (MorningScreen s'))"
| "app_step (AftE e) (AfternoonScreen s) =
     (case afternoon_event e s of Inl err \<Rightarrow> Inl (PageFailure err) | Inr s' \<Rightarrow> follow (AfternoonScreen s'))"
| "app_step (NightE e) (NightScreen s) =
     (case night_event e s of Inl err \<Rightarrow> Inl (PageFailure err) | Inr s' \<Rightarrow> follow (NightScreen s'))"
| "app_step (ProfE e) (ProfileScreen s) = follow (ProfileScreen (profile_event e s))"
| "app_step (SetE e) (SettingsScreen s) = follow (SettingsScreen (settings_event e s))"
| "app_step _ _ = Inl NoScreen"

fun app_enabled :: "Screen \<Rightarrow> AppEvent \<Rightarrow> bool" where
  "app_enabled (HomeScreen s) (HomeE e) = home_enabled s e"
| "app_enabled (OnboardingScreen s) (OnbE e) = enabled s e"
| "app_enabled (MorningScreen s) (MornE e) = morning_enabled s e"
| "app_enabled (AfternoonScreen s) (AftE e) = afternoon_enabled s e"
| "app_enabled (NightScreen s) (NightE e) = night_enabled s e"
| "app_enabled (ProfileScreen s) (ProfE e) = profile_enabled s e"
| "app_enabled (SettingsScreen s) (SetE e) = settings_enabled s e"
| "app_enabled _ _ = False"

text \<open>
  The store of a browser session that only this application writes: the window exists,
  and a profile is stored exactly when the onboarding flag reads \<open>'true'\<close>
  (\<open>saveUserProfile\<close> writes both keys and \<open>clearAllData\<close> removes both).
\<close>

definition store_ok :: "Store \<Rightarrow> bool" where
  "store_ok st \<longleftrightarrow>
     window_defined st \<and> (ls_user_profile st = None \<longleftrightarrow> ls_onboarding_complete st \<noteq> Some ''true'')"

definition app_initial :: "Screen \<Rightarrow> bool" where
  "app_initial scr \<longleftrightarrow> store_ok (screen_store scr) \<and> navigate ''/'' (screen_store scr) = Some scr"

abbreviation app_reachable :: "Screen \<Rightarrow> bool" where
  "app_reachable \<equiv> page_reachable app_initial app_enabled app_step"

definition ROUTES :: "string list" where
  "ROUTES = [''/'', ''/onboarding'', ''/morning'', ''/afternoon'', ''/night'', ''/profile'', ''/settings'']"

text \<open>A push the application may make over a store: a known route, and the onboarding only over a store without a profile.\<close>

definition push_ok :: "Store \<Rightarrow> string \<Rightarrow> bool" where
  "push_ok st r \<longleftrightarrow> r \<in> set ROUTES \<and> (r = ''/onboarding'' \<longrightarrow> ls_user_profile st = None)"

definition app_inv :: "Screen \<Rightarrow> bool" where
  "app_inv scr \<longleftrightarrow>
     store_ok (screen_store scr) \<and> screen_route scr = None \<and>
     (case scr of
        HomeScreen s \<Rightarrow> \<not> hp_isLoading s
      | OnboardingScreen s \<Rightarrow> onboarding_reachable s
      | MorningScreen s \<Rightarrow> morning_reachable s
      | AfternoonScreen s \<Rightarrow> afternoon_reachable s
      | NightScreen s \<Rightarrow> night_reachable s
      | ProfileScreen s \<Rightarrow> pp_profile s \<noteq> None
      | SettingsScreen s \<Rightarrow> True
      | NotFound st \<Rightarrow> False)"

section \<open>Lemmas on mounting\<close>

lemma mount_store [simp]: "screen_store (mount r st) = st"
  by (simp add: mount_def onboarding_init_def morning_init_def afternoon_init_def night_init_def
      settings_init_def)

lemma mount_route:
  "screen_route (mount r st) =
     (if r = ''/'' \<and> \<not> isOnboardingComplete st \<or> r = ''/profile'' \<and> getUserProfile st = None
      then Some ''/onboarding'' else None)"
  by (auto simp: mount_def home_mount_def checkOnboarding_def home_init_def onboarding_init_def
      morning_init_def afternoon_init_def night_init_def profile_mount_def settings_init_def
      split: option.split)

lemma navigate_unfold:
  "navigate r st =
     (if screen_route (mount r st) = None then Some (mount r st) else navigate ''/onboarding'' st)"
  by (subst navigate.simps) (simp add: mount_route)

lemma navigate_onboarding: "navigate ''/onboarding'' st = Some (OnboardingScreen (onboarding_init st))"
  by (subst navigate.simps) (simp add: mount_def onboarding_init_def)

lemma store_ok_saveDailyInteraction [simp]: "store_ok (saveDailyInteraction i st) = store_ok st"
  by (simp add: store_ok_def saveDailyInteraction_def Let_def)

lemma store_ok_saveUserProfile: "store_ok st \<Longrightarrow> store_ok (saveUserProfile p st)"
  by (simp add: store_ok_def saveUserProfile_def)

lemma store_ok_clearAllData: "store_ok st \<Longrightarrow> store_ok (clearAllData st)"
  by (simp add: store_ok_def clearAllData_def STORAGE_KEYS_def)

lemma store_ok_no_profile:
  "store_ok st \<Longrightarrow> getUserProfile st = None \<Longrightarrow> ls_user_profile st = None"
  "store_ok st \<Longrightarrow> \<not> isOnboardingComplete st \<Longrightarrow> ls_user_profile st = None"
  by (auto simp: store_ok_def getUserProfile_def isOnboardingComplete_def)

lemma home_mount_sel [simp]:
  "hp_isLoading (home_mount st) \<longleftrightarrow> \<not> isOnboardingComplete st"
  "hp_route (home_mount st) = (if isOnboardingComplete st then None else Some ''/onboarding'')"
  by (simp_all add: home_mount_def checkOnboarding_def home_init_def split: option.split)

lemma profile_mount_sel [simp]:
  "pp_profile (profile_mount st) = getUserProfile st"
  "pp_route (profile_mount st) = (if getUserProfile st = None then Some ''/onboarding'' else None)"
  by (simp_all add: profile_mount_def split: option.split)

lemma page_inits_reachable:
  "morning_reachable (morning_init st)" "afternoon_reachable (afternoon_init st)"
  "night_reachable (night_init st)"
  by (auto intro: page_reachable.start simp: morning_initial_def morning_init_def
      afternoon_initial_def afternoon_init_def night_initial_def night_init_def)

lemma onboarding_init_reachable:
  "ls_user_profile st = None \<Longrightarrow> onboarding_reachable (onboarding_init st)"
  by (rule onboarding_reachable.start)

lemma mount_onboarding: "mount ''/onboarding'' st = OnboardingScreen (onboarding_init st)"
  by (simp add: mount_def)

lemma app_inv_mount:
  assumes ok: "store_ok st" and push: "push_ok st r" and none: "screen_route (mount r st) = None"
  shows "app_inv (mount r st)"
proof -
  have r: "r = ''/'' \<or> r = ''/onboarding'' \<or> r = ''/morning'' \<or> r = ''/afternoon'' \<or>
           r = ''/night'' \<or> r = ''/profile'' \<or> r = ''/settings''"
    using push by (simp only: push_ok_def ROUTES_def list.set insert_iff empty_iff simp_thms)
  show ?thesis
    using r
  proof (elim disjE)
    assume "r = ''/''"
    with none ok show ?thesis by (simp add: mount_def app_inv_def split: if_splits)
  next
    assume "r = ''/onboarding''"
    with ok push show ?thesis
      by (simp add: mount_onboarding app_inv_def push_ok_def onboarding_init_reachable)
         (simp add: onboarding_init_def)
  next
    assume "r = ''/morning''"
    with ok show ?thesis by (simp add: mount_def app_inv_def page_inits_reachable) (simp add: morning_init_def)
  next
    assume "r = ''/afternoon''"
    with ok show ?thesis by (simp add: mount_def app_inv_def page_inits_reachable) (simp add: afternoon_init_def)
  next
    assume "r = ''/night''"
    with ok show ?thesis by (simp add: mount_def app_inv_def page_inits_reachable) (simp add: night_init_def)
  next
    assume "r = ''/profile''"
    with none ok show ?thesis by (simp add: mount_def app_inv_def split: if_splits)
  next
    assume "r = ''/settings''"
    with ok show ?thesis by (simp add: mount_def app_inv_def settings_init_def)
  qed
qed

lemma navigate_inv:
  assumes ok: "store_ok st" and push: "push_ok st r" and nav: "navigate r st = Some scr"
  shows "app_inv scr"
proof (cases "screen_route (mount r st) = None")
  case True
  with nav have "scr = mount r st" by (simp add: navigate_unfold [of r st])
  with app_inv_mount [OF ok push True] show ?thesis by simp
next
  case False
  then have "ls_user_profile st = None"
    using ok by (auto simp: mount_route store_ok_no_profile split: if_splits)
  moreover have "screen_route (mount ''/onboarding'' st) = None"
    by (simp add: mount_route)
  moreover have "push_ok st ''/onboarding''" using calculation(1) by (simp add: push_ok_def ROUTES_def)
  ultimately have "app_inv (mount ''/onboarding'' st)" using ok by (intro app_inv_mount)
  moreover have "scr = mount ''/onboarding'' st"
  proof -
    have "navigate r st = navigate ''/onboarding'' st"
      by (simp only: navigate_unfold [of r st] if_not_P [OF False])
    with nav show ?thesis by (simp add: navigate_onboarding mount_onboarding)
  qed
  ultimately show ?thesis by simp
qed

lemma navigate_some: "\<exists>scr. navigate r st = Some scr \<and> screen_route scr = None \<and> screen_store scr = st"
proof (cases "screen_route (mount r st) = None")
  case True
  then show ?thesis by (simp add: navigate_unfold [of r st])
next
  case False
  have "navigate r st = navigate ''/onboarding'' st"
    by (simp only: navigate_unfold [of r st] if_not_P [OF False])
  then show ?thesis by (simp add: navigate_onboarding onboarding_init_def)
qed

lemma navigate_store: "navigate r st = Some scr \<Longrightarrow> screen_store scr = st"
  using navigate_some [of r st] by auto

lemma follow_some: "\<exists>scr'. follow scr = Inr scr'"
proof (cases "screen_route scr")
  case (Some r)
  obtain scr' where "navigate r (screen_store scr) = Some scr'"
    using navigate_some [of r "screen_store scr"] by blast
  with Some show ?thesis by (simp add: follow_def)
qed (simp add: follow_def)

lemma follow_store: "follow scr = Inr scr' \<Longrightarrow> screen_store scr' = screen_store scr"
  by (auto simp: follow_def navigate_store split: option.splits)

lemma follow_inv:
  assumes ok: "store_ok (screen_store scr)"
    and none: "screen_route scr = None \<Longrightarrow> app_inv scr"
    and push: "\<And>r. screen_route scr = Some r \<Longrightarrow> push_ok (screen_store scr) r"
    and f: "follow scr = Inr scr'"
  shows "app_inv scr'"
proof (cases "screen_route scr")
  case None
  with f none show ?thesis by (simp add: follow_def)
next
  case (Some r)
  with f obtain scr'' where "navigate r (screen_store scr) = Some scr''" "scr' = scr''"
    by (auto simp: follow_def split: option.splits)
  with navigate_inv [OF ok push [OF Some]] show ?thesis by simp
qed

section \<open>What each page pushes and writes\<close>

lemma push_ok_simps [simp]:
  "push_ok st ''/''" "push_ok st ''/morning''" "push_ok st ''/afternoon''" "push_ok st ''/night''"
  "push_ok st ''/profile''" "push_ok st ''/settings''"
  "push_ok st ''/onboarding'' \<longleftrightarrow> ls_user_profile st = None"
  by (simp_all add: push_ok_def ROUTES_def)

lemma home_event_push:
  "home_enabled s e \<Longrightarrow> \<exists>r. hp_route (home_event e s) = Some r \<and> push_ok (hp_store s) r"
  by (cases e) (auto simp: moments_def)

lemma morning_event_push:
  assumes "store_ok (mp_store s)" and "morning_event e s = Inr s'"
  shows "store_ok (mp_store s') \<and>
         (mp_route s' = mp_route s \<or> (\<exists>r. mp_route s' = Some r \<and> push_ok (mp_store s') r))"
  using assms
  by (cases e) (auto simp: handleMoodSelect_def handlePrioritySelect_def morning_redo_def Let_def
      store_ok_no_profile split: option.splits)

lemma afternoon_event_push:
  assumes "store_ok (ap_store s)" and "afternoon_event e s = Inr s'"
  shows "store_ok (ap_store s') \<and>
         (ap_route s' = ap_route s \<or> (\<exists>r. ap_route s' = Some r \<and> push_ok (ap_store s') r))"
  using assms
  by (cases e) (auto simp: handleRatingComplete_def handleConcernSelect_def afternoon_redo_def Let_def
      store_ok_no_profile split: option.splits)

lemma night_event_push:
  assumes "store_ok (np_store s)" and "night_event e s = Inr s'"
  shows "store_ok (np_store s') \<and>
         (np_route s' = np_route s \<or> (\<exists>r. np_route s' = Some r \<and> push_ok (np_store s') r))"
  using assms
  by (cases e) (auto simp: handleComparisonSelect_def handleSelfCareSelect_def handleComplete_def
      night_redo_def Let_def store_ok_no_profile split: option.splits prod.splits)

lemma onboarding_event_store:
  "onboarding_event e s = Inr s' \<Longrightarrow>
   ob_store s' = ob_store s \<or> (\<exists>p. ob_store s' = saveUserProfile p (ob_store s))"
  by (cases e) (auto simp: set_form_def handleNext_def handleBack_def map_sum_def
      split: sum.splits option.splits if_splits)

lemma settings_event_push:
  assumes "store_ok (sp_store s)"
  shows "store_ok (sp_store (settings_event e s)) \<and>
         (sp_route (settings_event e s) = sp_route s \<or>
          (\<exists>r. sp_route (settings_event e s) = Some r \<and> push_ok (sp_store (settings_event e s)) r))"
  using assms
  by (cases e) (auto simp: handleReset_def store_ok_clearAllData clearAllData_def STORAGE_KEYS_def
      store_ok_def)

lemma follow_page_inv:
  assumes "store_ok (screen_store scr)"
    and "screen_route scr = None \<or> (\<exists>r. screen_route scr = Some r \<and> push_ok (screen_store scr) r)"
    and "screen_route scr = None \<Longrightarrow> app_inv scr" and "follow scr = Inr scr'"
  shows "app_inv scr'"
proof (rule follow_inv [OF assms(1) assms(3) _ assms(4)])
  fix r
  assume "screen_route scr = Some r"
  with assms(2) show "push_ok (screen_store scr) r" by auto
qed

lemma home_event_store [simp]: "hp_store (home_event e s) = hp_store s"
  by (cases e) simp_all

section \<open>The invariant of the application\<close>

lemma step_inv_home:
  assumes "app_inv (HomeScreen s)" and "home_enabled s e"
    and "follow (HomeScreen (home_event e s)) = Inr scr'"
  shows "app_inv scr'"
proof -
  from home_event_push [OF assms(2)] obtain r where
    r: "hp_route (home_event e s) = Some r" "push_ok (hp_store s) r" by blast
  have ok: "store_ok (hp_store s)" using assms(1) by (simp add: app_inv_def)
  show ?thesis
    by (rule follow_page_inv [OF _ _ _ assms(3)]) (simp_all add: r ok)
qed

lemma step_inv_onboarding:
  assumes inv: "app_inv (OnboardingScreen s)" and en: "enabled s e"
    and ev: "onboarding_event e s = Inr s1" and f: "follow (OnboardingScreen s1) = Inr scr'"
  shows "app_inv scr'"
proof -
  have r: "onboarding_reachable s" "store_ok (ob_store s)" "ob_route s = None"
    using inv by (simp_all add: app_inv_def)
  have r1: "onboarding_reachable s1" using onboarding_reachable.step [OF r(1) en ev] .
  have ok1: "store_ok (ob_store s1)"
    using onboarding_event_store [OF ev] r(2) store_ok_saveUserProfile by auto
  have rt: "ob_route s1 = None \<or> ob_route s1 = Some ''/''"
    using onboarding_event_route [OF ev] r(3) by auto
  show ?thesis
  proof (rule follow_page_inv [OF _ _ _ f])
    show "store_ok (screen_store (OnboardingScreen s1))" using ok1 by simp
    show "screen_route (OnboardingScreen s1) = None \<or>
          (\<exists>r. screen_route (OnboardingScreen s1) = Some r \<and> push_ok (screen_store (OnboardingScreen s1)) r)"
      using rt by auto
    show "app_inv (OnboardingScreen s1)" if "screen_route (OnboardingScreen s1) = None"
      using that ok1 r1 by (simp add: app_inv_def)
  qed
qed

lemma step_inv_morning:
  assumes inv: "app_inv (MorningScreen s)" and en: "morning_enabled s e"
    and ev: "morning_event e s = Inr s1" and f: "follow (MorningScreen s1) = Inr scr'"
  shows "app_inv scr'"
proof -
  have r: "morning_reachable s" "store_ok (mp_store s)" "mp_route s = None"
    using inv by (simp_all add: app_inv_def)
  have r1: "morning_reachable s1" using page_reachable.step [OF r(1) en ev] .
  have p: "store_ok (mp_store s1)" "mp_route s1 = None \<or> (\<exists>r. mp_route s1 = Some r \<and> push_ok (mp_store s1) r)"
    using morning_event_push [OF r(2) ev] r(3) by auto
  show ?thesis
    by (rule follow_page_inv [OF _ _ _ f]) (use p r1 in \<open>simp_all add: app_inv_def\<close>)
qed

lemma step_inv_afternoon:
  assumes inv: "app_inv (AfternoonScreen s)" and en: "afternoon_enabled s e"
    and ev: "afternoon_event e s = Inr s1" and f: "follow (AfternoonScreen s1) = Inr scr'"
  shows "app_inv scr'"
proof -
  have r: "afternoon_reachable s" "store_ok (ap_store s)" "ap_route s = None"
    using inv by (simp_all add: app_inv_def)
  have r1: "afternoon_reachable s1" using page_reachable.step [OF r(1) en ev] .
  have p: "store_ok (ap_store s1)" "ap_route s1 = None \<or> (\<exists>r. ap_route s1 = Some r \<and> push_ok (ap_store s1) r)"
    using afternoon_event_push [OF r(2) ev] r(3) by auto
  show ?thesis
    by (rule follow_page_inv [OF _ _ _ f]) (use p r1 in \<open>simp_all add: app_inv_def\<close>)
qed

lemma step_inv_night:
  assumes inv: "app_inv (NightScreen s)" and en: "night_enabled s e"
    and ev: "night_event e s = Inr s1" and f: "follow (NightScreen s1) = Inr scr'"
  shows "app_inv scr'"
proof -
  have r: "night_reachable s" "store_ok (np_store s)" "np_route s = None"
    using inv by (simp_all add: app_inv_def)
  have r1: "night_reachable s1" using page_reachable.step [OF r(1) en ev] .
  have p: "store_ok (np_store s1)" "np_route s1 = None \<or> (\<exists>r. np_route s1 = Some r \<and> push_ok (np_store s1) r)"
    using night_event_push [OF r(2) ev] r(3) by auto
  show ?thesis
    by (rule follow_page_inv [OF _ _ _ f]) (use p r1 in \<open>simp_all add: app_inv_def\<close>)
qed

lemma step_inv_profile:
  assumes inv: "app_inv (ProfileScreen s)" and f: "follow (ProfileScreen (profile_event e s)) = Inr scr'"
  shows "app_inv scr'"
proof -
  have ok: "store_ok (pp_store s)" using inv by (simp add: app_inv_def)
  have "pp_route (profile_event e s) = Some ''/'' \<or> pp_route (profile_event e s) = Some ''/settings''"
    by (cases e) simp_all
  then show ?thesis
    by (rule_tac follow_page_inv [OF _ _ _ f]) (use ok in auto)
qed

lemma step_inv_settings:
  assumes inv: "app_inv (SettingsScreen s)" and f: "follow (SettingsScreen (settings_event e s)) = Inr scr'"
  shows "app_inv scr'"
proof -
  have ok: "store_ok (sp_store s)" "sp_route s = None" using inv by (simp_all add: app_inv_def)
  have p: "store_ok (sp_store (settings_event e s))"
    "sp_route (settings_event e s) = None \<or>
     (\<exists>r. sp_route (settings_event e s) = Some r \<and> push_ok (sp_store (settings_event e s)) r)"
    using settings_event_push [OF ok(1), of e] ok(2) by auto
  show ?thesis
    by (rule follow_page_inv [OF _ _ _ f]) (use p in \<open>simp_all add: app_inv_def\<close>)
qed

lemma app_step_inv:
  assumes inv: "app_inv scr" and en: "app_enabled scr e" and step: "app_step e scr = Inr scr'"
  shows "app_inv scr'"
proof (cases scr)
  case (HomeScreen s)
  with en step obtain e' where "e = HomeE e'" by (cases e) simp_all
  with HomeScreen inv en step show ?thesis using step_inv_home by simp
next
  case (OnboardingScreen s)
  with en obtain e' where e: "e = OnbE e'" by (cases e) simp_all
  with OnboardingScreen step obtain s1 where "onboarding_event e' s = Inr s1"
      "follow (OnboardingScreen s1) = Inr scr'"
    by (simp split: sum.splits)
  with OnboardingScreen inv en e show ?thesis using step_inv_onboarding by simp
next
  case (MorningScreen s)
  with en obtain e' where e: "e = MornE e'" by (cases e) simp_all
  with MorningScreen step obtain s1 where "morning_event e' s = Inr s1" "follow (MorningScreen s1) = Inr scr'"
    by (simp split: sum.splits)
  with MorningScreen inv en e show ?thesis using step_inv_morning by simp
next
  case (AfternoonScreen s)
  with en obtain e' where e: "e = AftE e'" by (cases e) simp_all
  with AfternoonScreen step obtain s1 where "afternoon_event e' s = Inr s1"
      "follow (AfternoonScreen s1) = Inr scr'"
    by (simp split: sum.splits)
  with AfternoonScreen inv en e show ?thesis using step_inv_afternoon by simp
next
  case (NightScreen s)
  with en obtain e' where e: "e = NightE e'" by (cases e) simp_all
  with NightScreen step obtain s1 where "night_event e' s = Inr s1" "follow (NightScreen s1) = Inr scr'"
    by (simp split: sum.splits)
  with NightScreen inv en e show ?thesis using step_inv_night by simp
next
  case (ProfileScreen s)
  with en obtain e' where "e = ProfE e'" by (cases e) simp_all
  with ProfileScreen inv step show ?thesis using step_inv_profile by simp
next
  case (SettingsScreen s)
  with en obtain e' where "e = SetE e'" by (cases e) simp_all
  with SettingsScreen inv step show ?thesis using step_inv_settings by simp
next
  case (NotFound st)
  with inv show ?thesis by (simp add: app_inv_def)
qed

lemma app_reachable_inv:
  assumes "app_reachable scr"
  shows "app_inv scr"
  using assms
proof (rule page_reachable_invariant)
  show "app_inv scr" if "app_initial scr" for scr
    using that navigate_inv [of "screen_store scr" "''/''" scr] by (simp add: app_initial_def)
qed (rule app_step_inv)

section \<open>Lemmas on the profile key\<close>

lemma morning_event_profile:
  "morning_event e s = Inr s1 \<Longrightarrow> getUserProfile (mp_store s1) = getUserProfile (mp_store s)"
  by (cases e) (auto simp: handleMoodSelect_def handlePrioritySelect_def morning_redo_def Let_def
      split: option.splits)

lemma afternoon_event_profile:
  "afternoon_event e s = Inr s1 \<Longrightarrow> getUserProfile (ap_store s1) = getUserProfile (ap_store s)"
  by (cases e) (auto simp: handleRatingComplete_def handleConcernSelect_def afternoon_redo_def Let_def
      split: option.splits)

lemma night_event_profile:
  "night_event e s = Inr s1 \<Longrightarrow> getUserProfile (np_store s1) = getUserProfile (np_store s)"
  by (cases e) (auto simp: handleComparisonSelect_def handleSelfCareSelect_def handleComplete_def
      night_redo_def Let_def split: option.splits prod.splits)

lemma onboarding_event_store_other:
  "onboarding_event e s = Inr s1 \<Longrightarrow> e \<noteq> Next \<Longrightarrow> ob_store s1 = ob_store s"
  by (cases e) (auto simp: set_form_def handleBack_def map_sum_def split: sum.splits)

text \<open>While the wizard has not pushed, no profile is stored: it saves only on its last step, which pushes.\<close>

lemma onboarding_no_profile:
  "onboarding_reachable s \<Longrightarrow> ob_route s = None \<Longrightarrow> ls_user_profile (ob_store s) = None"
proof (induction rule: onboarding_reachable.induct)
  case (start st)
  then show ?case by (simp add: onboarding_init_def)
next
  case (step s e s')
  have "ob_route s = None"
    using onboarding_event_route [OF step.hyps(3)] step.prems by auto
  moreover have "ob_store s' = ob_store s"
  proof (cases "e = Next")
    case True
    with step.hyps(3) step.prems show ?thesis
      by (auto simp: handleNext_def split: if_splits option.splits)
  next
    case False
    with step.hyps(3) show ?thesis by (rule onboarding_event_store_other)
  qed
  ultimately show ?case using step.IH by simp
qed

section \<open>Runs of the application\<close>

definition home_shown :: "Screen \<Rightarrow> bool" where
  "home_shown scr \<longleftrightarrow>
     (case scr of
        HomeScreen h \<Rightarrow> \<not> hp_isLoading h \<and> hp_route h = None \<and>
                        (\<exists>p. getUserProfile (hp_store h) = Some p \<and> hp_userName h = name p)
      | _ \<Rightarrow> False)"

lemma app_run_cons:
  "run_events app_step (e # es) scr =
     (case app_step e scr of Inl err \<Rightarrow> Inl err | Inr scr' \<Rightarrow> run_events app_step es scr')"
  "all_enabled app_enabled app_step (e # es) scr \<longleftrightarrow>
     app_enabled scr e \<and> (case app_step e scr of Inl _ \<Rightarrow> True | Inr scr' \<Rightarrow> all_enabled app_enabled app_step es scr')"
  by simp_all

text \<open>A wizard run that has not pushed is a run of the application on the onboarding screen.\<close>

lemma app_run_wizard:
  "onboarding_run es s = Inr s' \<Longrightarrow> ob_route s' = None \<Longrightarrow>
   run_events app_step (map OnbE es) (OnboardingScreen s) = Inr (OnboardingScreen s') \<and>
   all_enabled app_enabled app_step (map OnbE es) (OnboardingScreen s)"
proof (induction es arbitrary: s)
  case Nil
  then show ?case by simp
next
  case (Cons e es)
  from Cons.prems(1) obtain s1 where en: "enabled s e" and ev: "onboarding_event e s = Inr s1"
      and run: "onboarding_run es s1 = Inr s'"
    by (auto split: if_splits sum.splits)
  have r1: "ob_route s1 = None" using onboarding_run_route [OF run Cons.prems(2)] .
  have f: "follow (OnboardingScreen s1) = Inr (OnboardingScreen s1)" using r1 by (simp add: follow_def)
  show ?case using Cons.IH [OF run Cons.prems(2)] en ev f by simp
qed

lemma home_mount_shown:
  "store_ok st \<Longrightarrow> isOnboardingComplete st \<Longrightarrow> home_shown (HomeScreen (home_mount st))"
  by (auto simp: home_shown_def store_ok_def isOnboardingComplete_def getUserProfile_def
      home_mount_def checkOnboarding_def home_init_def)

lemma reach_home_from_onboarding:
  assumes ok: "store_ok (ob_store s)" and r: "onboarding_reachable s" and n: "ob_route s = None"
  shows "\<exists>es scr'. all_enabled app_enabled app_step es (OnboardingScreen s) \<and>
           run_events app_step es (OnboardingScreen s) = Inr scr' \<and> home_shown scr'"
proof -
  obtain es s5 where s5: "onboarding_run es s = Inr s5" "ob_step s5 = 5" "ob_route s5 = None"
      "ob_store s5 = ob_store s"
    using wizard_to_last_step [OF r n] by blast
  have r5: "onboarding_reachable s5" using onboarding_run_reachable [OF r s5(1)] .
  obtain p where p: "enabled s5 Next"
      "onboarding_event Next s5 =
         Inr (s5\<lparr>ob_store := saveUserProfile p (ob_store s5), ob_route := Some ''/''\<rparr>)"
    using wizard_last_next [OF r5 s5(2)] by blast
  let ?st = "saveUserProfile p (ob_store s)"
  have ok': "store_ok ?st" and c: "isOnboardingComplete ?st"
    using ok store_ok_saveUserProfile by (auto simp: store_ok_def saveUserProfile_def isOnboardingComplete_def)
  have nav: "navigate ''/'' ?st = Some (HomeScreen (home_mount ?st))"
    using c by (simp add: navigate_unfold [of "''/''"] mount_route mount_def)
  have last: "app_step (OnbE Next) (OnboardingScreen s5) = Inr (HomeScreen (home_mount ?st))"
    using p(2) s5(4) nav by (simp add: follow_def)
  from app_run_wizard [OF s5(1) s5(3)] have w:
    "run_events app_step (map OnbE es) (OnboardingScreen s) = Inr (OnboardingScreen s5)"
    "all_enabled app_enabled app_step (map OnbE es) (OnboardingScreen s)" by auto
  show ?thesis
    using w last p(1) home_mount_shown [OF ok' c]
    by (intro exI [of _ "map OnbE es @ [OnbE Next]"] exI [of _ "HomeScreen (home_mount ?st)"])
       (simp add: run_events_append all_enabled_append)
qed

lemma reach_home_from_nav:
  assumes ok: "store_ok st" and nav: "navigate ''/'' st = Some scr"
  shows "\<exists>es scr'. all_enabled app_enabled app_step es scr \<and>
           run_events app_step es scr = Inr scr' \<and> home_shown scr'"
proof (cases "isOnboardingComplete st")
  case True
  with nav have "scr = HomeScreen (home_mount st)"
    by (simp add: navigate_unfold [of "''/''"] mount_route mount_def)
  with home_mount_shown [OF ok True] show ?thesis
    by (intro exI [of _ "[]"]) simp
next
  case False
  with nav have scr: "scr = OnboardingScreen (onboarding_init st)"
    by (simp add: navigate_unfold [of "''/''"] mount_route navigate_onboarding)
  have "ls_user_profile st = None" using store_ok_no_profile(2) [OF ok False] .
  then have "onboarding_reachable (onboarding_init st)" by (rule onboarding_init_reachable)
  with ok show ?thesis unfolding scr
    by (intro reach_home_from_onboarding) (simp_all add: onboarding_init_def)
qed

text \<open>From a page whose "home" event pushes \<open>/\<close>, pressing it and then the rest.\<close>

lemma reach_home_via:
  assumes en: "app_enabled scr e" and st: "app_step e scr = Inr scr1"
    and ok: "store_ok (screen_store scr1)" and nav: "navigate ''/'' (screen_store scr1) = Some scr1"
  shows "\<exists>es scr'. all_enabled app_enabled app_step es scr \<and>
           run_events app_step es scr = Inr scr' \<and> home_shown scr'"
proof -
  obtain es scr' where "all_enabled app_enabled app_step es scr1" "run_events app_step es scr1 = Inr scr'"
      "home_shown scr'"
    using reach_home_from_nav [OF ok nav] by blast
  with en st show ?thesis by (intro exI [of _ "e # es"] exI [of _ scr']) simp
qed

lemma app_step_profile:
  assumes "app_step e scr = Inr scr'" and "e \<noteq> OnbE Next" and "e \<noteq> SetE ConfirmReset"
  shows "getUserProfile (screen_store scr') = getUserProfile (screen_store scr)"
  using assms
  by (cases scr; cases e)
     (auto split: sum.splits dest!: follow_store morning_event_profile afternoon_event_profile
        night_event_profile onboarding_event_store_other simp: settings_event_store)

lemma store_ok_empty: "store_ok empty_store"
  by (simp add: store_ok_def empty_store_def)

lemma app_reachable_fresh: "app_reachable (OnboardingScreen (onboarding_init empty_store))"
proof (rule page_reachable.start)
  have "\<not> isOnboardingComplete empty_store" by (simp add: isOnboardingComplete_def empty_store_def)
  then show "app_initial (OnboardingScreen (onboarding_init empty_store))"
    by (simp add: app_initial_def store_ok_empty navigate_unfold [of "''/''"] mount_route
        navigate_onboarding onboarding_init_def)
qed

lemma reach_home_by:
  assumes en: "app_enabled scr e" and ok: "store_ok (screen_store scr)"
    and st: "\<And>scr1. navigate ''/'' (screen_store scr) = Some scr1 \<Longrightarrow> app_step e scr = Inr scr1"
  shows "\<exists>es scr'. all_enabled app_enabled app_step es scr \<and>
           run_events app_step es scr = Inr scr' \<and> home_shown scr'"
proof -
  obtain scr1 where nav: "navigate ''/'' (screen_store scr) = Some scr1"
    using navigate_some by blast
  have s1: "screen_store scr1 = screen_store scr" using navigate_store [OF nav] .
  show ?thesis using reach_home_via [OF en st [OF nav]] s1 ok nav by simp
qed

lemma navigate_settings: "navigate ''/settings'' st = Some (SettingsScreen (settings_init st))"
  by (simp add: navigate_unfold [of "''/settings''"] mount_route mount_def settings_init_def)

text \<open>The loaded home page pushes \<open>/settings\<close>, whose arrow pushes \<open>/\<close> again.\<close>

lemma reach_home_from_home:
  assumes ok: "store_ok (hp_store s)" and loaded: "\<not> hp_isLoading s"
  shows "\<exists>es scr'. all_enabled app_enabled app_step es (HomeScreen s) \<and>
           run_events app_step es (HomeScreen s) = Inr scr' \<and> home_shown scr'"
proof -
  let ?scr1 = "SettingsScreen (settings_init (hp_store s))"
  have step: "app_step (HomeE OpenSettings) (HomeScreen s) = Inr ?scr1"
    by (simp add: follow_def navigate_settings)
  have en: "app_enabled (HomeScreen s) (HomeE OpenSettings)" using loaded by simp
  obtain es scr' where "all_enabled app_enabled app_step es ?scr1"
      "run_events app_step es ?scr1 = Inr scr'" "home_shown scr'"
    using reach_home_by [of ?scr1 "SetE SettingsHome"] ok
    by (auto simp: settings_init_def follow_def)
  with step en show ?thesis by (intro exI [of _ "HomeE OpenSettings # es"]) auto
qed

section \<open>Properties of the application\<close>

text \<open>
  Claim C10. Following a push always ends: whatever the route and the store, the router
  mounts a screen that pushes nothing more, over the same store, and it is the page of the
  route or, after one redirect, the onboarding wizard. The redirect of \<open>/\<close> and
  \<open>/profile\<close> to \<open>/onboarding\<close> never loops.
\<close>

theorem navigate_terminates:
  "\<exists>scr. navigate r st = Some scr \<and> screen_route scr = None \<and> screen_store scr = st \<and>
     (scr = mount r st \<or> scr = OnboardingScreen (onboarding_init st))"
proof (cases "screen_route (mount r st) = None")
  case True
  then show ?thesis by (simp add: navigate_unfold [of r st])
next
  case False
  then show ?thesis
    by (simp add: navigate_unfold [of r st] navigate_onboarding onboarding_init_def)
qed

lemma app_step_returns:
  assumes "app_reachable scr" and "app_enabled scr e"
  shows "\<exists>scr'. app_step e scr = Inr scr'"
proof -
  have inv: "app_inv scr" using assms(1) by (rule app_reachable_inv)
  show ?thesis
  proof (cases scr)
    case (OnboardingScreen s)
    with assms(2) obtain e' where e: "e = OnbE e'" and en: "enabled s e'" by (cases e) auto
    have "onboarding_reachable s" using inv OnboardingScreen by (simp add: app_inv_def)
    then obtain s' where "onboarding_event e' s = Inr s'" using onboarding_progress en by blast
    then show ?thesis using OnboardingScreen e by (simp add: follow_some)
  next
    case (MorningScreen s)
    with assms(2) obtain e' where e: "e = MornE e'" and en: "morning_enabled s e'" by (cases e) auto
    have "morning_reachable s" using inv MorningScreen by (simp add: app_inv_def)
    then obtain s' where "morning_event e' s = Inr s'" using morning_page_progress en by blast
    then show ?thesis using MorningScreen e by (simp add: follow_some)
  next
    case (NightScreen s)
    with assms(2) obtain e' where e: "e = NightE e'" and en: "night_enabled s e'" by (cases e) auto
    have "night_reachable s" using inv NightScreen by (simp add: app_inv_def)
    then obtain s' where "night_event e' s = Inr s'" using night_page_progress en by blast
    then show ?thesis using NightScreen e by (simp add: follow_some)
  next
    case (AfternoonScreen s)
    with assms(2) obtain e' where e: "e = AftE e'" by (cases e) auto
    then show ?thesis using AfternoonScreen by (cases e') (simp_all add: follow_some)
  qed (use assms(2) in \<open>cases e; simp add: follow_some\<close>)+
qed

text \<open>
  Claim C2. No event the application offers fails: on every reachable screen each enabled
  button or input has a handler that returns, so no non-null assertion of a page meets
  \<open>null\<close>, and the screen it leads to is a page of the application (never the
  not-found page of an unknown route) that pushes nothing further.
\<close>

theorem app_no_crash:
  assumes "app_reachable scr" and "app_enabled scr e"
  shows "\<exists>scr'. app_step e scr = Inr scr' \<and>
           (case scr' of NotFound _ \<Rightarrow> False | _ \<Rightarrow> True) \<and> screen_route scr' = None"
proof -
  obtain scr' where st: "app_step e scr = Inr scr'" using app_step_returns [OF assms] by blast
  have "app_inv scr'"
    using app_step_inv [OF app_reachable_inv [OF assms(1)] assms(2) st] .
  with st show ?thesis by (cases scr') (simp_all add: app_inv_def)
qed

theorem app_no_crash_witness:
  "app_reachable (OnboardingScreen (onboarding_init empty_store)) \<and>
   app_enabled (OnboardingScreen (onboarding_init empty_store)) (OnbE (SetName ''Ana'')) \<and>
   (\<exists>scr'. app_step (OnbE (SetName ''Ana'')) (OnboardingScreen (onboarding_init empty_store)) = Inr scr' \<and>
      (case scr' of NotFound _ \<Rightarrow> False | _ \<Rightarrow> True) \<and> screen_route scr' = None)"
proof -
  have en: "app_enabled (OnboardingScreen (onboarding_init empty_store)) (OnbE (SetName ''Ana''))"
    by (simp add: onboarding_init_def)
  show ?thesis using app_no_crash [OF app_reachable_fresh en] app_reachable_fresh en by blast
qed

text \<open>
  Claim C5. The onboarding wizard is only ever shown to a user with no stored profile: on
  every reachable onboarding screen the profile key is empty, so the wizard never
  overwrites a saved profile.
\<close>

theorem wizard_only_without_profile:
  assumes "app_reachable (OnboardingScreen s)"
  shows "ls_user_profile (ob_store s) = None \<and> \<not> isOnboardingComplete (ob_store s)"
proof -
  have inv: "app_inv (OnboardingScreen s)" using assms by (rule app_reachable_inv)
  then have "ls_user_profile (ob_store s) = None"
    by (intro onboarding_no_profile) (simp_all add: app_inv_def)
  with inv show ?thesis by (simp add: app_inv_def store_ok_def isOnboardingComplete_def)
qed

theorem wizard_only_without_profile_witness:
  "app_reachable (OnboardingScreen (onboarding_init empty_store)) \<and>
   ls_user_profile (ob_store (onboarding_init empty_store)) = None \<and>
   \<not> isOnboardingComplete (ob_store (onboarding_init empty_store))"
  using wizard_only_without_profile [OF app_reachable_fresh] app_reachable_fresh by blast

text \<open>
  Claim C4. The stored profile changes in exactly two places: the last "Continuar" of the
  wizard (which saves it) and the confirmed reset of the settings page (which erases it).
  No other event of any page writes it; in particular the profile page has no edit that
  saves a profile.
\<close>

theorem profile_changed_only_by_wizard_or_reset:
  assumes "app_step e scr = Inr scr'"
    and "getUserProfile (screen_store scr') \<noteq> getUserProfile (screen_store scr)"
  shows "e = OnbE Next \<or> e = SetE ConfirmReset"
  using app_step_profile [OF assms(1)] assms(2) by blast

theorem profile_changed_only_by_wizard_or_reset_witness:
  "app_step (SetE ConfirmReset)
     (SettingsScreen \<lparr>showConfirm = True,
        sp_store = saveUserProfile (test_profile [] [] [] False) empty_store, sp_route = None\<rparr>) =
     Inr (OnboardingScreen (onboarding_init (clearAllData
            (saveUserProfile (test_profile [] [] [] False) empty_store)))) \<and>
   getUserProfile (clearAllData (saveUserProfile (test_profile [] [] [] False) empty_store)) \<noteq>
     getUserProfile (saveUserProfile (test_profile [] [] [] False) empty_store) \<and>
   (SetE ConfirmReset = OnbE Next \<or> SetE ConfirmReset = SetE ConfirmReset)"
proof -
  let ?st = "saveUserProfile (test_profile [] [] [] False) empty_store"
  let ?scr = "SettingsScreen \<lparr>showConfirm = True, sp_store = ?st, sp_route = None\<rparr>"
  have step: "app_step (SetE ConfirmReset) ?scr = Inr (OnboardingScreen (onboarding_init (clearAllData ?st)))"
    by (simp add: follow_def handleReset_def navigate_onboarding)
  have ne: "getUserProfile (clearAllData ?st) \<noteq> getUserProfile ?st"
    by (simp add: getUserProfile_def clearAllData_def saveUserProfile_def empty_store_def
        STORAGE_KEYS_def removeItem_def)
  have "SetE ConfirmReset = OnbE Next \<or> SetE ConfirmReset = SetE ConfirmReset"
    using profile_changed_only_by_wizard_or_reset [OF step] ne by simp
  with step ne show ?thesis by blast
qed

text \<open>
  Claim C12. The reset of the settings page is offered only once the confirmation dialog is
  open, and confirming it erases the profile, the onboarding flag and every daily record
  and shows the onboarding wizard over the emptied store.
\<close>

theorem settings_reset_flow:
  "(app_enabled (SettingsScreen s) (SetE ConfirmReset) \<longleftrightarrow> showConfirm s) \<and>
   app_step (SetE ConfirmReset) (SettingsScreen s) =
     Inr (OnboardingScreen (onboarding_init (clearAllData (sp_store s)))) \<and>
   getUserProfile (clearAllData (sp_store s)) = None \<and>
   \<not> isOnboardingComplete (clearAllData (sp_store s)) \<and>
   getDailyInteractions (clearAllData (sp_store s)) = []"
  by (simp add: follow_def handleReset_def navigate_onboarding getUserProfile_def
      isOnboardingComplete_def getDailyInteractions_def clearAllData_def STORAGE_KEYS_def
      removeItem_def)

text \<open>
  Claim C3. From every reachable screen the user can get to the loaded home page: there is a
  run of offered events (the "home" button of a page, the rest of the wizard when it is
  shown) after which the home page is mounted, has finished loading, pushes nothing and
  greets the user by the name of the stored profile.
\<close>

theorem app_can_reach_home:
  assumes "app_reachable scr"
  shows "\<exists>es scr'. all_enabled app_enabled app_step es scr \<and>
           run_events app_step es scr = Inr scr' \<and> home_shown scr'"
proof -
  have inv: "app_inv scr" using assms by (rule app_reachable_inv)
  then have ok: "store_ok (screen_store scr)" by (simp add: app_inv_def)
  show ?thesis
  proof (cases scr)
    case (HomeScreen s)
    have "store_ok (hp_store s)" "\<not> hp_isLoading s"
      using inv HomeScreen by (simp_all add: app_inv_def)
    then show ?thesis unfolding HomeScreen by (rule reach_home_from_home)
  next
    case (OnboardingScreen s)
    have "store_ok (ob_store s)" "onboarding_reachable s" "ob_route s = None"
      using inv OnboardingScreen by (simp_all add: app_inv_def)
    then show ?thesis unfolding OnboardingScreen by (rule reach_home_from_onboarding)
  next
    case (MorningScreen s)
    with ok show ?thesis by (intro reach_home_by [of _ "MornE MorningHome"]) (simp_all add: follow_def)
  next
    case (AfternoonScreen s)
    with ok show ?thesis by (intro reach_home_by [of _ "AftE AfternoonHome"]) (simp_all add: follow_def)
  next
    case (NightScreen s)
    with ok show ?thesis by (intro reach_home_by [of _ "NightE NightHome"]) (simp_all add: follow_def)
  next
    case (ProfileScreen s)
    with inv ok show ?thesis
      by (intro reach_home_by [of _ "ProfE ProfileHome"]) (simp_all add: app_inv_def follow_def)
  next
    case (SettingsScreen s)
    with ok show ?thesis by (intro reach_home_by [of _ "SetE SettingsHome"]) (simp_all add: follow_def)
  next
    case (NotFound st)
    with inv show ?thesis by (simp add: app_inv_def)
  qed
qed

theorem app_can_reach_home_witness:
  "app_reachable (OnboardingScreen (onboarding_init empty_store)) \<and>
   (\<exists>es scr'. all_enabled app_enabled app_step es (OnboardingScreen (onboarding_init empty_store)) \<and>
      run_events app_step es (OnboardingScreen (onboarding_init empty_store)) = Inr scr' \<and>
      home_shown scr')"
  using app_can_reach_home [OF app_reachable_fresh] app_reachable_fresh by blast

end
