(* ===== verification/Notifications.thy ===== *)
theory Notifications
  imports Complex_Main Prelude
begin

text \<open>
  The notification helpers of \<open>src/src/lib/notifications.ts\<close>.
  \<open>requestNotificationPermission\<close> decides from whether the browser has the
  Notification API and from the current permission whether to ask the user; the
  user's answer to the browser prompt is an input of the model.
  \<open>scheduleLocalNotification\<close> computes the delay until the next local occurrence
  of an \<open>HH:MM\<close> time and arms a timer; the model returns the timer it arms
  (\<open>None\<close> on the early return). The clock is local time in milliseconds with a
  fixed offset (no daylight-saving change inside the day), so \<open>setHours(h, m, 0, 0)\<close>
  is the start of the local day plus \<open>h\<close> hours and \<open>m\<close> minutes, for every
  integer \<open>h\<close> and \<open>m\<close> (JavaScript normalises out-of-range fields the same way),
  and \<open>setDate(getDate() + 1)\<close> adds one day. A \<open>NaN\<close> field makes the date
  invalid: the comparison with \<open>now\<close> is false and the delay is \<open>NaN\<close>, which
  \<open>setTimeout\<close> (like a negative delay) treats as 0.
\<close>

section \<open>Permission\<close>

datatype NotificationPermission = Granted | Denied | Default

record PermissionOutcome =
  permission_result :: bool
  permission_after :: NotificationPermission
  prompted :: bool

definition requestNotificationPermission ::
  "bool \<Rightarrow> NotificationPermission \<Rightarrow> NotificationPermission \<Rightarrow> PermissionOutcome" where
  "requestNotificationPermission has_api permission answer =
     (if \<not> has_api then
        \<lparr>permission_result = False, permission_after = permission, prompted = False\<rparr>
      else if permission = Granted then
        \<lparr>permission_result = True, permission_after = permission, prompted = False\<rparr>
      else if permission \<noteq> Denied then
        \<lparr>permission_result = (answer = Granted), permission_after = answer, prompted = True\<rparr>
      else
        \<lparr>permission_result = False, permission_after = permission, prompted = False\<rparr>)"

section \<open>Scheduling\<close>

definition day_ms :: int where
  "day_ms = 86400000"

record Timer =
  timer_delay :: int
  timer_title :: string
  timer_body :: string

text \<open>
  \<open>Number(s)\<close> (StringToNumber): the string without its leading and trailing white space
  is 0 when empty; otherwise a literal \<open>0x\<close>/\<open>0o\<close>/\<open>0b\<close> followed by digits of that
  base, or a decimal literal with an optional sign: \<open>Infinity\<close>, or digits with an
  optional fraction (at least one digit on either side of the point) and an optional
  exponent \<open>e\<close>/\<open>E\<close> with an optional sign; anything else is \<open>NaN\<close>. The value is the
  exact rational; the rounding of a double (beyond 15 significant digits, and the
  overflow to \<open>Infinity\<close> above about \<open>1.8e308\<close>) is not modelled.
\<close>

datatype NumberValue = NaN | Num rat | Infty bool

definition digit_val :: "char \<Rightarrow> nat option" where
  "digit_val c =
     (let n = (of_char c :: nat) in
      if 48 \<le> n \<and> n \<le> 57 then Some (n - 48)
      else if 97 \<le> n \<and> n \<le> 102 then Some (n - 87)
      else if 65 \<le> n \<and> n \<le> 70 then Some (n - 55)
      else None)"

definition is_base_digit :: "nat \<Rightarrow> char \<Rightarrow> bool" where
  "is_base_digit b c = (case digit_val c of None \<Rightarrow> False | Some d \<Rightarrow> d < b)"

definition digits_value :: "nat \<Rightarrow> string \<Rightarrow> nat" where
  "digits_value b s = foldl (\<lambda>acc c. b * acc + the (digit_val c)) 0 s"

definition digits_in_base :: "nat \<Rightarrow> string \<Rightarrow> nat option" where
  "digits_in_base b s =
     (if s \<noteq> [] \<and> list_all (is_base_digit b) s then Some (digits_value b s) else None)"

definition non_decimal_literal :: "string \<Rightarrow> nat option" where
  "non_decimal_literal t =
     (case t of
        c # x # r \<Rightarrow>
          if c \<noteq> CHR ''0'' then None
          else if x = CHR ''x'' \<or> x = CHR ''X'' then digits_in_base 16 r
          else if x = CHR ''o'' \<or> x = CHR ''O'' then digits_in_base 8 r
          else if x = CHR ''b'' \<or> x = CHR ''B'' then digits_in_base 2 r
          else None
      | _ \<Rightarrow> None)"

definition exponent_part :: "string \<Rightarrow> int option" where
  "exponent_part e =
     (case e of
        [] \<Rightarrow> Some 0
      | _ # r \<Rightarrow>
          (case r of
             c # ds \<Rightarrow>
               if c = CHR ''+'' then map_option int (digits_in_base 10 ds)
               else if c = CHR ''-'' then map_option (\<lambda>n. - int n) (digits_in_base 10 ds)
               else map_option int (digits_in_base 10 r)
           | [] \<Rightarrow> None))"

definition unsigned_decimal :: "string \<Rightarrow> NumberValue option" where
  "unsigned_decimal t =
     (if t = ''Infinity'' then Some (Infty False)
      else
        (let is_e = (\<lambda>c. c = CHR ''e'' \<or> c = CHR ''E'');
             mant = takeWhile (\<lambda>c. \<not> is_e c) t;
             ex = dropWhile (\<lambda>c. \<not> is_e c) t;
             ip = takeWhile (\<lambda>c. c \<noteq> CHR ''.'') mant;
             fr = drop 1 (dropWhile (\<lambda>c. c \<noteq> CHR ''.'') mant)
         in if list_all (is_base_digit 10) ip \<and> list_all (is_base_digit 10) fr \<and> (ip \<noteq> [] \<or> fr \<noteq> [])
            then map_option
                   (\<lambda>e. Num ((of_nat (digits_value 10 ip) + of_nat (digits_value 10 fr) / 10 ^ length fr) *
                              (if 0 \<le> e then 10 ^ nat e else 1 / 10 ^ nat (- e))))
                   (exponent_part ex)
            else None))"

fun negate_number :: "NumberValue \<Rightarrow> NumberValue" where
  "negate_number (Num r) = Num (- r)"
| "negate_number (Infty neg) = Infty (\<not> neg)"
| "negate_number NaN = NaN"

definition js_Number :: "string \<Rightarrow> NumberValue" where
  "js_Number s =
     (let t = js_trim s in
      if t = [] then Num 0
      else
        (case non_decimal_literal t of
           Some n \<Rightarrow> Num (of_nat n)
         | None \<Rightarrow>
             (case (case t of
                      c # r \<Rightarrow>
                        if c = CHR ''+'' then unsigned_decimal r
                        else if c = CHR ''-'' then map_option negate_number (unsigned_decimal r)
                        else unsigned_decimal t
                    | [] \<Rightarrow> None) of
                None \<Rightarrow> NaN
              | Some v \<Rightarrow> v)))"

text \<open>
  \<open>setHours(h, m, 0, 0)\<close> applies MakeTime, which makes the date invalid when a field
  is not finite and otherwise truncates each field towards zero (ToIntegerOrInfinity).
  \<open>time_field\<close> is that reading of one \<open>Number\<close>.
\<close>

definition time_field :: "NumberValue \<Rightarrow> int option" where
  "time_field v =
     (case v of Num r \<Rightarrow> Some (if 0 \<le> r then \<lfloor>r\<rfloor> else \<lceil>r\<rceil>) | _ \<Rightarrow> None)"

text \<open>\<open>const [hours, minutes] = time.split(':').map(Number)\<close>; a missing piece is
  \<open>undefined\<close>, which \<open>setHours\<close> reads as \<open>NaN\<close>.\<close>

definition time_parts :: "string \<Rightarrow> int option \<times> int option" where
  "time_parts time =
     (let parts = map js_Number (js_split (CHR '':'') time)
      in (time_field (parts ! 0), if 2 \<le> length parts then time_field (parts ! 1) else None))"

definition setHours :: "js_date \<Rightarrow> int option \<Rightarrow> int option \<Rightarrow> js_date option" where
  "setHours d h m =
     (case (h, m) of
        (Some hh, Some mm) \<Rightarrow> Some (d - d mod day_ms + hh * 3600000 + mm * 60000)
      | _ \<Rightarrow> None)"

definition setTimeout_delay :: "int option \<Rightarrow> int" where
  "setTimeout_delay d = (case d of None \<Rightarrow> 0 | Some x \<Rightarrow> max 0 x)"

definition scheduleLocalNotification ::
  "NotificationPermission \<Rightarrow> js_date \<Rightarrow> string \<Rightarrow> string \<Rightarrow> string \<Rightarrow> Timer option" where
  "scheduleLocalNotification permission now title body time =
     (if permission \<noteq> Granted then None
      else
        (let (hours, minutes) = time_parts time;
             scheduledTime = setHours now hours minutes;
             scheduledTime' = map_option (\<lambda>s. if s \<le> now then s + day_ms else s) scheduledTime;
             timeUntilNotification = map_option (\<lambda>s. s - now) scheduledTime'
         in Some \<lparr>timer_delay = setTimeout_delay timeUntilNotification,
                  timer_title = title, timer_body = body\<rparr>))"

section \<open>Properties\<close>

lemma scheduleLocalNotification_parsed:
  assumes "time_parts time = (Some h, Some m)"
  shows "scheduleLocalNotification Granted now title body time =
    Some \<lparr>timer_delay =
            (let s = now - now mod day_ms + (h * 3600000 + m * 60000)
             in max 0 ((if s \<le> now then s + day_ms else s) - now)),
          timer_title = title, timer_body = body\<rparr>"
  using assms by (simp add: scheduleLocalNotification_def setHours_def setTimeout_delay_def Let_def)

text \<open>
  Claim C26. For a time whose hours and minutes read as a valid clock time (hours in
  0..23, minutes in 0..59), the armed
  timer fires at the next local occurrence of that time: after a delay in
  (0, 24 h], at a moment whose time of day is exactly \<open>HH:MM\<close>.
\<close>

theorem schedule_next_occurrence:
  assumes "time_parts time = (Some h, Some m)" and "0 \<le> h" and "h < 24" and "0 \<le> m" and "m < 60"
  shows "\<exists>t. scheduleLocalNotification Granted now title body time = Some t \<and>
           0 < timer_delay t \<and> timer_delay t \<le> day_ms \<and>
           (now + timer_delay t) mod day_ms = h * 3600000 + m * 60000"
proof -
  let ?T = "h * 3600000 + m * 60000" and ?r = "now mod day_ms"
  have T: "0 \<le> ?T" "?T < day_ms" using assms(2-5) by (simp_all add: day_ms_def)
  have r: "0 \<le> ?r" "?r < day_ms" by (simp_all add: day_ms_def)
  obtain q where now: "now = day_ms * q + ?r" by (metis div_mult_mod_eq mult.commute)
  let ?d = "(if now - ?r + ?T \<le> now then now - ?r + ?T + day_ms else now - ?r + ?T) - now"
  have d: "0 < ?d \<and> ?d \<le> day_ms"
  proof (cases "now - ?r + ?T \<le> now")
    case True
    then have "?d = ?T - ?r + day_ms" by simp
    with T r True show ?thesis by (intro conjI) linarith+
  next
    case False
    then have "?d = ?T - ?r" by simp
    with T r False show ?thesis by (intro conjI) linarith+
  qed
  have md: "(now + ?d) mod day_ms = ?T"
  proof (cases "?T \<le> ?r")
    case True
    then have "now + ?d = day_ms * (q + 1) + ?T" by (subst (1 2) now) (simp add: algebra_simps)
    with T show ?thesis by simp
  next
    case False
    then have "now + ?d = day_ms * q + ?T" by (subst (1 2) now) (simp add: algebra_simps)
    with T show ?thesis by simp
  qed
  let ?t = "\<lparr>timer_delay = ?d, timer_title = title, timer_body = body\<rparr>"
  have s: "scheduleLocalNotification Granted now title body time = Some ?t"
    using d by (simp only: scheduleLocalNotification_parsed [OF assms(1)] Let_def
        max_absorb2 [OF less_imp_le [OF conjunct1 [OF d]]])
  show ?thesis
  proof (intro exI conjI)
    show "scheduleLocalNotification Granted now title body time = Some ?t" by (rule s)
    show "0 < timer_delay ?t" using d by simp
    show "timer_delay ?t \<le> day_ms" using d by simp
    show "(now + timer_delay ?t) mod day_ms = ?T" using md by simp
  qed
qed

theorem schedule_next_occurrence_witness:
  "time_parts ''08:30'' = (Some 8, Some 30) \<and> (0::int) \<le> 8 \<and> (8::int) < 24 \<and>
   (0::int) \<le> 30 \<and> (30::int) < 60 \<and>
   (\<exists>t. scheduleLocalNotification Granted (3 * 86400000 + 9 * 3600000) ''Bom dia'' ''ola''
      ''08:30'' = Some t \<and> 0 < timer_delay t \<and> timer_delay t \<le> day_ms \<and>
      (3 * 86400000 + 9 * 3600000 + timer_delay t) mod day_ms = 8 * 3600000 + 30 * 60000)"
proof -
  have p: "time_parts ''08:30'' = (Some 8, Some 30)"
    by (simp add: time_parts_def js_Number_def js_trim_def is_js_space_def non_decimal_literal_def unsigned_decimal_def exponent_part_def digits_in_base_def digits_value_def digit_val_def is_base_digit_def time_field_def)
  have t: "\<exists>t. scheduleLocalNotification Granted (3 * 86400000 + 9 * 3600000) ''Bom dia'' ''ola''
      ''08:30'' = Some t \<and> 0 < timer_delay t \<and> timer_delay t \<le> day_ms \<and>
      (3 * 86400000 + 9 * 3600000 + timer_delay t) mod day_ms = 8 * 3600000 + 30 * 60000"
    by (rule schedule_next_occurrence [OF p]) simp_all
  show ?thesis using p t by simp
qed

text \<open>
  Claim C27. Without the granted permission no timer is armed; with it, a time whose
  hours or minutes do not parse (an empty input, a missing colon, letters) arms a
  timer with delay 0, so the notification is shown at once.
\<close>

theorem schedule_errors:
  "(permission \<noteq> Granted \<longrightarrow> scheduleLocalNotification permission now title body time = None) \<and>
   (fst (time_parts time) = None \<or> snd (time_parts time) = None \<longrightarrow>
      scheduleLocalNotification Granted now title body time =
        Some \<lparr>timer_delay = 0, timer_title = title, timer_body = body\<rparr>)"
  by (auto simp: scheduleLocalNotification_def setHours_def setTimeout_delay_def
      split: prod.split option.split)

theorem schedule_errors_witness:
  "(Denied \<noteq> Granted \<and> scheduleLocalNotification Denied 0 ''t'' ''b'' ''08:00'' = None) \<and>
   fst (time_parts ''8h30'') = None \<and>
   scheduleLocalNotification Granted 5 ''t'' ''b'' ''8h30'' =
     Some \<lparr>timer_delay = 0, timer_title = ''t'', timer_body = ''b''\<rparr> \<and>
   time_parts '' 8:30'' = (Some 8, Some 30)"
proof -
  have p: "fst (time_parts ''8h30'') = None" by (simp add: time_parts_def js_Number_def js_trim_def is_js_space_def non_decimal_literal_def unsigned_decimal_def exponent_part_def digits_in_base_def digits_value_def digit_val_def is_base_digit_def time_field_def)
  have q: "time_parts '' 8:30'' = (Some 8, Some 30)" by (simp add: time_parts_def js_Number_def js_trim_def is_js_space_def non_decimal_literal_def unsigned_decimal_def exponent_part_def digits_in_base_def digits_value_def digit_val_def is_base_digit_def time_field_def)
  show ?thesis
    using schedule_errors [of Denied 0 "''t''" "''b''" "''08:00''"]
      schedule_errors [of Granted 5 "''t''" "''b''" "''8h30''"] p q
    by simp
qed

text \<open>
  Claim C34. The permission request resolves to true exactly when the API exists and
  the permission ends granted; it asks the user exactly when the API exists and the
  permission is still the default, and only then can the permission change.
\<close>

theorem requestNotificationPermission_spec:
  "(permission_result (requestNotificationPermission has_api p answer) \<longleftrightarrow>
      has_api \<and> permission_after (requestNotificationPermission has_api p answer) = Granted) \<and>
   (prompted (requestNotificationPermission has_api p answer) \<longleftrightarrow> has_api \<and> p = Default) \<and>
   permission_after (requestNotificationPermission has_api p answer) =
     (if prompted (requestNotificationPermission has_api p answer) then answer else p)"
  by (cases p) (simp_all add: requestNotificationPermission_def)

end
