(* ===== verification/Onboarding_View.thy ===== *)
theory Onboarding_View
  imports Complex_Main Onboarding
begin

text \<open>
  What the onboarding wizard renders (\<open>app/onboarding/page.tsx\<close>): the inputs of each
  step with the values they show (below), and around the steps the
  progress bar, whose label reads \<open>Math.round((step / totalSteps) * 100)\<close> percent and
  whose width is \<open>(step / totalSteps) * 100\<close> percent, and the label of the forward
  button, "Come\<dots>ar" on the last step and "Continuar" before. The division is exact in
  \<open>rat\<close>; \<open>Math.round\<close> is \<open>round\<close> (\<open>\<lfloor>x + 1/2\<rfloor>\<close>, as JavaScript rounds).
\<close>

definition progress_percent :: "int \<Rightarrow> int" where
  "progress_percent step = round (of_int step / of_int totalSteps * 100 :: rat)"

definition bar_width :: "int \<Rightarrow> rat" where
  "bar_width step = of_int step / of_int totalSteps * 100"

definition next_label :: "int \<Rightarrow> string" where
  "next_label step = (if step = totalSteps then ''Come'' @ c_ced # ''ar'' else ''Continuar'')"

text \<open>
  The inputs each step renders (lines 136--472), as widgets holding what they show. The
  text inputs are controlled with \<open>value={formData.x || ''}\<close>; the age input shows
  \<open>formData.age || ''\<close>, so a stored 0 shows an empty field; a sign button is
  highlighted (\<open>variant='default'\<close>) when it is the stored sign; a checkbox is
  \<open>checked={formData.list!.includes(item)}\<close>, whose \<open>!\<close> throws on a missing list;
  the time inputs show \<open>formData.time\<close> as it is. Labels, placeholders and styling are
  left out; a checkbox keeps its group and item (its \<open>id\<close> is \<open>group-item\<close>, its label the
  item), the music-prompt checkbox its label.
\<close>

datatype Widget =
    TextInput string string
  | NumberInput string "int option"
  | OptionButton string bool
  | CheckBox string string bool
  | TimeInput string "string option"

definition shown_text :: "string option \<Rightarrow> string" where
  "shown_text v = (case v of None \<Rightarrow> [] | Some x \<Rightarrow> x)"

definition shown_number :: "int option \<Rightarrow> int option" where
  "shown_number v = (case v of None \<Rightarrow> None | Some n \<Rightarrow> if n = 0 then None else Some n)"

definition checkboxes ::
    "string \<Rightarrow> string list \<Rightarrow> string list option \<Rightarrow> OnboardingError + Widget list" where
  "checkboxes prefix opts v =
     (case v of
        None \<Rightarrow> Inl UndefinedArray
      | Some xs \<Rightarrow> Inr (map (\<lambda>item. CheckBox prefix item (item \<in> set xs)) opts))"

definition step1_view :: "FormData \<Rightarrow> Widget list" where
  "step1_view fd =
     [TextInput ''name'' (shown_text (fd_name fd)), NumberInput ''age'' (shown_number (fd_age fd)),
      TextInput ''gender'' (shown_text (fd_gender fd))]"

definition step2_view :: "FormData \<Rightarrow> Widget list" where
  "step2_view fd =
     [TextInput ''country'' (shown_text (fd_country fd)),
      TextInput ''timezone'' (shown_text (fd_timezone fd))] @
     map (\<lambda>z. OptionButton z (fd_zodiacSign fd = Some z)) ZODIAC_SIGNS"

definition step3_view :: "FormData \<Rightarrow> OnboardingError + Widget list" where
  "step3_view fd =
     (case checkboxes ''food'' FOOD_PREFERENCES (fd_foodPreferences fd) of
        Inl err \<Rightarrow> Inl err
      | Inr foods \<Rightarrow>
          (case checkboxes ''movie'' MOVIE_GENRES (fd_movieGenres fd) of
             Inl err \<Rightarrow> Inl err
           | Inr genres \<Rightarrow>
               (case checkboxes ''music'' MUSIC_STYLES (fd_musicStyles fd) of
                  Inl err \<Rightarrow> Inl err
                | Inr styles \<Rightarrow> Inr (foods @ genres @ styles))))"

definition step4_view :: "FormData \<Rightarrow> OnboardingError + Widget list" where
  "step4_view fd =
     (case checkboxes ''goal'' MAIN_GOALS (fd_mainGoal fd) of
        Inl err \<Rightarrow> Inl err
      | Inr goals \<Rightarrow>
          Inr (goals @ [CheckBox ''suno'' (''Quero receber prompts para criar m'' @ u_acu # ''sicas no Suno'') (fd_wantsSunoPrompts fd = Some True)]))"

definition step5_view :: "FormData \<Rightarrow> Widget list" where
  "step5_view fd =
     [TimeInput ''morning'' (fd_morningTime fd), TimeInput ''afternoon'' (fd_afternoonTime fd),
      TimeInput ''night'' (fd_nightTime fd)]"

definition onboarding_view :: "OnboardingState \<Rightarrow> OnboardingError + Widget list" where
  "onboarding_view s =
     (let fd = formData s in
      if ob_step s = 1 then Inr (step1_view fd)
      else if ob_step s = 2 then Inr (step2_view fd)
      else if ob_step s = 3 then step3_view fd
      else if ob_step s = 4 then step4_view fd
      else if ob_step s = 5 then Inr (step5_view fd)
      else Inr [])"

text \<open>
  What an input event should leave on screen: the input it came from shows the value
  entered (the age input an empty field for 0 or an unparsable entry, which store 0), a
  sign button is the only highlighted one, a checkbox flips, the times show the time
  picked. "Continuar" and "Voltar" are not inputs.
\<close>

fun shows_input :: "OnboardingState \<Rightarrow> OnboardingEvent \<Rightarrow> Widget list \<Rightarrow> bool" where
  "shows_input s (SetName v) ws = (TextInput ''name'' v \<in> set ws)"
| "shows_input s (SetAge v) ws =
     (NumberInput ''age'' (case v of None \<Rightarrow> None | Some n \<Rightarrow> if n = 0 then None else Some n) \<in> set ws)"
| "shows_input s (SetGender v) ws = (TextInput ''gender'' v \<in> set ws)"
| "shows_input s (SetCountry v) ws = (TextInput ''country'' v \<in> set ws)"
| "shows_input s (SetTimezone v) ws = (TextInput ''timezone'' v \<in> set ws)"
| "shows_input s (SetZodiac z) ws =
     (OptionButton z True \<in> set ws \<and> (\<forall>z'. OptionButton z' True \<in> set ws \<longrightarrow> z' = z))"
| "shows_input s (ToggleFood x) ws =
     (CheckBox ''food'' x (x \<notin> set (the (fd_foodPreferences (formData s)))) \<in> set ws)"
| "shows_input s (ToggleMovie x) ws =
     (CheckBox ''movie'' x (x \<notin> set (the (fd_movieGenres (formData s)))) \<in> set ws)"
| "shows_input s (ToggleMusic x) ws =
     (CheckBox ''music'' x (x \<notin> set (the (fd_musicStyles (formData s)))) \<in> set ws)"
| "shows_input s (ToggleGoal x) ws =
     (CheckBox ''goal'' x (x \<notin> set (the (fd_mainGoal (formData s)))) \<in> set ws)"
| "shows_input s (SetSuno b) ws = (\<exists>l. CheckBox ''suno'' l b \<in> set ws)"
| "shows_input s (SetMorningTime v) ws = (TimeInput ''morning'' (Some v) \<in> set ws)"
| "shows_input s (SetAfternoonTime v) ws = (TimeInput ''afternoon'' (Some v) \<in> set ws)"
| "shows_input s (SetNightTime v) ws = (TimeInput ''night'' (Some v) \<in> set ws)"
| "shows_input s Next ws = True"
| "shows_input s Back ws = True"

lemma progress_percent_eq: "progress_percent step = 20 * step"
proof -
  have eq: "of_int step / of_int totalSteps * 100 = (of_int (20 * step) :: rat)"
    by (simp add: totalSteps_def)
  show ?thesis unfolding progress_percent_def by (simp only: eq round_of_int)
qed

lemma bar_width_eq: "bar_width step = of_int (20 * step)"
  by (simp add: bar_width_def totalSteps_def)

lemma checkboxes_Some:
  "checkboxes prefix opts (Some xs) = Inr (map (\<lambda>item. CheckBox prefix item (item \<in> set xs)) opts)"
  by (simp add: checkboxes_def)

lemma onboarding_inv_lists:
  assumes "onboarding_inv s"
  obtains fs gs ms os where
    "fd_foodPreferences (formData s) = Some fs" "fd_movieGenres (formData s) = Some gs"
    "fd_musicStyles (formData s) = Some ms" "fd_mainGoal (formData s) = Some os"
  using assms by (auto simp: onboarding_inv_def options_list_def split: option.splits)

lemma onboarding_view_inv:
  assumes "onboarding_inv s"
  shows "\<exists>ws. onboarding_view s = Inr ws \<and> ws \<noteq> []"
proof -
  obtain fs gs ms os where l:
    "fd_foodPreferences (formData s) = Some fs" "fd_movieGenres (formData s) = Some gs"
    "fd_musicStyles (formData s) = Some ms" "fd_mainGoal (formData s) = Some os"
    using assms by (rule onboarding_inv_lists)
  have "1 \<le> ob_step s" "ob_step s \<le> 5" using assms by (simp_all add: onboarding_inv_def totalSteps_def)
  then have "ob_step s = 1 \<or> ob_step s = 2 \<or> ob_step s = 3 \<or> ob_step s = 4 \<or> ob_step s = 5" by auto
  then show ?thesis using l
    by (elim disjE) (simp_all add: onboarding_view_def Let_def step1_view_def step2_view_def step3_view_def
        step4_view_def step5_view_def checkboxes_Some FOOD_PREFERENCES_def MAIN_GOALS_def)
qed

lemma onboarding_reachable_step: "onboarding_reachable s \<Longrightarrow> 1 \<le> ob_step s \<and> ob_step s \<le> 5"
  using onboarding_reachable_inv [of s] by (simp add: onboarding_inv_def totalSteps_def)

text \<open>
  Claim C32. In every reachable state of the wizard the progress label and the bar agree
  at \<open>20 * step\<close> percent, between 20 and 100, and the forward button reads
  "Come\<dots>ar" exactly when the bar is full.
\<close>

theorem onboarding_progress_bar:
  assumes "onboarding_reachable s"
  shows "progress_percent (ob_step s) = 20 * ob_step s \<and>
         bar_width (ob_step s) = of_int (progress_percent (ob_step s)) \<and>
         20 \<le> progress_percent (ob_step s) \<and> progress_percent (ob_step s) \<le> 100 \<and>
         (next_label (ob_step s) = ''Come'' @ c_ced # ''ar'' \<longleftrightarrow> progress_percent (ob_step s) = 100)"
  using onboarding_reachable_step [OF assms]
  by (simp add: progress_percent_eq bar_width_eq next_label_def totalSteps_def)

theorem onboarding_progress_bar_witness:
  "onboarding_reachable (onboarding_init sample_store) \<and>
   progress_percent (ob_step (onboarding_init sample_store)) = 20 \<and>
   next_label (ob_step (onboarding_init sample_store)) = ''Continuar''"
proof -
  have r: "onboarding_reachable (onboarding_init sample_store)"
    by (rule onboarding_reachable.start) (simp add: sample_store_def)
  show ?thesis
    using onboarding_progress_bar [OF r] r by (simp add: onboarding_init_def next_label_def totalSteps_def)
qed

text \<open>
  Claim C36. The wizard renders every reachable state: each step shows its inputs, and
  the \<open>formData.list!\<close> of the checkboxes never meets a missing list.
\<close>

theorem onboarding_view_renders:
  assumes "onboarding_reachable s"
  shows "\<exists>ws. onboarding_view s = Inr ws \<and> ws \<noteq> []"
  using onboarding_view_inv [OF onboarding_reachable_inv [OF assms]] .

theorem onboarding_view_renders_witness:
  "onboarding_reachable (onboarding_init sample_store) \<and>
   (\<exists>ws. onboarding_view (onboarding_init sample_store) = Inr ws \<and> ws \<noteq> [])"
proof -
  have r: "onboarding_reachable (onboarding_init sample_store)"
    by (rule onboarding_reachable.start) (simp add: sample_store_def)
  show ?thesis using onboarding_view_renders [OF r] r by blast
qed

text \<open>
  Claim C35. Round trip of the controlled inputs: after any input the user makes in a
  reachable state, the re-rendered step shows it: the text and time inputs the text
  entered, the age input the number (empty for 0 or a cleared field), the chosen sign as
  the only highlighted one, and the toggled checkbox flipped.
\<close>

theorem wizard_inputs_echo:
  assumes "onboarding_reachable s" and "enabled s e" and "onboarding_event e s = Inr s'"
  shows "\<exists>ws. onboarding_view s' = Inr ws \<and> shows_input s e ws"
proof -
  have inv: "onboarding_inv s" using assms(1) by (rule onboarding_reachable_inv)
  obtain fs gs ms os where l:
    "fd_foodPreferences (formData s) = Some fs" "fd_movieGenres (formData s) = Some gs"
    "fd_musicStyles (formData s) = Some ms" "fd_mainGoal (formData s) = Some os"
    using inv by (rule onboarding_inv_lists)
  have r': "onboarding_reachable s'" using assms by (rule onboarding_reachable.step)
  obtain ws where ws: "onboarding_view s' = Inr ws"
    using onboarding_view_inv [OF onboarding_reachable_inv [OF r']] by blast
  have "shows_input s e ws"
    using assms(2,3) ws l
    by (cases e)
       (auto simp: onboarding_view_def step1_view_def step2_view_def step3_view_def step4_view_def
          step5_view_def checkboxes_Some set_form_def toggle_field_def shown_text_def shown_number_def
          toggleArrayItem_set Let_def image_iff split: option.splits if_splits)
  with ws show ?thesis by blast
qed

theorem wizard_inputs_echo_witness:
  "onboarding_reachable (onboarding_init sample_store) \<and>
   enabled (onboarding_init sample_store) (SetAge (Some 0)) \<and>
   onboarding_event (SetAge (Some 0)) (onboarding_init sample_store) =
     Inr (set_form (onboarding_init sample_store)
            ((formData (onboarding_init sample_store))\<lparr>fd_age := Some 0\<rparr>)) \<and>
   (\<exists>ws. onboarding_view (set_form (onboarding_init sample_store)
            ((formData (onboarding_init sample_store))\<lparr>fd_age := Some 0\<rparr>)) = Inr ws \<and>
         NumberInput ''age'' None \<in> set ws)"
proof -
  have r: "onboarding_reachable (onboarding_init sample_store)"
    by (rule onboarding_reachable.start) (simp add: sample_store_def)
  have en: "enabled (onboarding_init sample_store) (SetAge (Some 0))"
    by (simp add: onboarding_init_def)
  have ev: "onboarding_event (SetAge (Some 0)) (onboarding_init sample_store) =
     Inr (set_form (onboarding_init sample_store)
            ((formData (onboarding_init sample_store))\<lparr>fd_age := Some 0\<rparr>))"
    by simp
  show ?thesis using wizard_inputs_echo [OF r en ev] r en ev by simp
qed

end
