(* ===== verification/Service_Worker.thy ===== *)
theory Service_Worker
  imports Prelude
begin

text \<open>
  The module-level code of \<open>src/src/lib/notifications.ts\<close> (lines 1--13), which runs
  when the module is evaluated: \<open>'serviceWorker' in navigator\<close> decides whether to add
  a listener for the window's \<open>load\<close> event, and the listener calls
  \<open>navigator.serviceWorker.register('/sw.js')\<close> and chains \<open>.then(log success)\<close> and
  \<open>.catch(log failure)\<close> on the promise it returns. A settled promise is a value of
  \<open>string + 'a\<close>: \<open>Inr v\<close> fulfilled with \<open>v\<close>, \<open>Inl e\<close> rejected with \<open>e\<close>;
  \<open>promise_then\<close> and \<open>promise_catch\<close> are the two combinators (a callback returns its
  effects and the promise it settles). The effects are a trace of events (the listener
  added, the registration call, the console lines). Where no \<open>navigator\<close> exists (a
  server render) the \<open>in\<close> operator throws a \<open>ReferenceError\<close> while the module is
  evaluated. The browser's answer to the registration is an input.
\<close>

datatype SWEffect = AddLoadListener | RegisterCalled string | ConsoleLog string

datatype RegisterResult = Registered | RegisterFailed string

datatype BrowserEnv = NoNavigator | HasNavigator bool

type_synonym 'a settled = "string + 'a"

definition promise_then :: "'a settled \<Rightarrow> ('a \<Rightarrow> SWEffect list \<times> 'b settled) \<Rightarrow> SWEffect list \<times> 'b settled" where
  "promise_then p f = (case p of Inr v \<Rightarrow> f v | Inl e \<Rightarrow> ([], Inl e))"

definition promise_catch :: "'a settled \<Rightarrow> (string \<Rightarrow> SWEffect list \<times> 'a settled) \<Rightarrow> SWEffect list \<times> 'a settled" where
  "promise_catch p h = (case p of Inl e \<Rightarrow> h e | Inr v \<Rightarrow> ([], Inr v))"

text \<open>The promise \<open>register('/sw.js')\<close> returns, settled by the browser's answer.\<close>

definition register_promise :: "RegisterResult \<Rightarrow> unit settled" where
  "register_promise res = (case res of Registered \<Rightarrow> Inr () | RegisterFailed e \<Rightarrow> Inl e)"

definition sw_load_listener :: "RegisterResult \<Rightarrow> SWEffect list \<times> unit settled" where
  "sw_load_listener res =
     (let (e1, p1) = promise_then (register_promise res) (\<lambda>registration. ([ConsoleLog ''Service Worker registrado com sucesso:''], Inr ()));
          (e2, p2) = promise_catch p1 (\<lambda>error. ([ConsoleLog ''Falha ao registrar Service Worker:''], Inr ()))
      in (RegisterCalled ''/sw.js'' # e1 @ e2, p2))"

text \<open>
  The module body: the exception of its evaluation, or its effects and the listeners
  it leaves on the window's \<open>load\<close> event.
\<close>

definition sw_module ::
    "BrowserEnv \<Rightarrow> string + SWEffect list \<times> (RegisterResult \<Rightarrow> SWEffect list \<times> unit settled) list" where
  "sw_module env =
     (case env of
        NoNavigator \<Rightarrow> Inl ''ReferenceError: navigator is not defined''
      | HasNavigator has_service_worker \<Rightarrow>
          Inr (if has_service_worker then ([AddLoadListener], [sw_load_listener]) else ([], [])))"

text \<open>
  Evaluating the module and then firing the window's \<open>load\<close> event once, which calls
  its listeners in order with the browser's answer: the trace and the settled promises.
\<close>

definition sw_page_load ::
    "BrowserEnv \<Rightarrow> RegisterResult \<Rightarrow> string + SWEffect list \<times> unit settled list" where
  "sw_page_load env res =
     (case sw_module env of
        Inl err \<Rightarrow> Inl err
      | Inr (effects, listeners) \<Rightarrow>
          (let outcomes = map (\<lambda>l. l res) listeners
           in Inr (effects @ concat (map fst outcomes), map snd outcomes)))"

section \<open>Properties\<close>

text \<open>A chain that ends in a \<open>catch\<close> whose handler settles fulfilled settles fulfilled.\<close>

lemma promise_catch_fulfilled:
  assumes "\<And>e. \<exists>v. snd (h e) = Inr v"
  shows "\<exists>v. snd (promise_catch p h) = Inr v"
  using assms by (cases p) (auto simp: promise_catch_def)

lemma sw_load_listener_fulfilled: "snd (sw_load_listener res) = Inr ()"
proof -
  have "\<exists>v. snd (promise_catch p (\<lambda>error. ([ConsoleLog ''Falha ao registrar Service Worker:''], Inr ()))) = Inr v" for p :: "unit settled"
    by (rule promise_catch_fulfilled) simp
  then show ?thesis by (simp add: sw_load_listener_def split_def Let_def)
qed

lemma sw_load_listener_trace:
  "fst (sw_load_listener res) =
     [RegisterCalled ''/sw.js'', ConsoleLog (case res of Registered \<Rightarrow> ''Service Worker registrado com sucesso:'' | RegisterFailed _ \<Rightarrow> ''Falha ao registrar Service Worker:'')]"
  by (cases res) (simp_all add: sw_load_listener_def register_promise_def promise_then_def promise_catch_def)

text \<open>
  Claim C37. Error behaviour of the registration: evaluated without a \<open>navigator\<close> (a
  server render) the module throws a \<open>ReferenceError\<close>; in a browser, a page load
  registers \<open>/sw.js\<close> exactly once when service workers are supported and never
  otherwise, logs exactly one line, the failure line exactly when the registration is
  rejected (the \<open>then\<close> callback being skipped), and the promise chain always ends
  fulfilled, so no rejection goes unhandled.
\<close>

theorem sw_registration:
  "(\<exists>err. sw_page_load NoNavigator res = Inl err) \<and>
   sw_page_load (HasNavigator has_sw) res =
     Inr (if has_sw
          then ([AddLoadListener, RegisterCalled ''/sw.js'',
                 ConsoleLog (case res of Registered \<Rightarrow> ''Service Worker registrado com sucesso:'' | RegisterFailed _ \<Rightarrow> ''Falha ao registrar Service Worker:'')],
                [Inr ()])
          else ([], []))"
  using sw_load_listener_trace [of res] sw_load_listener_fulfilled [of res]
  by (simp add: sw_page_load_def sw_module_def prod_eq_iff)

end
