(* ===== verification/Result_Views.thy ===== *)
theory Result_Views
  imports Morning_Page Afternoon_Page Night_Page
begin

text \<open>
  The result cards of the three moment pages: what each page shows once the engine has
  answered (\<open>step === 'result' && advice && \<dots>\<close>). A card is a list of blocks, the main
  text and the labelled blocks rendered under \<open>{x && (\<dots>)}\<close>, which JavaScript shows
  only for a present, non-empty string. Headings, icons, emoji and styling are left out.
\<close>

datatype ResultBlock = MainText string | Labelled string string

definition shown_opt :: "string \<Rightarrow> string option \<Rightarrow> ResultBlock list" where
  "shown_opt label v = (case v of None \<Rightarrow> [] | Some t \<Rightarrow> if t = [] then [] else [Labelled label t])"

definition morning_blocks :: "AIResponse \<Rightarrow> ResultBlock list" where
  "morning_blocks a =
     MainText (advice a) # shown_opt (''A'' @ c_ced # a_til # ''o para hoje:'') (action a) @ shown_opt ''Prompt para o Suno:'' (sunoPrompt a)"

definition afternoon_blocks :: "AIResponse \<Rightarrow> ResultBlock list" where
  "afternoon_blocks a =
     (if advice a = [] then [] else [MainText (advice a)]) @ shown_opt (''Sugest'' @ a_til # ''o:'') (suggestion a) @
     shown_opt (''A'' @ c_ced # a_til # ''o recomendada:'') (action a) @ shown_opt ''Prompt para o Suno:'' (sunoPrompt a)"

definition night_blocks :: "AIResponse \<Rightarrow> string \<Rightarrow> ResultBlock list" where
  "night_blocks a positives =
     MainText (advice a) # shown_opt (''Para amanh'' @ a_til # '':'') (action a) @ shown_opt (''M'' @ u_acu # ''sica para relaxar:'') (sunoPrompt a) @
     (if positives = [] then [] else [Labelled ''As tuas 3 coisas positivas:'' positives]) @ [MainText (''Descansa bem. Amanh'' @ a_til # '' '' @ e_acu # '' um novo dia cheio de possibilidades.'')]"

definition morning_result_view :: "MorningPage \<Rightarrow> ResultBlock list option" where
  "morning_result_view s =
     (if mp_step s = MorningResult then map_option morning_blocks (mp_advice s) else None)"

definition afternoon_result_view :: "AfternoonPage \<Rightarrow> ResultBlock list option" where
  "afternoon_result_view s =
     (if ap_step s = AfternoonResult then map_option afternoon_blocks (ap_suggestion s) else None)"

definition night_result_view :: "NightPage \<Rightarrow> ResultBlock list option" where
  "night_result_view s =
     (if np_step s = NightResult
      then map_option (\<lambda>r. night_blocks r (np_positiveThings s)) (np_reflection s) else None)"

fun block_label :: "ResultBlock \<Rightarrow> string" where
  "block_label (MainText _) = []"
| "block_label (Labelled l _) = l"

section \<open>Lemmas\<close>

lemma shown_opt_simps [simp]:
  "shown_opt label None = []"
  "t \<noteq> [] \<Longrightarrow> shown_opt label (Some t) = [Labelled label t]"
  by (simp_all add: shown_opt_def)

lemma morning_blocks_engine:
  "\<exists>a. action (getMorningAdvice m p profile) = Some a \<and>
     morning_blocks (getMorningAdvice m p profile) =
       [MainText (advice (getMorningAdvice m p profile)), Labelled (''A'' @ c_ced # a_til # ''o para hoje:'') a] @
       (if wantsSunoPrompts profile then [Labelled ''Prompt para o Suno:'' (sunoPrompts m)] else [])"
proof -
  obtain a b where ab: "adviceMap m p = advice_action a b" "a \<noteq> []" "b \<noteq> []"
    using adviceMap_shape by blast
  show ?thesis using ab sunoPrompts_nonempty [of m] by (simp add: morning_blocks_def)
qed

section \<open>Properties\<close>

text \<open>
  Claim C38. The morning page shows its card exactly in the result step, and the card of
  every reachable result shows, in this order, the engine's advice for the selected mood
  and priority as the main text, the engine's action under "A\<dots>o para hoje:", and the
  mood's music prompt under "Prompt para o Suno:" exactly when the stored profile asks
  for prompts.
\<close>

theorem morning_card:
  assumes "morning_reachable s"
  shows "(morning_result_view s \<noteq> None \<longleftrightarrow> mp_step s = MorningResult) \<and>
         (mp_step s = MorningResult \<longrightarrow>
           (\<exists>m p profile a. selectedMood s = Some m \<and> selectedPriority s = Some p \<and>
              getUserProfile (mp_store s) = Some profile \<and>
              action (getMorningAdvice m p profile) = Some a \<and>
              morning_result_view s =
                Some ([MainText (advice (getMorningAdvice m p profile)), Labelled (''A'' @ c_ced # a_til # ''o para hoje:'') a] @
                      (if wantsSunoPrompts profile then [Labelled ''Prompt para o Suno:'' (sunoPrompts m)] else []))))"
proof -
  have inv: "morning_inv s" using assms by (rule morning_reachable_inv)
  have shown: "morning_result_view s \<noteq> None \<longleftrightarrow> mp_step s = MorningResult"
    using inv by (auto simp: morning_inv_def morning_result_view_def split: option.splits)
  have "\<exists>m p profile a. selectedMood s = Some m \<and> selectedPriority s = Some p \<and>
          getUserProfile (mp_store s) = Some profile \<and>
          action (getMorningAdvice m p profile) = Some a \<and>
          morning_result_view s =
            Some ([MainText (advice (getMorningAdvice m p profile)), Labelled (''A'' @ c_ced # a_til # ''o para hoje:'') a] @
                  (if wantsSunoPrompts profile then [Labelled ''Prompt para o Suno:'' (sunoPrompts m)] else []))"
    if r: "mp_step s = MorningResult"
  proof -
    obtain m p profile where sel: "selectedMood s = Some m" "selectedPriority s = Some p"
        "getUserProfile (mp_store s) = Some profile" "mp_advice s = Some (getMorningAdvice m p profile)"
      using inv r by (auto simp: morning_inv_def split: option.splits)
    obtain a where "action (getMorningAdvice m p profile) = Some a"
        "morning_blocks (getMorningAdvice m p profile) =
           [MainText (advice (getMorningAdvice m p profile)), Labelled (''A'' @ c_ced # a_til # ''o para hoje:'') a] @
           (if wantsSunoPrompts profile then [Labelled ''Prompt para o Suno:'' (sunoPrompts m)] else [])"
      using morning_blocks_engine by blast
    with sel r show ?thesis by (auto simp: morning_result_view_def)
  qed
  with shown show ?thesis by blast
qed

theorem morning_card_witness:
  "morning_reachable (projr (run_events morning_event [SelectMood Ok, SelectPriority Work ''2026-11-09'' 5]
     (morning_init (saveUserProfile (test_profile [] [] [] True) empty_store)))) \<and>
   (\<exists>a. morning_result_view (projr (run_events morning_event
     [SelectMood Ok, SelectPriority Work ''2026-11-09'' 5]
     (morning_init (saveUserProfile (test_profile [] [] [] True) empty_store)))) =
     Some [MainText (advice (getMorningAdvice Ok Work (test_profile [] [] [] True))),
           Labelled (''A'' @ c_ced # a_til # ''o para hoje:'') a, Labelled ''Prompt para o Suno:'' (sunoPrompts Ok)])"
proof -
  let ?st = "saveUserProfile (test_profile [] [] [] True) empty_store"
  let ?es = "[SelectMood Ok, SelectPriority Work ''2026-11-09'' 5]"
  let ?s = "projr (run_events morning_event ?es (morning_init ?st))"
  have g: "getUserProfile ?st = Some (test_profile [] [] [] True)"
    by (simp add: saveUserProfile_def getUserProfile_def empty_store_def)
  have run: "run_events morning_event ?es (morning_init ?st) = Inr ?s"
    using morning_run_profile [OF g] by simp
  have r0: "morning_reachable (morning_init ?st)"
    by (rule page_reachable.start) (simp add: morning_initial_def morning_init_def)
  have en: "all_enabled morning_enabled morning_event ?es (morning_init ?st)"
    by (simp add: morning_init_def handleMoodSelect_def split: sum.split)
  have r: "morning_reachable ?s" by (rule run_events_reachable [OF r0 en run])
  have st: "mp_step ?s = MorningResult" and sel: "selectedMood ?s = Some Ok" "selectedPriority ?s = Some Work"
      and pr: "getUserProfile (mp_store ?s) = Some (test_profile [] [] [] True)"
    using morning_run_profile [OF g] g by simp_all
  show ?thesis using morning_card [OF r] st sel pr r by auto
qed

text \<open>
  Claim C39. The afternoon card of every engine answer shows the engine's advice as its
  main text, then the engine's suggestion under "Sugest\<dots>o:" for dinner, film and
  creation or the engine's action under "A\<dots>o recomendada:" for advice, and the
  engine's music prompt under "Prompt para o Suno:", which it has exactly for creation
  with prompts wanted.
\<close>

theorem afternoon_card:
  "let R = getAfternoonSuggestion c r profile in
   \<exists>t. (if c = Advice then action R = Some t else suggestion R = Some t) \<and>
     afternoon_blocks R =
       [MainText (advice R), Labelled (if c = Advice then (''A'' @ c_ced # a_til # ''o recomendada:'') else (''Sugest'' @ a_til # ''o:'')) t] @
       (case sunoPrompt R of None \<Rightarrow> [] | Some q \<Rightarrow> [Labelled ''Prompt para o Suno:'' q]) \<and>
     (sunoPrompt R \<noteq> None \<longleftrightarrow> c = Create \<and> wantsSunoPrompts profile)"
proof (cases c)
  case Dinner
  obtain a b where "suggestions_dinner profile r = advice_suggestion a b" "a \<noteq> []" "b \<noteq> []"
    using suggestions_dinner_shape by blast
  with Dinner show ?thesis
    by (simp add: afternoon_blocks_def getAfternoonSuggestion_def suggestions_def)
next
  case Movie
  obtain a b where "suggestions_movie profile r = advice_suggestion a b" "a \<noteq> []" "b \<noteq> []"
    using suggestions_movie_shape by blast
  with Movie show ?thesis
    by (simp add: afternoon_blocks_def getAfternoonSuggestion_def suggestions_def)
next
  case Advice
  obtain a b where "suggestions_advice r = advice_action a b" "a \<noteq> []" "b \<noteq> []"
    using suggestions_advice_shape by blast
  with Advice show ?thesis
    by (simp add: afternoon_blocks_def getAfternoonSuggestion_def suggestions_def)
next
  case Create
  obtain a b where "suggestion (suggestions_create profile r) = Some b" "b \<noteq> []"
      "advice (suggestions_create profile r) = a" "a \<noteq> []" "action (suggestions_create profile r) = None"
      "sunoPrompt (suggestions_create profile r) \<noteq> None \<longleftrightarrow> wantsSunoPrompts profile"
      "sunoPrompt (suggestions_create profile r) \<noteq> Some []"
    using suggestions_create_shape by blast
  with Create show ?thesis
    by (auto simp: afternoon_blocks_def getAfternoonSuggestion_def suggestions_def shown_opt_def
        split: option.splits)
qed

text \<open>
  Claim C40. The night card shows the positive-things block exactly when the text area is
  not empty, and shows the text as typed, while the record saves only its non-blank
  lines: a text made only of blank lines is shown on the card and saved as an empty list.
\<close>

theorem night_positive_card:
  "(Labelled ''As tuas 3 coisas positivas:'' t \<in> set (night_blocks a t) \<longleftrightarrow> t \<noteq> []) \<and>
   (positive_list t = Some [] \<longleftrightarrow>
      t \<noteq> [] \<and> list_all (\<lambda>l. js_trim l = []) (js_split CHR 0x0A t))"
  by (auto simp: night_blocks_def shown_opt_def positive_list_def filter_empty_conv list_all_iff
      split: option.splits)

end
