(* ===== verification/Spec2Isabelle.thy ===== *)
theory Spec2Isabelle
  imports Navigation Notifications Onboarding_View Service_Worker Result_Views
begin

text \<open>
  \<^bold>\<open>A verification development for the 3 Momentos check-in application.\<close>

  The program (a Next.js client under \<open>src/src/\<close>) takes its user through three daily
  check-ins. Each moment page (\<open>app/morning\<close>, \<open>app/afternoon\<close>, \<open>app/night\<close>)
  collects a few answers, asks the advice engine (\<open>lib/ai-responses.ts\<close>) for a canned
  response chosen from static tables by the answers and the stored profile, shows it,
  and saves the raw answers to the local store (\<open>lib/storage.ts\<close>) under the day's
  key, merged into the day's record. The onboarding wizard (\<open>app/onboarding\<close>)
  builds the profile the engine reads; \<open>lib/notifications.ts\<close> holds the
  notification helpers.

  \<^bold>\<open>Layout\<close> (each theory imports the ones it builds on).
  \<^item> \<open>Prelude\<close>: the JavaScript built-ins the sources call (\<open>findIndex\<close>,
    object spread of an optional key, \<open>split\<close>/\<open>join\<close> on one character,
    \<open>trim\<close>), the first-match rule chains, the Latin-1
    letters of the Portuguese texts, and the generic lemmas on them.
  \<^item> \<open>Types\<close>: \<open>lib/types.ts\<close>; every union of string literals is a datatype and
    every interface a record, optional properties as \<open>option\<close>.
  \<^item> \<open>Morning_Advice\<close>, \<open>Afternoon_Advice\<close>, \<open>Night_Advice\<close>: the three
    functions of \<open>ai-responses.ts\<close> with their local tables (\<open>adviceMap\<close>,
    \<open>sunoPrompts\<close>; the four closures of \<open>suggestions\<close>; \<open>reflections\<close>, keyed by
    strings so that a missed lookup is \<open>None\<close>). Lemmas: totality and shape of every
    response, the conditional prompts and their guards, the first-match order and
    fallbacks of the afternoon chains, the advice tiers and their boundaries.
  \<^item> \<open>Storage\<close>: \<open>localStorage\<close> as a record of its three keys holding decoded
    values, with the \<open>typeof window\<close> guard as a flag; \<open>saveDailyInteraction\<close>
    with its \<open>findIndex\<close> merge-or-append. Lemmas: refinement of the save to an
    upsert on the map from (date, user) to the record (\<open>log_map\<close>, \<open>upsert\<close>), the
    invariant of one record per key, the frame of a save, insert-then-lookup with the
    merge, the equivalence of the index-based save with the one-pass reference
    \<open>upsert_list\<close>, the profile round trip, the reset and the server-side no-ops.
  \<^item> \<open>Notifications\<close>: the permission request with the user's answer as an input,
    JavaScript's \<open>Number()\<close> on strings (white space, sign, fraction, exponent,
    radix prefixes, \<open>Infinity\<close>; exact rationals in place of doubles), and
    \<open>scheduleLocalNotification\<close> on a millisecond clock in local time. Lemmas:
    the timer fires at the next occurrence of HH:MM within (0, 24h], and the error
    paths (no permission, an unparsable time firing at once).
  \<^item> \<open>Onboarding\<close>: the five-step wizard. Its state (step, the partial form, the
    store, the route), one event per bound handler, the events the rendered page
    offers (\<open>enabled\<close>: the \<open>step === k\<close> blocks, the option lists, the disabled
    buttons), and the reachable states as an inductive relation. Lemmas by rule
    induction: the step stays in 1..5 with every earlier step valid, no offered event
    fails (the \<open>!\<close> assertions and the final cast), and a saved profile is complete
    with its lists drawn from the option lists.
  \<^item> \<open>Page_Common\<close>: what the moment pages share: \<open>profile.id || 'user'\<close>, the
    error of a \<open>!\<close> met with null, runs of events, and the reachable states of a page
    as one step relation over its initial states, offered events and handler, with
    the induction rule its invariants use and the composition of runs.
  \<^item> \<open>Onboarding_Liveness\<close>: from every reachable state of the wizard a run of
    offered events (fill what the step requires, press "Continuar") completes it; the
    proof is by induction on the steps left.
  \<^item> \<open>Onboarding_View\<close>: the wizard's progress bar (the rounded percentage of its
    label and the width of the bar, in \<open>rat\<close>) and the label of the forward button.
    The inputs each step renders (\<open>step1_view\<close> .. \<open>step5_view\<close>, one per
    \<open>step === k\<close> block), with the values the controlled inputs show. Lemmas: in every
    reachable state the progress label and bar read \<open>20 * step\<close> percent, in 20..100,
    and the button reads "Come\<dots>ar" exactly when the bar is full; every reachable
    state renders (the checkboxes' \<open>!\<close> never meets a missing list); and after every
    input the re-rendered step shows it (a round trip of the controlled inputs, with the
    age 0 shown as an empty field).
  \<^item> \<open>Result_Views\<close>: the result cards of the three moment pages as lists of
    blocks, a labelled block shown only for a present non-empty string. Lemmas: the
    morning card appears exactly in the result step with the engine's advice, action and
    (exactly when wanted) prompt; the afternoon card's blocks by concern; the night
    card shows the positive things as typed whenever the text is not empty, while the
    record keeps only the non-blank lines.
  \<^item> \<open>Service_Worker\<close>: the module body of \<open>notifications.ts\<close> (lines 1--13) as a
    trace of effects, with the environment (no \<open>navigator\<close> on a server render,
    service workers supported or not) and the registration outcome as inputs; the
    promise chain is built from \<open>then\<close> and \<open>catch\<close> combinators on settled promises.
    Lemma: without a \<open>navigator\<close> the module throws; in a browser \<open>/sw.js\<close> is
    registered once per page load exactly when supported, one line is logged (the
    failure line exactly on a rejection), and the chain always settles fulfilled.
  \<^item> \<open>Morning_Page\<close>, \<open>Afternoon_Page\<close>, \<open>Night_Page\<close>: each page's hooks as a
    record with the store and the pushed route, its handlers (the redirect to the
    onboarding when no profile is stored, the call of the engine, the save), its
    buttons and what it offers in each step. Lemmas: no offered event throws, the
    result shows the engine's answer for the selections, the flows save the moment
    into today's record, the slider keeps the engine's rating input in 0..10, the
    afternoon redo keeps the rating and overwrites the saved answer, the split of the
    night text, and "Pular" saving what was typed.
  \<^item> \<open>Home_Page\<close>, \<open>Settings_Page\<close>, \<open>Profile_Page\<close>: \<open>app/page.tsx\<close>
    (the loading flag, \<open>checkOnboarding\<close> with its redirect and greeting, the moment
    cards and header buttons), \<open>app/settings/page.tsx\<close> (\<open>showConfirm\<close>, the
    danger-zone buttons, \<open>handleReset\<close>) and \<open>app/profile/page.tsx\<close> (the read of
    the profile with its redirect, the rendered cards as \<open>profile_view\<close>, the two
    buttons). Lemma: the profile page shows every displayed field faithfully.
  \<^item> \<open>Navigation\<close>: the whole application. A screen is one mounted page;
    \<open>mount\<close> is the route table of \<open>src/src/app\<close> (a path without a page is
    \<open>NotFound\<close>); \<open>navigate\<close> follows the redirects a page pushes while mounting and
    is a \<open>partial_function (option)\<close>, so a redirect cycle would be \<open>None\<close>;
    \<open>app_step\<close> runs the handler of the shown page and follows its push. The
    reachable screens start from \<open>/\<close> over a store this application wrote
    (\<open>store_ok\<close>: a profile exactly when the flag reads \<open>'true'\<close>). Lemmas: the
    invariant \<open>app_inv\<close> of every reachable screen by rule induction; navigation
    always terminates after at most one redirect; no offered event fails; the wizard is
    shown only without a profile; the profile is written only by the wizard's last step
    and erased only by the confirmed reset; the reset flow; and liveness: from every
    reachable screen a run of offered events reaches the loaded home page.
  \<^item> This theory: the properties across components: no profile the wizard can save
    triggers a preference rule of the afternoon engine (the capitalised option labels
    never equal the engine's lower-case keywords), and a whole day through the three
    pages leaves one record with all three answers.

  \<^bold>\<open>Modelling conventions.\<close> JavaScript numbers that the sources fill with
  integers are \<open>int\<close>; a \<open>Date\<close> is its millisecond count, and a handler that reads
  the clock (\<open>new Date()\<close>, \<open>toISOString().split('T')[0]\<close>) takes the time and the
  day's ISO date as inputs of its event. Strings are Latin-1 \<open>char\<close> lists (every
  literal the properties depend on is in Latin-1); emoji are datatype constructors.
  The advice tables are rebuilt on every call in the source, so the in-place
  \<open>response.sunoPrompt = \<dots>\<close> is a record update of the returned value. A React
  state update is applied when its handler returns, which is when the source's next
  render sees it. The pages' events carry only the values their widgets can produce
  (the slider's integers 0..10, the listed options); no fuel or bound is needed: every
  handler is a total function and every run is structural recursion on the events. The
  one recursion that could loop, the router following a page's redirect, is a
  \<open>partial_function (option)\<close> proved to return \<open>Some\<close> on every input. A router
  push is taken as immediate: the next event is on the new page.

  \<^bold>\<open>Not modelled.\<close> Styling, icons, emoji and the static texts of the pages
  (headings, explanations, the settings page's information cards), which hold no state
  and call nothing; what is rendered from state is modelled (the profile cards, the
  wizard's inputs and progress bar, the result cards). The Next.js router itself is
  modelled only as mounting the page of a pushed route. The service worker's own
  script \<open>/sw.js\<close> is not part of \<open>src/\<close>; its registration is modelled, the console
  output only as trace events. JSON encoding in local storage (the store holds the
  typed values); the \<open>setTimeout\<close> callback's \<open>new Notification\<close>; other tabs or
  scripts writing the store (\<open>store_ok\<close> assumes only this application writes it).
\<close>

section \<open>Properties across components\<close>

lemma onboarding_keyword_misses:
  "(''saud'' @ a_acu # ''vel'') \<notin> set FOOD_PREFERENCES" "''fast food'' \<notin> set FOOD_PREFERENCES"
  "''massa'' \<notin> set FOOD_PREFERENCES" "''sushi'' \<notin> set FOOD_PREFERENCES"
  "(''com'' @ e_acu # ''dia'') \<notin> set MOVIE_GENRES" "''drama'' \<notin> set MOVIE_GENRES"
  "(''a'' @ c_ced # a_til # ''o'') \<notin> set MOVIE_GENRES" "''romance'' \<notin> set MOVIE_GENRES"
  "''pop'' \<notin> set MUSIC_STYLES" "''gospel'' \<notin> set MUSIC_STYLES"
  "''kizomba'' \<notin> set MUSIC_STYLES"
  by (simp_all add: FOOD_PREFERENCES_def MOVIE_GENRES_def MUSIC_STYLES_def)

text \<open>
  Claim C1. The onboarding form offers the preferences capitalised (\<open>'Massa'\<close>,
  \<open>'Com\<dots>dia'\<close>, \<open>'Pop'\<close>, \<open>'Saud\<dots>vel'\<close>) while the afternoon engine tests
  lower-case strings (\<open>'massa'\<close>, \<open>'com\<dots>dia'\<close>, \<open>'pop'\<close>, \<open>'saud\<dots>vel'\<close>).
  So for every profile the wizard can store, and every rating, the dinner and movie
  concerns give their generic responses and the create concern its generic one: no
  preference rule of the engine ever fires.
\<close>

theorem onboarding_profiles_miss_preference_rules:
  assumes "onboarding_reachable s" and "ls_user_profile (ob_store s) = Some p"
  shows "getAfternoonSuggestion Dinner r p =
           advice_suggestion
             (''Escolhe algo que te fa'' @ c_ced # ''a sentir bem.'')
             (''Um prato que gostes, feito com calma. A comida tamb'' @ e_acu # ''m '' @ e_acu # '' autocuidado.'') \<and>
         getAfternoonSuggestion Movie r p =
           advice_suggestion
             (''Escolhe algo que te apete'' @ c_ced # ''a ver.'')
             (''Segue a tua intui'' @ c_ced # a_til # ''o. O melhor filme '' @ e_acu # '' aquele que te chama agora.'') \<and>
         getAfternoonSuggestion Create r p =
           (if wantsSunoPrompts p then
              advice_suggestion_prompt
                (''Expressa o que sentes atrav'' @ e_acu # ''s da m'' @ u_acu # ''sica.'')
                (''Cria algo aut'' @ e_cir # ''ntico, que reflita o teu momento atual.'')
                (''Cria uma m'' @ u_acu # ''sica que expresse os sentimentos de hoje, aut'' @ e_cir # ''ntica e pessoal'')
            else
              advice_suggestion
                (''Criar '' @ e_acu # '' uma forma poderosa de expressar o que sentes.'')
                (''Escreve, desenha, fotografa... deixa a criatividade fluir sem julgamento.''))"
proof -
  have "profile_ok p"
    using onboarding_reachable_inv [OF assms(1)] assms(2) by (simp add: onboarding_inv_def)
  then have sub: "set (foodPreferences p) \<subseteq> set FOOD_PREFERENCES"
      "set (movieGenres p) \<subseteq> set MOVIE_GENRES" "set (musicStyles p) \<subseteq> set MUSIC_STYLES"
    by (simp_all add: profile_ok_def)
  have miss:
    "(''saud'' @ a_acu # ''vel'') \<notin> set (foodPreferences p)" "''fast food'' \<notin> set (foodPreferences p)"
    "''massa'' \<notin> set (foodPreferences p)" "''sushi'' \<notin> set (foodPreferences p)"
    "(''com'' @ e_acu # ''dia'') \<notin> set (movieGenres p)" "''drama'' \<notin> set (movieGenres p)"
    "(''a'' @ c_ced # a_til # ''o'') \<notin> set (movieGenres p)" "''romance'' \<notin> set (movieGenres p)"
    "''pop'' \<notin> set (musicStyles p)" "''gospel'' \<notin> set (musicStyles p)"
    "''kizomba'' \<notin> set (musicStyles p)"
    using sub onboarding_keyword_misses by blast+
  then show ?thesis
    by (simp add: getAfternoonSuggestion_def suggestions_def suggestions_dinner_def
        suggestions_movie_def suggestions_create_def Let_def)
qed

theorem onboarding_profiles_miss_preference_rules_witness:
  "onboarding_reachable (projr (onboarding_run sample_signup (onboarding_init sample_store))) \<and>
   ls_user_profile (ob_store (projr (onboarding_run sample_signup (onboarding_init sample_store)))) =
     Some \<lparr>profile_id = None, name = ''Ana'', age = 30, country = ''Portugal'',
      timezone = ''Europe/Lisbon'', zodiacSign = ''Touro'', gender = None,
      foodPreferences = [''Massa''], movieGenres = [''Drama''], musicStyles = [''Pop''],
      wantsSunoPrompts = True, mainGoal = [''Reduzir ansiedade''],
      morningTime = ''08:00'', afternoonTime = ''15:00'', nightTime = ''21:00'',
      createdAt = None\<rparr> \<and>
   getAfternoonSuggestion Dinner 9
     \<lparr>profile_id = None, name = ''Ana'', age = 30, country = ''Portugal'',
      timezone = ''Europe/Lisbon'', zodiacSign = ''Touro'', gender = None,
      foodPreferences = [''Massa''], movieGenres = [''Drama''], musicStyles = [''Pop''],
      wantsSunoPrompts = True, mainGoal = [''Reduzir ansiedade''],
      morningTime = ''08:00'', afternoonTime = ''15:00'', nightTime = ''21:00'',
      createdAt = None\<rparr> =
     advice_suggestion
       (''Escolhe algo que te fa'' @ c_ced # ''a sentir bem.'')
       (''Um prato que gostes, feito com calma. A comida tamb'' @ e_acu # ''m '' @ e_acu # '' autocuidado.'')"
proof -
  have r0: "onboarding_reachable (onboarding_init sample_store)"
    by (rule onboarding_reachable.start) (simp add: sample_store_def)
  have r: "onboarding_reachable (projr (onboarding_run sample_signup (onboarding_init sample_store)))"
    using onboarding_run_reachable [OF r0] sample_signup_run by simp
  show ?thesis
    using r onboarding_profiles_miss_preference_rules [OF r, of _ 9] sample_signup_run by simp
qed

text \<open>
  Claim C6. A day through the three pages: with a stored profile and no record yet for
  today, the morning, afternoon and night flows each succeed, and afterwards the log
  holds one record for the day with all three answers, each moment's save merged into
  the record the earlier ones created.
\<close>

theorem full_day_record:
  assumes "window_defined st" and "getUserProfile st = Some profile"
    and "getTodayInteraction today (page_userId profile) st = None"
  shows "\<exists>s1 s2 s3.
    run_events morning_event [SelectMood m, SelectPriority p today t1] (morning_init st) = Inr s1 \<and>
    run_events afternoon_event [SetRating r, RatingContinue, SelectConcern c today t2]
      (afternoon_init (mp_store s1)) = Inr s2 \<and>
    run_events night_event [SelectComparison d, SelectSelfCare b, SetPositive text, Continue today t3]
      (night_init (ap_store s2)) = Inr s3 \<and>
    getTodayInteraction today (page_userId profile) (np_store s3) =
      Some \<lparr>interaction_id = None, userId = page_userId profile, date = today,
            morning = Some \<lparr>mood = m, priority = p, m_timestamp = t1\<rparr>,
            afternoon = Some \<lparr>dayRating = r, concern = c, a_timestamp = t2\<rparr>,
            night = Some \<lparr>dayComparison = d, didSomethingGood = b,
                          positiveThings = positive_list text, n_timestamp = t3\<rparr>\<rparr>"
  using assms
  by (simp del: run_events.simps
      add: morning_run_profile afternoon_run_profile night_run_profile today_after_moment_save)

theorem full_day_record_witness:
  "window_defined (saveUserProfile (test_profile [] [] [] True) empty_store) \<and>
   getUserProfile (saveUserProfile (test_profile [] [] [] True) empty_store) =
     Some (test_profile [] [] [] True) \<and>
   getTodayInteraction ''2026-11-09'' ''user'' (saveUserProfile (test_profile [] [] [] True) empty_store) = None \<and>
   (\<exists>s1 s2 s3.
    run_events morning_event [SelectMood Tired, SelectPriority Family ''2026-11-09'' 1]
      (morning_init (saveUserProfile (test_profile [] [] [] True) empty_store)) = Inr s1 \<and>
    run_events afternoon_event [SetRating 4, RatingContinue, SelectConcern Advice ''2026-11-09'' 2]
      (afternoon_init (mp_store s1)) = Inr s2 \<and>
    run_events night_event [SelectComparison Better, SelectSelfCare True, SetPositive [],
        Continue ''2026-11-09'' 3] (night_init (ap_store s2)) = Inr s3 \<and>
    getTodayInteraction ''2026-11-09'' ''user'' (np_store s3) =
      Some \<lparr>interaction_id = None, userId = ''user'', date = ''2026-11-09'',
            morning = Some \<lparr>mood = Tired, priority = Family, m_timestamp = 1\<rparr>,
            afternoon = Some \<lparr>dayRating = 4, concern = Advice, a_timestamp = 2\<rparr>,
            night = Some \<lparr>dayComparison = Better, didSomethingGood = True,
                          positiveThings = None, n_timestamp = 3\<rparr>\<rparr>)"
proof -
  have w: "window_defined (saveUserProfile (test_profile [] [] [] True) empty_store)"
    and g: "getUserProfile (saveUserProfile (test_profile [] [] [] True) empty_store) =
              Some (test_profile [] [] [] True)"
    and t: "getTodayInteraction ''2026-11-09'' ''user''
              (saveUserProfile (test_profile [] [] [] True) empty_store) = None"
    by (simp_all add: saveUserProfile_def getUserProfile_def empty_store_def
        getTodayInteraction_def getDailyInteractions_def)
  have u: "page_userId (test_profile [] [] [] True) = ''user''"
    by (simp add: page_userId_def)
  have p: "positive_list [] = None"
    by (simp add: positive_list_def)
  show ?thesis
    using full_day_record [OF w g, of "''2026-11-09''" Tired Family 1 4 Advice 2 Better True "[]" 3]
      w g t u p
    by simp
qed

end
